theory Spec2Isabelle
  imports Main "HOL-Library.Word" "HOL-Library.AList"
begin

section \<open>Errors and status reports\<close>

text \<open>
  A Go \<^verbatim>\<open>error\<close> value. \<open>Errorf f args w\<close> stands for \<^verbatim>\<open>fmt.Errorf(f, args...)\<close>: the
  format string, the operands of the verbs other than \<^verbatim>\<open>%w\<close>, and the operand of
  \<^verbatim>\<open>%w\<close> when the format has one (the error that \<^verbatim>\<open>Unwrap\<close> returns). \<open>External\<close>
  is an error built outside the code modelled here (standard library, host-network layer,
  API client).
\<close>

datatype err =
    Errorf string "fmtArg list" "err option"
  | ErrorsNew string
  | ErrorsJoin "err list"
  | UnderlayRemovedError
  | UnderlayExistsError string
  | External string
and fmtArg = ArgString string | ArgInt int | ArgStrings "string list" | ArgError err

text \<open>
  \<^verbatim>\<open>errors.As\<close>, reduced to its boolean result: the error itself, then what it wraps
  (\<^verbatim>\<open>Unwrap() error\<close> of \<^verbatim>\<open>fmt.Errorf\<close> with \<^verbatim>\<open>%w\<close>, \<^verbatim>\<open>Unwrap() []error\<close> of
  \<^verbatim>\<open>errors.Join\<close>), is tested against the target type, given as a predicate.
\<close>

fun errorsAs :: "(err \<Rightarrow> bool) \<Rightarrow> err \<Rightarrow> bool" where
  "errorsAs p (Errorf f as w) =
     (p (Errorf f as w) \<or> (case w of None \<Rightarrow> False | Some e \<Rightarrow> errorsAs p e))"
| "errorsAs p (ErrorsJoin es) = (p (ErrorsJoin es) \<or> list_ex (errorsAs p) es)"
| "errorsAs p e = p e"

type_synonym uint32 = "32 word"

text \<open>\<^verbatim>\<open>status.ResourceKind\<close> is a string type with four constants.\<close>

type_synonym ResourceKind = string

definition UnderlayKind :: ResourceKind where "UnderlayKind = ''Underlay''"
definition L2VNIKind :: ResourceKind where "L2VNIKind = ''L2VNI''"
definition L3VNIKind :: ResourceKind where "L3VNIKind = ''L3VNI''"
definition L3PassthroughKind :: ResourceKind where "L3PassthroughKind = ''L3Passthrough''"

text \<open>
  The \<^verbatim>\<open>status.StatusReporter\<close> interface has three methods. A function that is handed a
  reporter is modelled as returning the calls it made on it, in order.
\<close>

datatype report =
    ReportResourceSuccess ResourceKind string
  | ReportResourceFailure ResourceKind string err
  | ReportResourceRemoved ResourceKind string

section \<open>API objects\<close>

text \<open>
  The \<^verbatim>\<open>v1alpha1\<close> objects, with the metadata and \<^verbatim>\<open>Spec\<close> fields that the code reads.
\<close>

record LocalCIDRConfig =
  IPv4 :: string
  IPv6 :: string

record HostSession =
  hs_ASN :: uint32
  hs_HostASN :: uint32
  hs_LocalCIDR :: LocalCIDRConfig

record L3VNI =
  l3_Name :: string
  l3_Namespace :: string
  l3_VNI :: uint32
  l3_VRF :: string
  l3_HostSession :: "HostSession option"

record HostMaster =
  hm_Name :: string

record L2VNI =
  l2_Name :: string
  l2_VNI :: uint32
  l2_VRF :: "string option"
  l2_HostMaster :: "HostMaster option"
  l2_L2GatewayIPs :: "string list"

record L3Passthrough =
  pt_Name :: string
  pt_HostSession :: HostSession

record Neighbor =
  nb_ASN :: uint32

record EVPNConfig =
  VTEPCIDR :: string

record Underlay =
  ul_Name :: string
  ul_ASN :: uint32
  ul_Neighbors :: "Neighbor list"
  ul_EVPN :: "EVPNConfig option"
  ul_Nics :: "string list"

section \<open>Interface names\<close>

definition isAsciiLetter :: "char \<Rightarrow> bool" where
  "isAsciiLetter c =
     (c \<in> set ''abcdefghijklmnopqrstuvwxyzABCDEFGHIJKLMNOPQRSTUVWXYZ'')"

definition isInterfaceNameChar :: "char \<Rightarrow> bool" where
  "isInterfaceNameChar c = (isAsciiLetter c \<or> c \<in> set ''0123456789._-'')"

text \<open>\<^verbatim>\<open>interfaceNameRegexp.MatchString\<close> for \<^verbatim>\<open>^[a-zA-Z][a-zA-Z0-9._-]*$\<close>.\<close>

fun interfaceNameRegexp_MatchString :: "string \<Rightarrow> bool" where
  "interfaceNameRegexp_MatchString [] = False"
| "interfaceNameRegexp_MatchString (c # cs) = (isAsciiLetter c \<and> list_all isInterfaceNameChar cs)"

definition isValidInterfaceName :: "string \<Rightarrow> err option" where
  "isValidInterfaceName name =
     (if length name = 0 then Some (Errorf ''interface name cannot be empty'' [] None)
      else if length name > 15 then
        Some (Errorf ''interface name %s can't be longer than 15 characters'' [ArgString name] None)
      else if \<not> interfaceNameRegexp_MatchString name then
        Some (Errorf ''interface name %s contains invalid characters'' [ArgString name] None)
      else None)"

section \<open>Validation of VNIs\<close>

record vni =
  vni_name :: string
  vni_vni :: uint32
  vni_vrfName :: string

definition vnisFromL3VNIs :: "L3VNI list \<Rightarrow> vni list" where
  "vnisFromL3VNIs l3vnis =
     map (\<lambda>l3vni. \<lparr>vni_name = l3_Name l3vni, vni_vni = l3_VNI l3vni, vni_vrfName = l3_VRF l3vni\<rparr>)
       l3vnis"

text \<open>
  \<^verbatim>\<open>L2VNI.VRFName()\<close> is a method of the API type, declared with it in package
  \<^verbatim>\<open>v1alpha1\<close>; the functions that call it take it as the argument \<open>VRFName\<close>.
\<close>

definition vnisFromL2VNIs :: "(L2VNI \<Rightarrow> string) \<Rightarrow> L2VNI list \<Rightarrow> vni list" where
  "vnisFromL2VNIs VRFName l2vnis =
     map (\<lambda>l2vni. \<lparr>vni_name = l2_Name l2vni, vni_vni = l2_VNI l2vni, vni_vrfName = VRFName l2vni\<rparr>)
       l2vnis"

text \<open>
  The loop of \<^verbatim>\<open>validateVNIs\<close>, from the point where the two maps hold \<open>existingVrfs\<close>
  and \<open>existingVNIs\<close>.
\<close>

fun validateVNIs_loop ::
  "(string \<rightharpoonup> string) \<Rightarrow> (uint32 \<rightharpoonup> string) \<Rightarrow> vni list \<Rightarrow> ResourceKind
     \<Rightarrow> err option \<times> report list" where
  "validateVNIs_loop existingVrfs existingVNIs [] kind = (None, [])"
| "validateVNIs_loop existingVrfs existingVNIs (v # vnis) kind =
     (case isValidInterfaceName (vni_vrfName v) of
        Some e \<Rightarrow>
          (let validationErr = Errorf ''invalid vrf name for vni %s: %s - %w''
                 [ArgString (vni_name v), ArgString (vni_vrfName v)] (Some e)
           in (Some validationErr, [ReportResourceFailure kind (vni_name v) validationErr]))
      | None \<Rightarrow>
          (case existingVrfs (vni_vrfName v) of
             Some existing \<Rightarrow>
               (let validationErr = Errorf ''duplicate vrf %s: %s - %s''
                      [ArgString (vni_vrfName v), ArgString existing, ArgString (vni_name v)] None
                in (Some validationErr, [ReportResourceFailure kind (vni_name v) validationErr]))
           | None \<Rightarrow>
               (case existingVNIs (vni_vni v) of
                  Some existingVNI \<Rightarrow>
                    (let validationErr = Errorf ''duplicate vni %d:%s - %s''
                           [ArgInt (uint (vni_vni v)), ArgString existingVNI, ArgString (vni_name v)] None
                     in (Some validationErr,
                         [ReportResourceFailure kind (vni_name v) validationErr]))
                | None \<Rightarrow>
                    validateVNIs_loop (existingVrfs(vni_vrfName v \<mapsto> vni_name v))
                      (existingVNIs(vni_vni v \<mapsto> vni_name v)) vnis kind)))"

definition validateVNIs :: "vni list \<Rightarrow> ResourceKind \<Rightarrow> err option \<times> report list" where
  "validateVNIs vnis kind = validateVNIs_loop Map.empty Map.empty vnis kind"

definition ValidateL3VNIs :: "L3VNI list \<Rightarrow> err option \<times> report list" where
  "ValidateL3VNIs l3Vnis =
     (case validateVNIs (vnisFromL3VNIs l3Vnis) L3VNIKind of
        (Some e, reports) \<Rightarrow> (Some e, reports)
      | (None, reports) \<Rightarrow> (None, reports))"

text \<open>
  The second loop of \<^verbatim>\<open>ValidateL2VNIs\<close>. Of \<^verbatim>\<open>ipfamily.ForCIDRStrings\<close> only the error
  result is used; the function is the argument \<open>ForCIDRStrings\<close>.
\<close>

fun validateL2Specific :: "(string list \<Rightarrow> err option) \<Rightarrow> L2VNI list \<Rightarrow> err option \<times> report list"
  where
  "validateL2Specific ForCIDRStrings [] = (None, [])"
| "validateL2Specific ForCIDRStrings (v # l2Vnis) =
     (case (case l2_HostMaster v of
              None \<Rightarrow> None
            | Some hm \<Rightarrow> if hm_Name hm \<noteq> [] then isValidInterfaceName (hm_Name hm) else None) of
        Some e \<Rightarrow>
          (let validationErr = Errorf ''invalid hostmaster name for vni %s: %s - %w''
                 [ArgString (l2_Name v), ArgString (hm_Name (the (l2_HostMaster v)))] (Some e)
           in (Some validationErr, [ReportResourceFailure L2VNIKind (l2_Name v) validationErr]))
      | None \<Rightarrow>
          (case (if length (l2_L2GatewayIPs v) > 0 then ForCIDRStrings (l2_L2GatewayIPs v)
                 else None) of
             Some e \<Rightarrow>
               (let validationErr = Errorf ''invalid l2gatewayips for vni %q = %v: %w''
                      [ArgString (l2_Name v), ArgStrings (l2_L2GatewayIPs v)] (Some e)
                in (Some validationErr,
                    [ReportResourceFailure L2VNIKind (l2_Name v) validationErr]))
           | None \<Rightarrow> validateL2Specific ForCIDRStrings l2Vnis))"

definition ValidateL2VNIs ::
  "(L2VNI \<Rightarrow> string) \<Rightarrow> (string list \<Rightarrow> err option) \<Rightarrow> L2VNI list \<Rightarrow> err option \<times> report list"
  where
  "ValidateL2VNIs VRFName ForCIDRStrings l2Vnis =
     (case validateVNIs (vnisFromL2VNIs VRFName l2Vnis) L2VNIKind of
        (Some e, reports) \<Rightarrow> (Some e, reports)
      | (None, reports) \<Rightarrow>
          (case validateL2Specific ForCIDRStrings l2Vnis of
             (r, reports') \<Rightarrow> (r, reports @ reports')))"

section \<open>Validation of underlays\<close>

text \<open>
  \<^verbatim>\<open>net.ParseCIDR\<close> and \<^verbatim>\<open>(*net.IPNet).Contains\<close> are the standard library's. A function
  that parses takes the parser as its argument \<open>ParseCIDR\<close>, which yields the error or the
  pair of address and network; the types of the two are left open.
\<close>

type_synonym ('ip, 'net) ParseCIDR = "string \<Rightarrow> err + 'ip \<times> 'net"

fun validateNeighbors :: "Underlay \<Rightarrow> Neighbor list \<Rightarrow> err option \<times> report list" where
  "validateNeighbors underlay [] = (None, [])"
| "validateNeighbors underlay (neighbor # neighbors) =
     (if ul_ASN underlay = nb_ASN neighbor then
        (let e = Errorf ''underlay %s local ASN %d must be different from remote ASN %d''
                   [ArgString (ul_Name underlay), ArgInt (uint (ul_ASN underlay)), ArgInt (uint (nb_ASN neighbor))]
                   None
         in (Some e, [ReportResourceFailure UnderlayKind (ul_Name underlay) e]))
      else validateNeighbors underlay neighbors)"

fun validateNics :: "Underlay \<Rightarrow> string list \<Rightarrow> err option \<times> report list" where
  "validateNics underlay [] = (None, [])"
| "validateNics underlay (n # nics) =
     (case isValidInterfaceName n of
        Some e \<Rightarrow>
          (let validationErr = Errorf ''invalid nic name for underlay %s: %s - %w''
                 [ArgString (ul_Name underlay), ArgString n] (Some e)
           in (Some validationErr,
               [ReportResourceFailure UnderlayKind (ul_Name underlay) validationErr]))
      | None \<Rightarrow> validateNics underlay nics)"

text \<open>
  Sequencing of two checks that report: the second runs only when the first returned
  \<^verbatim>\<open>nil\<close>, and the reports of both are kept in order.
\<close>

definition andThen ::
  "err option \<times> report list \<Rightarrow> err option \<times> report list \<Rightarrow> err option \<times> report list" where
  "andThen first rest =
     (case first of
        (Some e, reports) \<Rightarrow> (Some e, reports)
      | (None, reports) \<Rightarrow> (case rest of (r, reports') \<Rightarrow> (r, reports @ reports')))"

text \<open>The body of the loop of \<^verbatim>\<open>ValidateUnderlays\<close>, for one underlay.\<close>

definition validateUnderlay :: "('ip, 'net) ParseCIDR \<Rightarrow> Underlay \<Rightarrow> err option \<times> report list"
  where
  "validateUnderlay ParseCIDR underlay =
     (if ul_ASN underlay = 0 then
        (let e = Errorf ''underlay %s must have a valid ASN'' [ArgString (ul_Name underlay)] None
         in (Some e, [ReportResourceFailure UnderlayKind (ul_Name underlay) e]))
      else
        andThen (validateNeighbors underlay (ul_Neighbors underlay))
       (andThen
          (case ul_EVPN underlay of
             None \<Rightarrow> (None, [])
           | Some evpn \<Rightarrow>
               (case ParseCIDR (VTEPCIDR evpn) of
                  Inl e \<Rightarrow>
                    (let validationErr = Errorf ''invalid vtep CIDR format for underlay %s: %s - %w''
                           [ArgString (ul_Name underlay), ArgString (VTEPCIDR evpn)] (Some e)
                     in (Some validationErr,
                         [ReportResourceFailure UnderlayKind (ul_Name underlay) validationErr]))
                | Inr _ \<Rightarrow> (None, [])))
       (andThen
          (if length (ul_Nics underlay) > 1 then
             (let e = Errorf ''underlay %s can only have one nic, found %d''
                        [ArgString (ul_Name underlay), ArgInt (int (length (ul_Nics underlay)))] None
              in (Some e, [ReportResourceFailure UnderlayKind (ul_Name underlay) e]))
           else (None, []))
          (validateNics underlay (ul_Nics underlay)))))"

fun validateUnderlays_loop ::
  "('ip, 'net) ParseCIDR \<Rightarrow> Underlay list \<Rightarrow> err option \<times> report list" where
  "validateUnderlays_loop ParseCIDR [] = (None, [])"
| "validateUnderlays_loop ParseCIDR (underlay # underlays) =
     andThen (validateUnderlay ParseCIDR underlay) (validateUnderlays_loop ParseCIDR underlays)"

definition ValidateUnderlays ::
  "('ip, 'net) ParseCIDR \<Rightarrow> Underlay list \<Rightarrow> err option \<times> report list" where
  "ValidateUnderlays ParseCIDR underlays =
     (if length underlays > 1 then
        (Some (Errorf ''can't have more than one underlay'' [] None), [])
      else validateUnderlays_loop ParseCIDR underlays)"

section \<open>Validation of host sessions\<close>

record hostSessionInfo =
  hsi_HostSession :: HostSession
  resourceKind :: ResourceKind
  resourceName :: string

definition hsi_Name :: "hostSessionInfo \<Rightarrow> string" where
  "hsi_Name h = resourceKind h @ '' '' @ resourceName h"

definition isValidCIDR :: "('ip, 'net) ParseCIDR \<Rightarrow> string \<Rightarrow> err option" where
  "isValidCIDR ParseCIDR cidr =
     (if cidr = [] then Some (Errorf ''CIDR cannot be empty'' [] None)
      else (case ParseCIDR cidr of
              Inl e \<Rightarrow> Some (Errorf ''invalid CIDR: %s - %w'' [ArgString cidr] (Some e))
            | Inr _ \<Rightarrow> None))"

text \<open>
  \<^verbatim>\<open>cidrsOverlap\<close> returns \<^verbatim>\<open>(false, err)\<close> or \<^verbatim>\<open>(overlap, nil)\<close>: a sum. \<open>Contains\<close> is
  \<^verbatim>\<open>(*net.IPNet).Contains\<close>.
\<close>

definition cidrsOverlap ::
  "('ip, 'net) ParseCIDR \<Rightarrow> ('net \<Rightarrow> 'ip \<Rightarrow> bool) \<Rightarrow> string \<Rightarrow> string \<Rightarrow> err + bool" where
  "cidrsOverlap ParseCIDR Contains cidr1 cidr2 =
     (case ParseCIDR cidr1 of
        Inl err1 \<Rightarrow> Inl (Errorf ''invalid CIDR %s: %v'' [ArgString cidr1, ArgError err1] None)
      | Inr (net1, ipNet1) \<Rightarrow>
          (case ParseCIDR cidr2 of
             Inl err2 \<Rightarrow> Inl (Errorf ''invalid CIDR %s: %v'' [ArgString cidr2, ArgError err2] None)
           | Inr (net2, ipNet2) \<Rightarrow>
               (if Contains ipNet1 net2 \<or> Contains ipNet2 net1 then Inr True else Inr False)))"

text \<open>
  The maps \<^verbatim>\<open>existingCIDRsV4\<close> and \<^verbatim>\<open>existingCIDRsV6\<close> are ranged over, so they are
  association lists: \<^const>\<open>AList.update\<close> is the assignment \<^verbatim>\<open>m[k] = v\<close>, and the
  \<^verbatim>\<open>range\<close> visits the entries in list order (Go leaves the order open; it decides which
  overlapping entry an error message names, never whether there is an error).
\<close>

fun validateCIDR_range ::
  "('ip, 'net) ParseCIDR \<Rightarrow> ('net \<Rightarrow> 'ip \<Rightarrow> bool) \<Rightarrow> hostSessionInfo \<Rightarrow> string
     \<Rightarrow> (string \<times> string) list \<Rightarrow> err option \<times> report list" where
  "validateCIDR_range ParseCIDR Contains session cidr [] = (None, [])"
| "validateCIDR_range ParseCIDR Contains session cidr ((existing, existingVNI) # existingCIDRs) =
     (case cidrsOverlap ParseCIDR Contains existing cidr of
        Inl e \<Rightarrow>
          (Some e, [ReportResourceFailure (resourceKind session) (resourceName session) e])
      | Inr overlap \<Rightarrow>
          (if overlap then
             (let validationErr = Errorf ''overlapping cidrs %s - %s for vnis %s - %s''
                    [ArgString existing, ArgString cidr, ArgString existingVNI, ArgString (hsi_Name session)] None
              in (Some validationErr,
                  [ReportResourceFailure (resourceKind session) (resourceName session)
                     validationErr]))
           else validateCIDR_range ParseCIDR Contains session cidr existingCIDRs))"

definition validateCIDR ::
  "('ip, 'net) ParseCIDR \<Rightarrow> ('net \<Rightarrow> 'ip \<Rightarrow> bool) \<Rightarrow> hostSessionInfo \<Rightarrow> string
     \<Rightarrow> (string \<times> string) list \<Rightarrow> err option \<times> report list" where
  "validateCIDR ParseCIDR Contains session cidr existingCIDRs =
     (case isValidCIDR ParseCIDR cidr of
        Some e \<Rightarrow>
          (let validationErr = Errorf ''invalid local CIDR %s for vni %s: %w''
                 [ArgString cidr, ArgString (hsi_Name session)] (Some e)
           in (Some validationErr,
               [ReportResourceFailure (resourceKind session) (resourceName session)
                  validationErr]))
      | None \<Rightarrow> validateCIDR_range ParseCIDR Contains session cidr existingCIDRs)"

definition hostSessionsFromL3VNIs :: "L3VNI list \<Rightarrow> hostSessionInfo list" where
  "hostSessionsFromL3VNIs l3VNIs =
     concat (map (\<lambda>vni. case l3_HostSession vni of
                          None \<Rightarrow> []
                        | Some hs \<Rightarrow> [\<lparr>hsi_HostSession = hs, resourceKind = L3VNIKind,
                                       resourceName = l3_Name vni\<rparr>]) l3VNIs)"

definition hostSessionsFromL3Passthrough :: "L3Passthrough list \<Rightarrow> hostSessionInfo list" where
  "hostSessionsFromL3Passthrough l3Passthrough =
     map (\<lambda>passthrough. \<lparr>hsi_HostSession = pt_HostSession passthrough,
                          resourceKind = L3PassthroughKind,
                          resourceName = pt_Name passthrough\<rparr>) l3Passthrough"

fun validateHostSessions_loop ::
  "('ip, 'net) ParseCIDR \<Rightarrow> ('net \<Rightarrow> 'ip \<Rightarrow> bool) \<Rightarrow> (string \<times> string) list
     \<Rightarrow> (string \<times> string) list \<Rightarrow> hostSessionInfo list \<Rightarrow> err option \<times> report list" where
  "validateHostSessions_loop ParseCIDR Contains existingCIDRsV4 existingCIDRsV6 [] = (None, [])"
| "validateHostSessions_loop ParseCIDR Contains existingCIDRsV4 existingCIDRsV6 (s # hostSessions) =
     (let hs = hsi_HostSession s; v4 = IPv4 (hs_LocalCIDR hs); v6 = IPv6 (hs_LocalCIDR hs) in
      if hs_HostASN hs = hs_ASN hs then
        (let e = Errorf ''%s local ASN %d must be different from remote ASN %d''
                   [ArgString (hsi_Name s), ArgInt (uint (hs_HostASN hs)), ArgInt (uint (hs_ASN hs))] None
         in (Some e, [ReportResourceFailure (resourceKind s) (resourceName s) e]))
      else
        andThen (if v4 \<noteq> [] then validateCIDR ParseCIDR Contains s v4 existingCIDRsV4
                 else (None, []))
       (andThen (if v6 \<noteq> [] then validateCIDR ParseCIDR Contains s v6 existingCIDRsV6
                 else (None, []))
          (if v4 = [] \<and> v6 = [] then
             (let e = Errorf
                        ''at least one local CIDR (IPv4 or IPv6) must be provided for vni %s''
                        [ArgString (hsi_Name s)] None
              in (Some e, [ReportResourceFailure (resourceKind s) (resourceName s) e]))
           else
             validateHostSessions_loop ParseCIDR Contains
               (if v4 \<noteq> [] then AList.update v4 (hsi_Name s) existingCIDRsV4
                else existingCIDRsV4)
               (if v6 \<noteq> [] then AList.update v6 (hsi_Name s) existingCIDRsV6
                else existingCIDRsV6)
               hostSessions)))"

definition ValidateHostSessions ::
  "('ip, 'net) ParseCIDR \<Rightarrow> ('net \<Rightarrow> 'ip \<Rightarrow> bool) \<Rightarrow> L3VNI list \<Rightarrow> L3Passthrough list
     \<Rightarrow> err option \<times> report list" where
  "ValidateHostSessions ParseCIDR Contains l3VNIs l3Passthrough =
     validateHostSessions_loop ParseCIDR Contains [] []
       (hostSessionsFromL3VNIs l3VNIs @ hostSessionsFromL3Passthrough l3Passthrough)"

section \<open>The reconciliation pipeline\<close>

record ApiConfigData =
  UnderlayFromMultus :: bool
  NodeIndex :: int
  LogLevel :: string
  Underlays :: "Underlay list"
  L3VNIs :: "L3VNI list"
  L2VNIs :: "L2VNI list"
  L3Passthrough :: "L3Passthrough list"

text \<open>
  The parameter types of the host-network layer belong to package \<^verbatim>\<open>hostnetwork\<close>. The
  code here reads the \<^verbatim>\<open>VNI\<close> field of the \<^verbatim>\<open>VNIParams\<close> embedded in \<^verbatim>\<open>L3VNIParams\<close> and
  \<^verbatim>\<open>L2VNIParams\<close> and passes everything else on untouched: the rest is a value of an open
  type \<open>'x\<close>.
\<close>

record 'x VNIParams =
  VNI :: int
  vp_rest :: 'x

record 'x L3VNIParams =
  l3p_VNIParams :: "'x VNIParams"
  l3p_rest :: 'x

record 'x L2VNIParams =
  l2p_VNIParams :: "'x VNIParams"
  l2p_rest :: 'x

record 'x HostConfig =
  hc_Underlay :: 'x
  hc_L3VNIs :: "'x L3VNIParams list"
  hc_L2VNIs :: "'x L2VNIParams list"
  hc_L3Passthrough :: "'x option"

text \<open>
  What the pipeline does to the outside, in order: the calls on the status reporter, the
  call of \<^verbatim>\<open>configureFRR\<close> (the only function that is handed the FRR updater), and the
  calls into the host-network layer.
\<close>

datatype 'x hostCall =
    HasUnderlayInterface string
  | EnsureIPv6Forwarding string
  | SetupUnderlay 'x
  | SetupL3VNI "'x L3VNIParams"
  | SetupL2VNI "'x L2VNIParams"
  | SetupPassthrough 'x
  | RemoveNonConfiguredVNIs string "'x VNIParams list"
  | RemovePassthrough string

datatype 'x event =
    Report report
  | ConfigureFRR string ApiConfigData
  | HostCall "'x hostCall"

text \<open>
  The collaborators of the pipeline. Each answer may depend on everything that happened
  before the call, so the answer is a function of the events so far.
  \<^verbatim>\<open>hostnetwork.HasUnderlayInterface\<close> returns a boolean or an error, the other functions of
  the host-network layer return an error or \<^verbatim>\<open>nil\<close>. \<^verbatim>\<open>conversion.APItoHostConfig\<close> and
  \<^verbatim>\<open>configureFRR\<close> are taken as given, like the host-network layer.
\<close>

record ('x, 'ip, 'net) collaborators =
  netParseCIDR :: "('ip, 'net) ParseCIDR"
  netContains :: "'net \<Rightarrow> 'ip \<Rightarrow> bool"
  l2vniVRFName :: "L2VNI \<Rightarrow> string"
  ipfamilyForCIDRStrings :: "string list \<Rightarrow> err option"
  configureFRR :: "'x event list \<Rightarrow> string \<Rightarrow> ApiConfigData \<Rightarrow> err option"
  APItoHostConfig :: "int \<Rightarrow> string \<Rightarrow> ApiConfigData \<Rightarrow> err + 'x HostConfig"
  hostHasUnderlayInterface :: "'x event list \<Rightarrow> string \<Rightarrow> err + bool"
  hostnetwork :: "'x event list \<Rightarrow> 'x hostCall \<Rightarrow> err option"

text \<open>A step of the pipeline takes the events so far and returns its error and the events extended.\<close>

type_synonym 'x step = "'x event list \<Rightarrow> err option \<times> 'x event list"

definition proceed :: "'x step" where
  "proceed t = (None, t)"

definition thenDo :: "'x step \<Rightarrow> 'x step \<Rightarrow> 'x step" where
  "thenDo first rest t =
     (case first t of (Some e, t') \<Rightarrow> (Some e, t') | (None, t') \<Rightarrow> rest t')"

text \<open>\<^verbatim>\<open>if err := step; err != nil { return fmt.Errorf(f, args..., err) }\<close> with \<^verbatim>\<open>%w\<close> last.\<close>

definition wrapErr :: "string \<Rightarrow> fmtArg list \<Rightarrow> 'x step \<Rightarrow> 'x step" where
  "wrapErr f args step t =
     (case step t of
        (Some e, t') \<Rightarrow> (Some (Errorf f args (Some e)), t')
      | (None, t') \<Rightarrow> (None, t'))"

definition reporting :: "err option \<times> report list \<Rightarrow> 'x step" where
  "reporting r t = (fst r, t @ map Report (snd r))"

definition hostDo :: "('x, 'ip, 'net) collaborators \<Rightarrow> 'x hostCall \<Rightarrow> 'x step" where
  "hostDo c call t = (hostnetwork c t call, t @ [HostCall call])"

text \<open>
  A setup call followed by the report of its outcome for the resource, and the wrapped error
  on failure.
\<close>

definition hostSetup ::
  "('x, 'ip, 'net) collaborators \<Rightarrow> 'x hostCall \<Rightarrow> ResourceKind \<Rightarrow> string \<Rightarrow> string
     \<Rightarrow> fmtArg list \<Rightarrow> 'x step" where
  "hostSetup c call kind name f args t =
     (case hostnetwork c t call of
        Some e \<Rightarrow>
          (Some (Errorf f args (Some e)),
           t @ [HostCall call, Report (ReportResourceFailure kind name e)])
      | None \<Rightarrow> (None, t @ [HostCall call, Report (ReportResourceSuccess kind name)]))"

fun findHostL3VNI :: "'x L3VNIParams list \<Rightarrow> int \<Rightarrow> 'x L3VNIParams option" where
  "findHostL3VNI [] vni = None"
| "findHostL3VNI (hvni # hostL3VNIs) vni =
     (if VNI (l3p_VNIParams hvni) = vni then Some hvni else findHostL3VNI hostL3VNIs vni)"

fun findHostL2VNI :: "'x L2VNIParams list \<Rightarrow> int \<Rightarrow> 'x L2VNIParams option" where
  "findHostL2VNI [] vni = None"
| "findHostL2VNI (hvni # hostL2VNIs) vni =
     (if VNI (l2p_VNIParams hvni) = vni then Some hvni else findHostL2VNI hostL2VNIs vni)"

fun setupL3VNIs :: "('x, 'ip, 'net) collaborators \<Rightarrow> 'x HostConfig \<Rightarrow> L3VNI list \<Rightarrow> 'x step" where
  "setupL3VNIs c hostConfig [] = proceed"
| "setupL3VNIs c hostConfig (l3vni # l3vnis) =
     (case findHostL3VNI (hc_L3VNIs hostConfig) (uint (l3_VNI l3vni)) of
        None \<Rightarrow>
          (\<lambda>t. (Some (Errorf ''unexpected error, no host config found for L3VNI %s with VNI %d''
                         [ArgString (l3_Name l3vni), ArgInt (uint (l3_VNI l3vni))] None), t))
      | Some hostL3VNI \<Rightarrow>
          thenDo (hostSetup c (SetupL3VNI hostL3VNI) L3VNIKind (l3_Name l3vni)
                    ''failed to setup L3VNI %s: %w'' [ArgString (l3_Name l3vni)])
                 (setupL3VNIs c hostConfig l3vnis))"

fun setupL2VNIs :: "('x, 'ip, 'net) collaborators \<Rightarrow> 'x HostConfig \<Rightarrow> L2VNI list \<Rightarrow> 'x step" where
  "setupL2VNIs c hostConfig [] = proceed"
| "setupL2VNIs c hostConfig (l2vni # l2vnis) =
     (case findHostL2VNI (hc_L2VNIs hostConfig) (uint (l2_VNI l2vni)) of
        None \<Rightarrow>
          (\<lambda>t. (Some (Errorf ''unexpected error, no host config found for L2VNI %s with VNI %d''
                         [ArgString (l2_Name l2vni), ArgInt (uint (l2_VNI l2vni))] None), t))
      | Some hostL2VNI \<Rightarrow>
          thenDo (hostSetup c (SetupL2VNI hostL2VNI) L2VNIKind (l2_Name l2vni)
                    ''failed to setup L2VNI %s: %w'' [ArgString (l2_Name l2vni)])
                 (setupL2VNIs c hostConfig l2vnis))"

record interfacesConfiguration =
  targetNamespace :: string
  ic_ApiConfigData :: ApiConfigData

text \<open>
  \<^verbatim>\<open>configureInterfaces\<close> from the point where \<^verbatim>\<open>hostConfig\<close> has been computed: IPv6
  forwarding, the underlay, the VNIs, the passthrough, then the two removals.
\<close>

definition applyHostConfig ::
  "('x, 'ip, 'net) collaborators \<Rightarrow> interfacesConfiguration \<Rightarrow> ApiConfigData \<Rightarrow> 'x HostConfig
     \<Rightarrow> 'x step" where
  "applyHostConfig c config apiConfig hostConfig =
     (let cfg = ic_ApiConfigData config; ns = targetNamespace config in
      thenDo (wrapErr ''failed to ensure IPv6 forwarding: %w'' []
                (hostDo c (EnsureIPv6Forwarding ns)))
     (thenDo (if length (Underlays cfg) > 0 then
                hostSetup c (SetupUnderlay (hc_Underlay hostConfig)) UnderlayKind
                  (ul_Name (hd (Underlays cfg))) ''failed to setup underlay: %w'' []
              else proceed)
     (thenDo (setupL3VNIs c hostConfig (L3VNIs cfg))
     (thenDo (setupL2VNIs c hostConfig (L2VNIs cfg))
     (thenDo (if length (L3Passthrough cfg) > 0 then
                (case hc_L3Passthrough hostConfig of
                   None \<Rightarrow>
                     (\<lambda>t. (Some (Errorf
                                   ''unexpected error, L3Passthrough not found in host config''
                                   [] None), t))
                 | Some passthrough \<Rightarrow>
                     hostSetup c (SetupPassthrough passthrough) L3PassthroughKind
                       (pt_Name (hd (L3Passthrough cfg))) ''failed to setup L3Passthrough %s: %w''
                       [ArgString (pt_Name (hd (L3Passthrough cfg)))])
              else proceed)
     (thenDo (wrapErr ''failed to remove deleted vnis: %w'' []
                (hostDo c (RemoveNonConfiguredVNIs ns
                   (map l3p_VNIParams (hc_L3VNIs hostConfig)
                    @ map l2p_VNIParams (hc_L2VNIs hostConfig)))))
             (if length (L3Passthrough apiConfig) = 0 then
                wrapErr ''failed to remove passthrough: %w'' [] (hostDo c (RemovePassthrough ns))
              else proceed)))))))"

definition configureInterfaces ::
  "('x, 'ip, 'net) collaborators \<Rightarrow> interfacesConfiguration \<Rightarrow> 'x step" where
  "configureInterfaces c config t =
     (let cfg = ic_ApiConfigData config; ns = targetNamespace config;
          t1 = t @ [HostCall (HasUnderlayInterface ns)] in
      case hostHasUnderlayInterface c t ns of
        Inl e \<Rightarrow>
          (Some (Errorf ''failed to check if target namespace %s has underlay: %w'' [ArgString ns]
                   (Some e)), t1)
      | Inr hasAlreadyUnderlay \<Rightarrow>
          if hasAlreadyUnderlay \<and> length (Underlays cfg) = 0 then (Some UnderlayRemovedError, t1)
          else if length (Underlays cfg) = 0 then (None, t1)
          else
            (let apiConfig = \<lparr>UnderlayFromMultus = UnderlayFromMultus cfg,
                              NodeIndex = NodeIndex cfg, LogLevel = [],
                              Underlays = Underlays cfg, L3VNIs = L3VNIs cfg,
                              L2VNIs = L2VNIs cfg, L3Passthrough = L3Passthrough cfg\<rparr> in
             case APItoHostConfig c (NodeIndex cfg) ns apiConfig of
               Inl e \<Rightarrow>
                 (Some (Errorf ''failed to convert config to host configuration: %w'' []
                          (Some e)), t1)
             | Inr hostConfig \<Rightarrow> applyHostConfig c config apiConfig hostConfig t1))"

text \<open>
  \<^verbatim>\<open>nonRecoverableHostError\<close>: \<^verbatim>\<open>errors.As\<close> with a target of type
  \<^verbatim>\<open>UnderlayRemovedError\<close>, then with one of type \<^verbatim>\<open>hostnetwork.UnderlayExistsError\<close>.
  The argument is \<^verbatim>\<open>nil\<close> (\<open>None\<close>) or an error; \<^verbatim>\<open>errors.As(nil, target)\<close> is false.
\<close>

definition isUnderlayRemovedError :: "err \<Rightarrow> bool" where
  "isUnderlayRemovedError e = (case e of UnderlayRemovedError \<Rightarrow> True | _ \<Rightarrow> False)"

definition isUnderlayExistsError :: "err \<Rightarrow> bool" where
  "isUnderlayExistsError e = (case e of UnderlayExistsError _ \<Rightarrow> True | _ \<Rightarrow> False)"

definition nonRecoverableHostError :: "err option \<Rightarrow> bool" where
  "nonRecoverableHostError e =
     (case e of
        None \<Rightarrow> False
      | Some e' \<Rightarrow>
          if errorsAs isUnderlayRemovedError e' then True
          else errorsAs isUnderlayExistsError e')"

definition configureFRR_step ::
  "('x, 'ip, 'net) collaborators \<Rightarrow> string \<Rightarrow> ApiConfigData \<Rightarrow> 'x step" where
  "configureFRR_step c configFile apiConfig t =
     (configureFRR c t configFile apiConfig, t @ [ConfigureFRR configFile apiConfig])"

definition Reconcile ::
  "('x, 'ip, 'net) collaborators \<Rightarrow> ApiConfigData \<Rightarrow> string \<Rightarrow> string \<Rightarrow> 'x step" where
  "Reconcile c apiConfig frrConfigPath targetNS =
     thenDo (wrapErr ''failed to validate underlays: %w'' []
               (reporting (ValidateUnderlays (netParseCIDR c) (Underlays apiConfig))))
    (thenDo (wrapErr ''failed to validate l3vnis: %w'' []
               (reporting (ValidateL3VNIs (L3VNIs apiConfig))))
    (thenDo (wrapErr ''failed to validate l2vnis: %w'' []
               (reporting (ValidateL2VNIs (l2vniVRFName c) (ipfamilyForCIDRStrings c)
                             (L2VNIs apiConfig))))
    (thenDo (wrapErr ''failed to validate host sessions: %w'' []
               (reporting (ValidateHostSessions (netParseCIDR c) (netContains c)
                             (L3VNIs apiConfig) (L3Passthrough apiConfig))))
    (thenDo (wrapErr ''failed to reload frr config: %w'' []
               (configureFRR_step c frrConfigPath apiConfig))
            (wrapErr ''failed to configure the host: %w'' []
               (configureInterfaces c
                  \<lparr>targetNamespace = targetNS, ic_ApiConfigData = apiConfig\<rparr>))))))"

section \<open>The status manager\<close>

record triggerEvent =
  te_Kind :: string
  te_APIVersion :: string
  te_Name :: string
  te_Namespace :: string

text \<open>
  An entry of the failure cache. \<open>fe_ErrorMessage\<close> is \<^verbatim>\<open>fmt.Sprintf("failed: %v", err)\<close>, kept
  as the format and its operand; \<open>fe_Timestamp\<close> is the \<^verbatim>\<open>time.Now()\<close> of the call.
\<close>

record failedResourceCacheEntry =
  fe_ResourceKind :: ResourceKind
  fe_ResourceName :: string
  fe_ErrorMessage :: "string \<times> fmtArg list"
  fe_Timestamp :: int

text \<open>
  The trigger channel is a buffered channel: the events it holds, oldest first, and its
  capacity. A send in a \<^verbatim>\<open>select\<close> with a \<^verbatim>\<open>default\<close> branch goes through when the buffer
  has room and takes the \<^verbatim>\<open>default\<close> branch otherwise. The mutex and the log lines are
  left out.
\<close>

record StatusManager =
  triggerChannel :: "triggerEvent list"
  triggerChannelCap :: nat
  nodeName :: string
  namespace :: string
  failedResourceCache :: "string \<rightharpoonup> failedResourceCacheEntry"

text \<open>
  The three methods of the \<^verbatim>\<open>StatusReporter\<close> interface on \<^verbatim>\<open>*StatusManager\<close> carry the prefix
  \<open>SM_\<close>; the instant that \<^verbatim>\<open>ReportResourceFailure\<close> reads from the clock is its argument
  \<open>now\<close>.
\<close>

definition sendTriggerEvent :: "StatusManager \<Rightarrow> StatusManager" where
  "sendTriggerEvent er =
     (let event = \<lparr>te_Kind = ''StatusTrigger'',
                   te_APIVersion = ''internal.status.openperouter.io/v1'',
                   te_Name = nodeName er, te_Namespace = namespace er\<rparr>
      in if length (triggerChannel er) < triggerChannelCap er
         then er\<lparr>triggerChannel := triggerChannel er @ [event]\<rparr>
         else er)"

definition SM_ReportResourceSuccess :: "StatusManager \<Rightarrow> ResourceKind \<Rightarrow> string \<Rightarrow> StatusManager"
  where
  "SM_ReportResourceSuccess er kind resourceName' =
     (let key = kind @ '':'' @ resourceName'
      in sendTriggerEvent (er\<lparr>failedResourceCache := (failedResourceCache er)(key := None)\<rparr>))"

definition SM_ReportResourceFailure ::
  "StatusManager \<Rightarrow> int \<Rightarrow> ResourceKind \<Rightarrow> string \<Rightarrow> err \<Rightarrow> StatusManager" where
  "SM_ReportResourceFailure er now kind resourceName' e =
     (let errorMessage = (''failed: %v'', [ArgError e]);
          key = kind @ '':'' @ resourceName'
      in sendTriggerEvent
           (er\<lparr>failedResourceCache := (failedResourceCache er)(key \<mapsto>
                 \<lparr>fe_ResourceKind = kind, fe_ResourceName = resourceName',
                  fe_ErrorMessage = errorMessage, fe_Timestamp = now\<rparr>)\<rparr>))"

definition SM_ReportResourceRemoved :: "StatusManager \<Rightarrow> ResourceKind \<Rightarrow> string \<Rightarrow> StatusManager"
  where
  "SM_ReportResourceRemoved er kind resourceName' =
     (let key = kind @ '':'' @ resourceName';
          existed = (failedResourceCache er key \<noteq> None);
          er' = er\<lparr>failedResourceCache := (failedResourceCache er)(key := None)\<rparr>
      in if existed then sendTriggerEvent er' else er')"

section \<open>The status reconciler\<close>

text \<open>
  An instant is an integer, \<open>0\<close> the zero value \<^verbatim>\<open>metav1.Time{}\<close>. A slice that
  \<^verbatim>\<open>reflect.DeepEqual\<close> looks at is an optional list: \<open>None\<close> is the \<^verbatim>\<open>nil\<close> slice, which
  is not deeply equal to an empty one.
\<close>

type_synonym Time = int

record Condition =
  cond_Type :: string
  cond_Status :: string
  cond_ObservedGeneration :: int
  cond_LastTransitionTime :: Time
  cond_Reason :: string
  cond_Message :: string

record FailedResource =
  fr_Kind :: string
  fr_Name :: string
  fr_Message :: string

record RouterNodeConfigurationStatusStatus =
  LastUpdateTime :: "Time option"
  FailedResources :: "FailedResource list option"
  Conditions :: "Condition list option"

text \<open>\<^verbatim>\<open>for i := range conds { conds[i].LastTransitionTime = metav1.Time{} }\<close>, from index \<open>i\<close>.\<close>

function zeroTransitionTimes :: "nat \<Rightarrow> Condition list \<Rightarrow> Condition list" where
  "zeroTransitionTimes i conds =
     (if i < length conds then
        zeroTransitionTimes (Suc i) (conds[i := (conds ! i)\<lparr>cond_LastTransitionTime := 0\<rparr>])
      else conds)"
  by pat_completeness auto
termination
  by (relation "measure (\<lambda>(i, conds). length conds - i)") auto

declare zeroTransitionTimes.simps [simp del]

text \<open>
  \<^verbatim>\<open>statusEqual\<close>. The two \<^verbatim>\<open>DeepCopy\<close> calls give the function values of its own to
  change; \<^verbatim>\<open>reflect.DeepEqual\<close> on the two copies is equality of the values.
\<close>

definition normalizedCopy ::
  "RouterNodeConfigurationStatusStatus \<Rightarrow> RouterNodeConfigurationStatusStatus" where
  "normalizedCopy a =
     (let aCopy = a\<lparr>LastUpdateTime := None\<rparr>
      in case Conditions aCopy of
           None \<Rightarrow> aCopy
         | Some conds \<Rightarrow> aCopy\<lparr>Conditions := Some (zeroTransitionTimes 0 conds)\<rparr>)"

definition statusEqual ::
  "RouterNodeConfigurationStatusStatus \<Rightarrow> RouterNodeConfigurationStatusStatus \<Rightarrow> bool" where
  "statusEqual a b = (normalizedCopy a = normalizedCopy b)"

record OwnerReference =
  or_APIVersion :: string
  or_Kind :: string
  or_Name :: string
  or_UID :: string

record RouterNodeConfigurationStatus =
  rn_Name :: string
  rn_Namespace :: string
  rn_OwnerReferences :: "OwnerReference list"
  rn_Status :: RouterNodeConfigurationStatusStatus

record Node =
  node_Name :: string
  node_UID :: string

record FailedResourceInfo =
  fi_Kind :: ResourceKind
  fi_Name :: string
  fi_ErrorMessage :: string

record StatusSummary =
  ss_FailedResources :: "FailedResourceInfo list"
  ss_LastUpdateTime :: Time

text \<open>The calls on the API client, as the reconciler makes them.\<close>

datatype clientCall =
    ClientGet string string
  | ClientGetNode string
  | ClientCreate RouterNodeConfigurationStatus
  | ClientStatusPatch RouterNodeConfigurationStatus RouterNodeConfigurationStatus

text \<open>
  The reconciler and what it is given: the answers of the API client (each a function of the
  calls so far), \<^verbatim>\<open>errors.IsNotFound\<close>, the summary that the status reader returns, and the
  two readings of the clock (\<^verbatim>\<open>time.Now()\<close> in \<^verbatim>\<open>buildStatus\<close>, \<^verbatim>\<open>metav1.Now()\<close> in
  \<^verbatim>\<open>buildConditions\<close>).
\<close>

record RouterNodeConfigurationStatusReconciler =
  MyNode :: string
  MyNamespace :: string
  GetStatusSummary :: StatusSummary
  timeNow :: Time
  metav1Now :: Time
  clientGet :: "clientCall list \<Rightarrow> string \<Rightarrow> string \<Rightarrow> err + RouterNodeConfigurationStatus"
  clientGetNode :: "clientCall list \<Rightarrow> string \<Rightarrow> err + Node"
  clientCreate :: "clientCall list \<Rightarrow> RouterNodeConfigurationStatus \<Rightarrow> err option"
  clientStatusPatch ::
    "clientCall list \<Rightarrow> RouterNodeConfigurationStatus \<Rightarrow> RouterNodeConfigurationStatus
       \<Rightarrow> err option"
  IsNotFound :: "err \<Rightarrow> bool"

text \<open>\<^verbatim>\<open>%d\<close> of a count.\<close>

function decimal :: "nat \<Rightarrow> string" where
  "decimal n =
     (if n < 10 then [''0123456789'' ! n]
      else decimal (n div 10) @ [''0123456789'' ! (n mod 10)])"
  by pat_completeness auto
termination
  by (relation "measure id") auto

declare decimal.simps [simp del]

definition buildFailureMessageFromCount :: "nat \<Rightarrow> string" where
  "buildFailureMessageFromCount failedCount =
     (if failedCount > 0 then decimal failedCount @ '' resource(s) failed''
      else ''Configuration failed'')"

definition buildConditions :: "RouterNodeConfigurationStatusReconciler \<Rightarrow> nat \<Rightarrow> Condition list"
  where
  "buildConditions r failedCount =
     (let now = metav1Now r;
          readyCondition = \<lparr>cond_Type = ''Ready'', cond_Status = [],
                            cond_ObservedGeneration = 0, cond_LastTransitionTime = now,
                            cond_Reason = [], cond_Message = []\<rparr>;
          degradedCondition = \<lparr>cond_Type = ''Degraded'', cond_Status = [],
                               cond_ObservedGeneration = 0, cond_LastTransitionTime = now,
                               cond_Reason = [], cond_Message = []\<rparr>
      in if failedCount > 0 then
           [readyCondition\<lparr>cond_Status := ''False'', cond_Reason := ''ConfigurationFailed'',
                            cond_Message := ''Some OpenPERouter configurations failed''\<rparr>,
            degradedCondition\<lparr>cond_Status := ''True'', cond_Reason := ''ConfigurationFailed'',
                               cond_Message := buildFailureMessageFromCount failedCount\<rparr>]
         else
           [readyCondition\<lparr>cond_Status := ''True'', cond_Reason := ''ConfigurationSuccessful'',
                            cond_Message := ''All OpenPERouter configurations are successful''\<rparr>,
            degradedCondition\<lparr>cond_Status := ''False'',
                               cond_Reason := ''ConfigurationSuccessful'',
                               cond_Message := ''All configurations are healthy''\<rparr>])"

definition buildStatus ::
  "RouterNodeConfigurationStatusReconciler \<Rightarrow> RouterNodeConfigurationStatusStatus" where
  "buildStatus r =
     (let statusSummary = GetStatusSummary r;
          failedResources =
            map (\<lambda>failed. \<lparr>fr_Kind = fi_Kind failed, fr_Name = fi_Name failed,
                            fr_Message = fi_ErrorMessage failed\<rparr>)
              (ss_FailedResources statusSummary);
          lastUpdate = Some (timeNow r);
          conditions = buildConditions r (length failedResources)
      in \<lparr>LastUpdateTime = lastUpdate, FailedResources = Some failedResources,
          Conditions = Some conditions\<rparr>)"

definition emptyStatus :: RouterNodeConfigurationStatusStatus where
  "emptyStatus = \<lparr>LastUpdateTime = None, FailedResources = None, Conditions = None\<rparr>"

text \<open>
  \<^verbatim>\<open>createRouterNodeStatus\<close>, on the zero-valued object that the failed \<^verbatim>\<open>Get\<close> left.
\<close>

definition createRouterNodeStatus ::
  "RouterNodeConfigurationStatusReconciler \<Rightarrow> clientCall list \<Rightarrow> err option \<times> clientCall list"
  where
  "createRouterNodeStatus r t =
     (let t1 = t @ [ClientGetNode (MyNode r)] in
      case clientGetNode r t (MyNode r) of
        Inl e \<Rightarrow> (Some e, t1)
      | Inr node \<Rightarrow>
          (let routerNodeStatus =
                 \<lparr>rn_Name = MyNode r, rn_Namespace = MyNamespace r,
                  rn_OwnerReferences =
                    [\<lparr>or_APIVersion = ''v1'', or_Kind = ''Node'', or_Name = node_Name node,
                      or_UID = node_UID node\<rparr>],
                  rn_Status = emptyStatus\<rparr>
           in (clientCreate r t1 routerNodeStatus, t1 @ [ClientCreate routerNodeStatus])))"

text \<open>
  The last part of the reconciler's \<^verbatim>\<open>Reconcile\<close>: build the status and patch when it differs.
  The method itself is \<open>StatusReconcile\<close> below, to keep it apart from the \<open>Reconcile\<close> of the
  pipeline.
\<close>

definition patchIfChanged ::
  "RouterNodeConfigurationStatusReconciler \<Rightarrow> RouterNodeConfigurationStatus \<Rightarrow> clientCall list
     \<Rightarrow> err option \<times> clientCall list" where
  "patchIfChanged r routerNodeConfigurationStatus t =
     (let newStatus = buildStatus r in
      if \<not> statusEqual (rn_Status routerNodeConfigurationStatus) newStatus then
        (let base = routerNodeConfigurationStatus;
             patched = routerNodeConfigurationStatus\<lparr>rn_Status := newStatus\<rparr>
         in (clientStatusPatch r t patched base, t @ [ClientStatusPatch patched base]))
      else (None, t))"

definition StatusReconcile ::
  "RouterNodeConfigurationStatusReconciler \<Rightarrow> clientCall list \<Rightarrow> err option \<times> clientCall list"
  where
  "StatusReconcile r t =
     (let t1 = t @ [ClientGet (MyNode r) (MyNamespace r)] in
      case clientGet r t (MyNode r) (MyNamespace r) of
        Inr found \<Rightarrow> patchIfChanged r found t1
      | Inl e \<Rightarrow>
          if \<not> IsNotFound r e then (Some e, t1)
          else
            (case createRouterNodeStatus r t1 of
               (Some e', t2) \<Rightarrow> (Some e', t2)
             | (None, t2) \<Rightarrow>
                 (let t3 = t2 @ [ClientGet (MyNode r) (MyNamespace r)] in
                  case clientGet r t2 (MyNode r) (MyNamespace r) of
                    Inl e' \<Rightarrow> (Some e', t3)
                  | Inr created \<Rightarrow> patchIfChanged r created t3)))"

section \<open>The admission webhook for L3VNIs\<close>

text \<open>\<^verbatim>\<open>admission/v1\<close> operations are strings.\<close>

definition Create :: string where "Create = ''CREATE''"
definition Update :: string where "Update = ''UPDATE''"
definition Delete :: string where "Delete = ''DELETE''"

text \<open>
  The two objects of a request are of type \<^verbatim>\<open>runtime.RawExtension\<close>: the raw bytes, or \<open>None\<close>
  for a \<^verbatim>\<open>nil\<close> slice.
\<close>

record AdmissionRequest =
  Operation :: string
  Object :: "string option"
  OldObject :: "string option"

text \<open>
  An admission response: allowed, denied with the text of an error (\<^verbatim>\<open>err.Error()\<close>, kept
  as the error), or errored with an HTTP status code.
\<close>

datatype Response = Allowed string | Denied err | Errored int err

text \<open>
  What the webhook is given: the decoder, the \<^verbatim>\<open>Size\<close> method of \<^verbatim>\<open>runtime.RawExtension\<close>,
  the two listings of the API client, and the parser and containment test that
  \<^verbatim>\<open>ValidateHostSessions\<close> needs. The package variable
  \<^verbatim>\<open>ValidateL3VNIs\<close> is set at start-up to \<^verbatim>\<open>conversion.ValidateL3VNIs\<close> with a reporter
  that does nothing.
\<close>

record ('ip, 'net) L3VNIValidator =
  Decode :: "AdmissionRequest \<Rightarrow> err + L3VNI"
  DecodeRaw :: "string option \<Rightarrow> err + L3VNI"
  RawExtension_Size :: "string option \<Rightarrow> int"
  WebhookClient_ListL3VNIs :: "err + L3VNI list"
  getL3Passthroughs :: "err + L3Passthrough list"
  wh_ParseCIDR :: "('ip, 'net) ParseCIDR"
  wh_Contains :: "'net \<Rightarrow> 'ip \<Rightarrow> bool"

definition zeroL3VNI :: L3VNI where
  "zeroL3VNI = \<lparr>l3_Name = [], l3_Namespace = [], l3_VNI = 0, l3_VRF = [],
                l3_HostSession = None\<rparr>"

definition getL3VNIs :: "('ip, 'net) L3VNIValidator \<Rightarrow> err + L3VNI list" where
  "getL3VNIs v =
     (case WebhookClient_ListL3VNIs v of
        Inl e \<Rightarrow> Inl (ErrorsJoin [e, ErrorsNew ''failed to get existing L3VNI objects''])
      | Inr l3vniList \<Rightarrow> Inr l3vniList)"

text \<open>The loop of \<^verbatim>\<open>validateL3VNI\<close> that builds \<^verbatim>\<open>toValidate\<close> and \<^verbatim>\<open>found\<close>.\<close>

fun collectToValidate :: "L3VNI \<Rightarrow> L3VNI list \<Rightarrow> L3VNI list \<Rightarrow> bool \<Rightarrow> L3VNI list \<times> bool" where
  "collectToValidate l3vni [] toValidate found = (toValidate, found)"
| "collectToValidate l3vni (existingL3VNI # items) toValidate found =
     (if l3_Name existingL3VNI = l3_Name l3vni \<and> l3_Namespace existingL3VNI = l3_Namespace l3vni
      then collectToValidate l3vni items (toValidate @ [l3vni]) True
      else collectToValidate l3vni items (toValidate @ [existingL3VNI]) found)"

definition validateL3VNI :: "('ip, 'net) L3VNIValidator \<Rightarrow> L3VNI \<Rightarrow> err option" where
  "validateL3VNI v l3vni =
     (case getL3VNIs v of
        Inl e \<Rightarrow> Some e
      | Inr existingL3VNIs \<Rightarrow>
          (let (collected, found) = collectToValidate l3vni existingL3VNIs [] False;
               toValidate = (if \<not> found then collected @ [l3vni] else collected)
           in case fst (ValidateL3VNIs toValidate) of
                Some e \<Rightarrow> Some (Errorf ''validation failed: %w'' [] (Some e))
              | None \<Rightarrow>
                  (case getL3Passthroughs v of
                     Inl e \<Rightarrow> Some e
                   | Inr l3passthroughs \<Rightarrow>
                       (case fst (ValidateHostSessions (wh_ParseCIDR v) (wh_Contains v)
                                    toValidate l3passthroughs) of
                          Some e \<Rightarrow> Some (Errorf ''validation failed: %w'' [] (Some e))
                        | None \<Rightarrow> None))))"

definition localCIDR :: "HostSession option \<Rightarrow> LocalCIDRConfig" where
  "localCIDR hostSession =
     (case hostSession of
        None \<Rightarrow> \<lparr>IPv4 = [], IPv6 = []\<rparr>
      | Some hs \<Rightarrow> hs_LocalCIDR hs)"

definition validateL3VNICreate :: "('ip, 'net) L3VNIValidator \<Rightarrow> L3VNI \<Rightarrow> err option" where
  "validateL3VNICreate v l3vni = validateL3VNI v l3vni"

definition validateL3VNIUpdate :: "('ip, 'net) L3VNIValidator \<Rightarrow> L3VNI \<Rightarrow> L3VNI \<Rightarrow> err option"
  where
  "validateL3VNIUpdate v l3vni oldL3VNI =
     (if localCIDR (l3_HostSession oldL3VNI) \<noteq> localCIDR (l3_HostSession l3vni)
      then Some (ErrorsNew ''LocalCIDR cannot be changed'')
      else validateL3VNI v l3vni)"

definition validateL3VNIDelete :: "L3VNI \<Rightarrow> err option" where
  "validateL3VNIDelete l3vni = None"

text \<open>The \<^verbatim>\<open>switch\<close> of \<^verbatim>\<open>Handle\<close>, on the decoded objects.\<close>

definition handleDecoded ::
  "('ip, 'net) L3VNIValidator \<Rightarrow> string \<Rightarrow> L3VNI \<Rightarrow> L3VNI \<Rightarrow> Response" where
  "handleDecoded v operation l3vni oldL3VNI =
     (case (if operation = Create then validateL3VNICreate v l3vni
            else if operation = Update then validateL3VNIUpdate v l3vni oldL3VNI
            else if operation = Delete then validateL3VNIDelete l3vni
            else None) of
        Some e \<Rightarrow> Denied e
      | None \<Rightarrow> Allowed [])"

definition Handle :: "('ip, 'net) L3VNIValidator \<Rightarrow> AdmissionRequest \<Rightarrow> Response" where
  "Handle v req =
     (if Operation req = Delete then
        (case DecodeRaw v (OldObject req) of
           Inl e \<Rightarrow> Errored 400 e
         | Inr l3vni \<Rightarrow> handleDecoded v (Operation req) l3vni zeroL3VNI)
      else
        (case Decode v req of
           Inl e \<Rightarrow> Errored 400 e
         | Inr l3vni \<Rightarrow>
             if RawExtension_Size v (OldObject req) > 0 then
               (case DecodeRaw v (OldObject req) of
                  Inl e \<Rightarrow> Errored 400 e
                | Inr oldL3VNI \<Rightarrow> handleDecoded v (Operation req) l3vni oldL3VNI)
             else handleDecoded v (Operation req) l3vni zeroL3VNI))"

section \<open>The host network and the converter, as the specification describes them\<close>

text \<open>
  Modelled from the spec: the host-network layer (package \<^verbatim>\<open>hostnetwork\<close>) is not among the
  sources, only the calls into it are. The specification says what the calls do: ``ensure
  IPv6 forwarding enabled in the target namespace'', ``for each L3VNI create/update its
  VRF+VXLAN; for each L2VNI create/update its bridge+VXLAN; if a Passthrough exists,
  create/update it; finally remove any previously-configured VNI (by VNI number) no longer
  present in the desired set, and remove the Passthrough config if none is declared
  anymore''. The state of a namespace, as far as these calls change it: whether IPv6
  forwarding is enabled, the numbers of the VNIs that are configured, and whether a
  passthrough is configured.
\<close>

record hostState =
  ipv6Forwarding :: bool
  configuredVNIs :: "int set"
  passthroughConfigured :: bool

text \<open>
  Modelled from the spec: the state of the namespace \<open>ns\<close> after a call that returned
  \<^verbatim>\<open>nil\<close>. A setup call carries its namespace inside its parameters, which the converter
  built for the target namespace; it is taken to act on \<open>ns\<close>.
\<close>

fun hostCallEffect :: "string \<Rightarrow> 'x hostCall \<Rightarrow> hostState \<Rightarrow> hostState" where
  "hostCallEffect ns (HasUnderlayInterface ns') s = s"
| "hostCallEffect ns (EnsureIPv6Forwarding ns') s =
     (if ns' = ns then s\<lparr>ipv6Forwarding := True\<rparr> else s)"
| "hostCallEffect ns (SetupUnderlay params) s = s"
| "hostCallEffect ns (SetupL3VNI params) s =
     s\<lparr>configuredVNIs := insert (VNI (l3p_VNIParams params)) (configuredVNIs s)\<rparr>"
| "hostCallEffect ns (SetupL2VNI params) s =
     s\<lparr>configuredVNIs := insert (VNI (l2p_VNIParams params)) (configuredVNIs s)\<rparr>"
| "hostCallEffect ns (SetupPassthrough params) s = s\<lparr>passthroughConfigured := True\<rparr>"
| "hostCallEffect ns (RemoveNonConfiguredVNIs ns' desired) s =
     (if ns' = ns then s\<lparr>configuredVNIs := configuredVNIs s \<inter> VNI ` set desired\<rparr> else s)"
| "hostCallEffect ns (RemovePassthrough ns') s =
     (if ns' = ns then s\<lparr>passthroughConfigured := False\<rparr> else s)"

text \<open>
  The state of the namespace \<open>ns\<close> after the host calls among \<open>events\<close>, each of which
  returned \<^verbatim>\<open>nil\<close>, as every call of a pass that succeeds does.
\<close>

fun hostStateAfter :: "string \<Rightarrow> 'x event list \<Rightarrow> hostState \<Rightarrow> hostState" where
  "hostStateAfter ns [] s = s"
| "hostStateAfter ns (HostCall call # events) s =
     hostStateAfter ns events (hostCallEffect ns call s)"
| "hostStateAfter ns (Report r # events) s = hostStateAfter ns events s"
| "hostStateAfter ns (ConfigureFRR configFile apiConfig # events) s = hostStateAfter ns events s"

text \<open>
  Modelled from the spec: \<^verbatim>\<open>conversion.APItoHostConfig\<close> is not among the sources. Of its
  result the specification says that it holds ``exactly one VRF/VXLAN descriptor per
  L3VNI/L2VNI, keyed by VNI, with no duplicates and no omissions'': the VNI numbers of the
  descriptors are, up to their order, those of the declared L3VNIs, and likewise for the
  L2VNIs.
\<close>

definition oneDescriptorPerVNI :: "ApiConfigData \<Rightarrow> 'x HostConfig \<Rightarrow> bool" where
  "oneDescriptorPerVNI apiConfig hostConfig =
     (sort (map (\<lambda>params. VNI (l3p_VNIParams params)) (hc_L3VNIs hostConfig))
        = sort (map (\<lambda>l3vni. uint (l3_VNI l3vni)) (L3VNIs apiConfig))
      \<and> sort (map (\<lambda>params. VNI (l2p_VNIParams params)) (hc_L2VNIs hostConfig))
        = sort (map (\<lambda>l2vni. uint (l2_VNI l2vni)) (L2VNIs apiConfig)))"

section \<open>Notions used to state the properties\<close>

text \<open>
  Every error that \<^verbatim>\<open>errors.As\<close> looks at when it is given \<open>e\<close>: the error itself and,
  through \<^verbatim>\<open>Unwrap\<close>, the errors it wraps.
\<close>

fun unwrapAll :: "err \<Rightarrow> err list" where
  "unwrapAll (Errorf f as w) =
     Errorf f as w # (case w of None \<Rightarrow> [] | Some e \<Rightarrow> unwrapAll e)"
| "unwrapAll (ErrorsJoin es) = ErrorsJoin es # concat (map unwrapAll es)"
| "unwrapAll e = [e]"

text \<open>
  A pipeline as the specification describes it: a list of named steps run in order, where the
  first failure ends the run and is returned wrapped in the step's message.
\<close>

fun runSteps :: "(string \<times> 'x step) list \<Rightarrow> 'x step" where
  "runSteps [] t = (None, t)"
| "runSteps ((msg, step) # rest) t =
     (case step t of
        (Some e, t') \<Rightarrow> (Some (Errorf msg [] (Some e)), t')
      | (None, t') \<Rightarrow> runSteps rest t')"

text \<open>
  Two CIDR strings overlap when both parse and the network of one contains the address of
  the other.
\<close>

definition overlapping ::
  "('ip, 'net) ParseCIDR \<Rightarrow> ('net \<Rightarrow> 'ip \<Rightarrow> bool) \<Rightarrow> string \<Rightarrow> string \<Rightarrow> bool" where
  "overlapping P C a b =
     (case (P a, P b) of
        (Inr (ipa, neta), Inr (ipb, netb)) \<Rightarrow> C neta ipb \<or> C netb ipa
      | _ \<Rightarrow> False)"

fun noOverlaps ::
  "('ip, 'net) ParseCIDR \<Rightarrow> ('net \<Rightarrow> 'ip \<Rightarrow> bool) \<Rightarrow> string list \<Rightarrow> bool" where
  "noOverlaps P C [] = True"
| "noOverlaps P C (c # cs) = ((\<forall>d \<in> set cs. \<not> overlapping P C c d) \<and> noOverlaps P C cs)"

definition parses :: "('ip, 'net) ParseCIDR \<Rightarrow> string \<Rightarrow> bool" where
  "parses P c = (case P c of Inl _ \<Rightarrow> False | Inr _ \<Rightarrow> True)"

text \<open>
  The host sessions that are declared: those of the L3VNIs that have one, in the order of the
  list, then those of the L3Passthroughs.
\<close>

definition declaredHostSessions :: "L3VNI list \<Rightarrow> L3Passthrough list \<Rightarrow> HostSession list" where
  "declaredHostSessions l3VNIs l3Passthrough =
     List.map_filter l3_HostSession l3VNIs @ map pt_HostSession l3Passthrough"

text \<open>
  A host session on its own: the two ASNs differ, at least one of the two CIDRs is set, and
  every CIDR that is set parses.
\<close>

definition sessionAccepted :: "('ip, 'net) ParseCIDR \<Rightarrow> HostSession \<Rightarrow> bool" where
  "sessionAccepted P hs =
     (let v4 = IPv4 (hs_LocalCIDR hs); v6 = IPv6 (hs_LocalCIDR hs)
      in hs_HostASN hs \<noteq> hs_ASN hs \<and> \<not> (v4 = [] \<and> v6 = [])
         \<and> (v4 \<noteq> [] \<longrightarrow> parses P v4) \<and> (v6 \<noteq> [] \<longrightarrow> parses P v6))"

text \<open>The CIDRs written in the field \<^verbatim>\<open>IPv4\<close>, and those written in the field \<^verbatim>\<open>IPv6\<close>.\<close>

definition cidrsV4 :: "HostSession list \<Rightarrow> string list" where
  "cidrsV4 hss = filter (\<lambda>c. c \<noteq> []) (map (\<lambda>hs. IPv4 (hs_LocalCIDR hs)) hss)"

definition cidrsV6 :: "HostSession list \<Rightarrow> string list" where
  "cidrsV6 hss = filter (\<lambda>c. c \<noteq> []) (map (\<lambda>hs. IPv6 (hs_LocalCIDR hs)) hss)"

text \<open>
  Host sessions that go together: each is accepted on its own, and no two CIDRs written in
  the same field overlap.
\<close>

definition sessionsAcceptable ::
  "('ip, 'net) ParseCIDR \<Rightarrow> ('net \<Rightarrow> 'ip \<Rightarrow> bool) \<Rightarrow> HostSession list \<Rightarrow> bool" where
  "sessionsAcceptable P C hss =
     ((\<forall>hs \<in> set hss. sessionAccepted P hs)
      \<and> noOverlaps P C (cidrsV4 hss) \<and> noOverlaps P C (cidrsV6 hss))"

text \<open>
  A status without its timestamps: the top-level one unset, the transition time of every
  condition the zero value.
\<close>

definition withoutTimestamps ::
  "RouterNodeConfigurationStatusStatus \<Rightarrow> RouterNodeConfigurationStatusStatus" where
  "withoutTimestamps st =
     st\<lparr>LastUpdateTime := None,
        Conditions := map_option (map (\<lambda>c. c\<lparr>cond_LastTransitionTime := 0\<rparr>)) (Conditions st)\<rparr>"

text \<open>
  One pass of the loop of \<^verbatim>\<open>validateVNIs\<close> stops at \<open>v\<close>: its VRF name is not an
  interface name, or the VRF name or the VNI number is in the maps already.
\<close>

definition vniFails :: "(string \<rightharpoonup> string) \<Rightarrow> (uint32 \<rightharpoonup> string) \<Rightarrow> vni \<Rightarrow> bool" where
  "vniFails m1 m2 v = (isValidInterfaceName (vni_vrfName v) \<noteq> None \<or> m1 (vni_vrfName v) \<noteq> None \<or> m2 (vni_vni v) \<noteq> None)"

text \<open>The list that \<^verbatim>\<open>configureInterfaces\<close> passes to \<^verbatim>\<open>RemoveNonConfiguredVNIs\<close>.\<close>

definition vnisToCheck :: "'x HostConfig \<Rightarrow> 'x VNIParams list" where
  "vnisToCheck hostConfig =
     map l3p_VNIParams (hc_L3VNIs hostConfig) @ map l2p_VNIParams (hc_L2VNIs hostConfig)"

text \<open>The trigger event that the status manager \<open>er\<close> sends.\<close>

definition triggerOf :: "StatusManager \<Rightarrow> triggerEvent" where
  "triggerOf er =
     \<lparr>te_Kind = ''StatusTrigger'', te_APIVersion = ''internal.status.openperouter.io/v1'',
      te_Name = nodeName er, te_Namespace = namespace er\<rparr>"

text \<open>No key of the association list \<open>existing\<close> overlaps with any of the CIDRs \<open>cs\<close>.\<close>

definition apart ::
  "('ip, 'net) ParseCIDR \<Rightarrow> ('net \<Rightarrow> 'ip \<Rightarrow> bool) \<Rightarrow> (string \<times> string) list \<Rightarrow> string list
     \<Rightarrow> bool" where
  "apart P C existing cs = (\<forall>k \<in> fst ` set existing. \<forall>c \<in> set cs. \<not> overlapping P C k c)"

text \<open>
  The outcome of a check that reports: nothing reported when it returns \<^verbatim>\<open>nil\<close>, and on an
  error exactly one report, a failure that carries the returned error, against one of the
  resources \<open>R\<close> (pairs of kind and name).
\<close>

definition singleFailure :: "(ResourceKind \<times> string) set \<Rightarrow> err option \<times> report list \<Rightarrow> bool" where
  "singleFailure R r =
     (case r of
        (None, reports) \<Rightarrow> reports = []
      | (Some e, reports) \<Rightarrow> (\<exists>(kind, name) \<in> R. reports = [ReportResourceFailure kind name e]))"

text \<open>
  The checks of \<^verbatim>\<open>validateVNIs\<close> on the resource at index \<open>k\<close> of a list, in terms of the
  list alone: its VRF name is not an interface name, or an earlier resource of the list has
  the same VRF name or the same VNI number. \<open>vrfOf\<close> and \<open>vniOf\<close> read the two from a resource.
\<close>

definition failsCheckAt :: "('a \<Rightarrow> string) \<Rightarrow> ('a \<Rightarrow> uint32) \<Rightarrow> 'a list \<Rightarrow> nat \<Rightarrow> bool" where
  "failsCheckAt vrfOf vniOf rs k =
     (isValidInterfaceName (vrfOf (rs ! k)) \<noteq> None
      \<or> (\<exists>i \<in> {0..<k}. vrfOf (rs ! i) = vrfOf (rs ! k) \<or> vniOf (rs ! i) = vniOf (rs ! k)))"

text \<open>The first resource in processing order that fails a check is the one at index \<open>k\<close>.\<close>

definition firstToFail :: "('a \<Rightarrow> string) \<Rightarrow> ('a \<Rightarrow> uint32) \<Rightarrow> 'a list \<Rightarrow> nat \<Rightarrow> bool" where
  "firstToFail vrfOf vniOf rs k =
     (k < length rs \<and> failsCheckAt vrfOf vniOf rs k
      \<and> (\<forall>i \<in> {0..<k}. \<not> failsCheckAt vrfOf vniOf rs i))"

text \<open>
  The loop of \<^verbatim>\<open>validateVNIs\<close>, started with the maps \<open>m1\<close> and \<open>m2\<close>, stops at index \<open>k\<close> of
  the list when it gets there.
\<close>

definition stopsAt :: "(string \<rightharpoonup> string) \<Rightarrow> (uint32 \<rightharpoonup> string) \<Rightarrow> vni list \<Rightarrow> nat \<Rightarrow> bool" where
  "stopsAt m1 m2 vs k =
     (vniFails m1 m2 (vs ! k)
      \<or> (\<exists>i \<in> {0..<k}. vni_vrfName (vs ! i) = vni_vrfName (vs ! k)
                        \<or> vni_vni (vs ! i) = vni_vni (vs ! k)))"

text \<open>
  The checks of the second loop of \<^verbatim>\<open>ValidateL2VNIs\<close> on one L2VNI: the name of its host
  master is set and is not an interface name, or its gateway IPs are set and refused.
\<close>

definition l2SpecificFails :: "(string list \<Rightarrow> err option) \<Rightarrow> L2VNI \<Rightarrow> bool" where
  "l2SpecificFails ForCIDRStrings v =
     ((case l2_HostMaster v of
         None \<Rightarrow> False
       | Some hm \<Rightarrow> hm_Name hm \<noteq> [] \<and> isValidInterfaceName (hm_Name hm) \<noteq> None)
      \<or> (l2_L2GatewayIPs v \<noteq> [] \<and> ForCIDRStrings (l2_L2GatewayIPs v) \<noteq> None))"

text \<open>The VNI numbers of the desired set: those of the declared L3VNIs and L2VNIs.\<close>

definition desiredVNIs :: "ApiConfigData \<Rightarrow> int set" where
  "desiredVNIs apiConfig =
     (\<lambda>l3vni. uint (l3_VNI l3vni)) ` set (L3VNIs apiConfig)
     \<union> (\<lambda>l2vni. uint (l2_VNI l2vni)) ` set (L2VNIs apiConfig)"

section \<open>Values used in the examples\<close>

text \<open>An instance of \<open>VRFName\<close>: the VRF when one is set, the name of the object otherwise.\<close>

definition exampleVRFName :: "L2VNI \<Rightarrow> string" where
  "exampleVRFName l2vni =
     (case l2_VRF l2vni of None \<Rightarrow> l2_Name l2vni | Some vrf \<Rightarrow> if vrf = [] then l2_Name l2vni else vrf)"

definition exampleForCIDRStrings :: "string list \<Rightarrow> err option" where
  "exampleForCIDRStrings ips = None"

definition exampleL3VNI :: "string \<Rightarrow> uint32 \<Rightarrow> string \<Rightarrow> L3VNI" where
  "exampleL3VNI name vni vrf =
     \<lparr>l3_Name = name, l3_Namespace = ''openperouter-system'', l3_VNI = vni, l3_VRF = vrf,
      l3_HostSession = None\<rparr>"

definition exampleL2VNI :: "string \<Rightarrow> uint32 \<Rightarrow> string option \<Rightarrow> L2VNI" where
  "exampleL2VNI name vni vrf =
     \<lparr>l2_Name = name, l2_VNI = vni, l2_VRF = vrf, l2_HostMaster = None, l2_L2GatewayIPs = []\<rparr>"

definition exampleUnderlay :: "string \<Rightarrow> uint32 \<Rightarrow> Underlay" where
  "exampleUnderlay name asn =
     \<lparr>ul_Name = name, ul_ASN = asn, ul_Neighbors = [\<lparr>nb_ASN = 64512\<rparr>], ul_EVPN = None,
      ul_Nics = [''eth0'']\<rparr>"

text \<open>A parser for the examples: it knows three CIDRs, as address and prefix length.\<close>

definition exampleParseCIDR :: "(nat, nat \<times> nat) ParseCIDR" where
  "exampleParseCIDR s =
     (if s = ''192.168.1.0/24'' then Inr (3232235776, (3232235776, 24))
      else if s = ''192.168.1.128/25'' then Inr (3232235904, (3232235904, 25))
      else if s = ''192.168.2.0/24'' then Inr (3232236032, (3232236032, 24))
      else Inl (External ''invalid CIDR address''))"

definition exampleContains :: "nat \<times> nat \<Rightarrow> nat \<Rightarrow> bool" where
  "exampleContains ipNet ip = (ip div 2 ^ (32 - snd ipNet) = fst ipNet div 2 ^ (32 - snd ipNet))"

definition examplePassthrough :: "string \<Rightarrow> uint32 \<Rightarrow> uint32 \<Rightarrow> string \<Rightarrow> L3Passthrough" where
  "examplePassthrough name asn hostASN cidr =
     \<lparr>pt_Name = name,
      pt_HostSession = \<lparr>hs_ASN = asn, hs_HostASN = hostASN,
                        hs_LocalCIDR = \<lparr>IPv4 = cidr, IPv6 = []\<rparr>\<rparr>\<rparr>"

text \<open>A passthrough whose CIDR is written in the field \<^verbatim>\<open>IPv6\<close>.\<close>

definition examplePassthroughV6 :: "string \<Rightarrow> uint32 \<Rightarrow> uint32 \<Rightarrow> string \<Rightarrow> L3Passthrough" where
  "examplePassthroughV6 name asn hostASN cidr =
     \<lparr>pt_Name = name,
      pt_HostSession = \<lparr>hs_ASN = asn, hs_HostASN = hostASN,
                        hs_LocalCIDR = \<lparr>IPv4 = [], IPv6 = cidr\<rparr>\<rparr>\<rparr>"

definition exampleL3VNIWithSession :: "string \<Rightarrow> uint32 \<Rightarrow> string \<Rightarrow> string \<Rightarrow> L3VNI" where
  "exampleL3VNIWithSession name vni vrf cidr =
     \<lparr>l3_Name = name, l3_Namespace = ''openperouter-system'', l3_VNI = vni, l3_VRF = vrf,
      l3_HostSession = Some \<lparr>hs_ASN = 65001, hs_HostASN = 65002,
                             hs_LocalCIDR = \<lparr>IPv4 = cidr, IPv6 = []\<rparr>\<rparr>\<rparr>"

text \<open>
  An instance of \<open>APItoHostConfig\<close>: one descriptor for each L3VNI and each L2VNI, with its
  VNI number, and a passthrough descriptor when a passthrough is declared.
\<close>

definition exampleAPItoHostConfig :: "int \<Rightarrow> string \<Rightarrow> ApiConfigData \<Rightarrow> err + unit HostConfig" where
  "exampleAPItoHostConfig nodeIndex ns apiConfig =
     Inr \<lparr>hc_Underlay = (),
          hc_L3VNIs = map (\<lambda>l3vni. \<lparr>l3p_VNIParams = \<lparr>VNI = uint (l3_VNI l3vni), vp_rest = ()\<rparr>,
                                      l3p_rest = ()\<rparr>) (L3VNIs apiConfig),
          hc_L2VNIs = map (\<lambda>l2vni. \<lparr>l2p_VNIParams = \<lparr>VNI = uint (l2_VNI l2vni), vp_rest = ()\<rparr>,
                                      l2p_rest = ()\<rparr>) (L2VNIs apiConfig),
          hc_L3Passthrough = (if L3Passthrough apiConfig = [] then None else Some ())\<rparr>"

text \<open>
  Collaborators for the examples: a host whose calls all succeed and that has an underlay
  interface or not, as \<open>hasUnderlay\<close> says.
\<close>

definition exampleCollaborators :: "bool \<Rightarrow> (unit, nat, nat \<times> nat) collaborators" where
  "exampleCollaborators hasUnderlay =
     \<lparr>netParseCIDR = exampleParseCIDR, netContains = exampleContains,
      l2vniVRFName = exampleVRFName, ipfamilyForCIDRStrings = exampleForCIDRStrings,
      configureFRR = (\<lambda>t configFile apiConfig. None),
      APItoHostConfig = exampleAPItoHostConfig,
      hostHasUnderlayInterface = (\<lambda>t ns. Inr hasUnderlay),
      hostnetwork = (\<lambda>t call. None)\<rparr>"

definition exampleApiConfig ::
  "Underlay list \<Rightarrow> L3VNI list \<Rightarrow> L2VNI list \<Rightarrow> L3Passthrough list \<Rightarrow> ApiConfigData" where
  "exampleApiConfig underlays l3vnis l2vnis l3passthrough =
     \<lparr>UnderlayFromMultus = False, NodeIndex = 0, LogLevel = ''info'', Underlays = underlays,
      L3VNIs = l3vnis, L2VNIs = l2vnis, L3Passthrough = l3passthrough\<rparr>"

text \<open>
  A status manager with an empty failure cache and a trigger channel of capacity 100 that
  holds \<open>queued\<close>.
\<close>

definition exampleStatusManager :: "triggerEvent list \<Rightarrow> StatusManager" where
  "exampleStatusManager queued =
     \<lparr>triggerChannel = queued, triggerChannelCap = 100, nodeName = ''node1'',
      namespace = ''openperouter-system'', failedResourceCache = Map.empty\<rparr>"

text \<open>
  A status with no failed resource, as \<open>buildStatus\<close> makes it at the instant \<open>now\<close>, and a
  reconciler at the instant 2000 whose API client holds the object with the status \<open>stored\<close>
  and answers every call with success.
\<close>

definition exampleStatus :: "Time \<Rightarrow> RouterNodeConfigurationStatusStatus" where
  "exampleStatus now =
     \<lparr>LastUpdateTime = Some now, FailedResources = Some [],
      Conditions = Some
        [\<lparr>cond_Type = ''Ready'', cond_Status = ''True'', cond_ObservedGeneration = 0,
          cond_LastTransitionTime = now, cond_Reason = ''ConfigurationSuccessful'',
          cond_Message = ''All OpenPERouter configurations are successful''\<rparr>,
         \<lparr>cond_Type = ''Degraded'', cond_Status = ''False'', cond_ObservedGeneration = 0,
          cond_LastTransitionTime = now, cond_Reason = ''ConfigurationSuccessful'',
          cond_Message = ''All configurations are healthy''\<rparr>]\<rparr>"

definition exampleStatusReconciler ::
  "RouterNodeConfigurationStatusStatus \<Rightarrow> RouterNodeConfigurationStatusReconciler" where
  "exampleStatusReconciler stored =
     \<lparr>MyNode = ''node1'', MyNamespace = ''openperouter-system'',
      GetStatusSummary = \<lparr>ss_FailedResources = [], ss_LastUpdateTime = 0\<rparr>,
      timeNow = 2000, metav1Now = 2000,
      clientGet = (\<lambda>t name ns. Inr \<lparr>rn_Name = name, rn_Namespace = ns,
                                       rn_OwnerReferences = [], rn_Status = stored\<rparr>),
      clientGetNode = (\<lambda>t name. Inr \<lparr>node_Name = name, node_UID = ''uid-1''\<rparr>),
      clientCreate = (\<lambda>t obj. None),
      clientStatusPatch = (\<lambda>t obj base. None),
      IsNotFound = (\<lambda>e. False)\<rparr>"

text \<open>
  A webhook whose decoder reads the object \<open>new\<close> from the request and the object \<open>old\<close> from
  the old raw object, and whose listings are empty.
\<close>

definition exampleL3VNIValidator :: "L3VNI \<Rightarrow> L3VNI \<Rightarrow> (nat, nat \<times> nat) L3VNIValidator" where
  "exampleL3VNIValidator new old =
     \<lparr>Decode = (\<lambda>req. Inr new), DecodeRaw = (\<lambda>raw. Inr old),
      RawExtension_Size = (\<lambda>raw. case raw of None \<Rightarrow> 0 | Some bytes \<Rightarrow> 2 + int (length bytes)),
      WebhookClient_ListL3VNIs = Inr [], getL3Passthroughs = Inr [],
      wh_ParseCIDR = exampleParseCIDR, wh_Contains = exampleContains\<rparr>"

text \<open>
  A state of the host before a pass, for the examples: no IPv6 forwarding, a passthrough, and
  the VNIs 100 and 999.
\<close>

definition exampleHostState :: hostState where
  "exampleHostState =
     \<lparr>ipv6Forwarding = False, configuredVNIs = {100, 999}, passthroughConfigured = True\<rparr>"

section \<open>Properties of the validation of VNIs\<close>

lemma loop_fail_head:
  "vniFails m1 m2 v \<Longrightarrow> \<exists>e. validateVNIs_loop m1 m2 (v # vs) kind = (Some e, [ReportResourceFailure kind (vni_name v) e])"
  by (auto simp: vniFails_def Let_def split: option.splits)

lemma loop_pass_head:
  "\<not> vniFails m1 m2 v \<Longrightarrow> validateVNIs_loop m1 m2 (v # vs) kind =
     validateVNIs_loop (m1(vni_vrfName v \<mapsto> vni_name v)) (m2(vni_vni v \<mapsto> vni_name v)) vs kind"
  by (auto simp: vniFails_def Let_def split: option.splits)

declare validateVNIs_loop.simps [simp del]

lemma stopsAt_0: "stopsAt m1 m2 (v # vs) 0 \<longleftrightarrow> vniFails m1 m2 v"
  by (simp add: stopsAt_def)

lemma bex_upt_Suc:
  "(\<exists>i \<in> {0..<Suc n}. Q i) \<longleftrightarrow> Q 0 \<or> (\<exists>i \<in> {0..<n}. Q (Suc i))"
proof
  assume "\<exists>i \<in> {0..<Suc n}. Q i"
  then obtain i where i: "i < Suc n" "Q i" by auto
  show "Q 0 \<or> (\<exists>i \<in> {0..<n}. Q (Suc i))"
  proof (cases i)
    case 0
    with i show ?thesis by simp
  next
    case (Suc i')
    with i have "i' \<in> {0..<n}" "Q (Suc i')" by simp_all
    then show ?thesis by blast
  qed
next
  assume "Q 0 \<or> (\<exists>i \<in> {0..<n}. Q (Suc i))"
  then show "\<exists>i \<in> {0..<Suc n}. Q i"
  proof
    assume "Q 0"
    then show ?thesis by auto
  next
    assume "\<exists>i \<in> {0..<n}. Q (Suc i)"
    then obtain i where "i < n" "Q (Suc i)" by auto
    then have "Suc i \<in> {0..<Suc n}" by simp
    with \<open>Q (Suc i)\<close> show ?thesis by blast
  qed
qed

lemma stopsAt_Suc:
  "stopsAt m1 m2 (v # vs) (Suc n) \<longleftrightarrow>
     stopsAt (m1(vni_vrfName v \<mapsto> vni_name v)) (m2(vni_vni v \<mapsto> vni_name v)) vs n"
  unfolding stopsAt_def bex_upt_Suc by (auto simp: vniFails_def)

lemma stopsAt_empty:
  "stopsAt Map.empty Map.empty vs k \<longleftrightarrow> failsCheckAt vni_vrfName vni_vni vs k"
  by (simp add: stopsAt_def failsCheckAt_def vniFails_def)

lemma stopsAt_take: "k < j \<Longrightarrow> stopsAt m1 m2 (take j vs) k \<longleftrightarrow> stopsAt m1 m2 vs k"
  by (simp add: stopsAt_def)

lemma loop_first:
  "k < length vs \<Longrightarrow> stopsAt m1 m2 vs k \<Longrightarrow> \<forall>i<k. \<not> stopsAt m1 m2 vs i \<Longrightarrow>
   \<exists>e. validateVNIs_loop m1 m2 vs kind = (Some e, [ReportResourceFailure kind (vni_name (vs ! k)) e])"
proof (induction vs arbitrary: k m1 m2)
  case Nil
  then show ?case by simp
next
  case (Cons v vs)
  show ?case
  proof (cases k)
    case 0
    with Cons.prems(2) have "vniFails m1 m2 v" by (simp add: stopsAt_0)
    from loop_fail_head[OF this, of vs kind] show ?thesis using 0 by simp
  next
    case (Suc k')
    have "\<not> stopsAt m1 m2 (v # vs) 0" using Cons.prems(3) Suc by simp
    then have pass: "\<not> vniFails m1 m2 v" by (simp add: stopsAt_0)
    define m1' where "m1' = m1(vni_vrfName v \<mapsto> vni_name v)"
    define m2' where "m2' = m2(vni_vni v \<mapsto> vni_name v)"
    have len: "k' < length vs" using Cons.prems(1) Suc by simp
    have st: "stopsAt m1' m2' vs k'"
      using Cons.prems(2) unfolding Suc stopsAt_Suc m1'_def m2'_def .
    have before: "\<forall>i<k'. \<not> stopsAt m1' m2' vs i"
    proof (intro allI impI)
      fix i assume "i < k'"
      then have "\<not> stopsAt m1 m2 (v # vs) (Suc i)" using Cons.prems(3) Suc by simp
      then show "\<not> stopsAt m1' m2' vs i" unfolding stopsAt_Suc m1'_def m2'_def .
    qed
    have step: "validateVNIs_loop m1 m2 (v # vs) kind = validateVNIs_loop m1' m2' vs kind"
      unfolding m1'_def m2'_def by (rule loop_pass_head[OF pass])
    from Cons.IH[of k' m1' m2', OF len st before] show ?thesis
      unfolding step Suc by simp
  qed
qed

lemma loop_pass:
  "\<forall>i<length vs. \<not> stopsAt m1 m2 vs i \<Longrightarrow> validateVNIs_loop m1 m2 vs kind = (None, [])"
proof (induction vs arbitrary: m1 m2)
  case Nil
  show ?case by (simp add: validateVNIs_loop.simps)
next
  case (Cons v vs)
  have "\<not> stopsAt m1 m2 (v # vs) 0" using Cons.prems by simp
  then have pass: "\<not> vniFails m1 m2 v" by (simp add: stopsAt_0)
  have rest: "\<forall>i<length vs. \<not> stopsAt (m1(vni_vrfName v \<mapsto> vni_name v)) (m2(vni_vni v \<mapsto> vni_name v)) vs i"
  proof (intro allI impI)
    fix i assume "i < length vs"
    then have "\<not> stopsAt m1 m2 (v # vs) (Suc i)" using Cons.prems by simp
    then show "\<not> stopsAt (m1(vni_vrfName v \<mapsto> vni_name v)) (m2(vni_vni v \<mapsto> vni_name v)) vs i"
      unfolding stopsAt_Suc .
  qed
  show ?case unfolding loop_pass_head[OF pass] by (rule Cons.IH[OF rest])
qed


lemma first_exists:
  assumes "failsCheckAt f g rs k" and "k < length rs"
  shows "\<exists>k'\<le>k. firstToFail f g rs k'"
proof -
  define k' where "k' = (LEAST n. failsCheckAt f g rs n)"
  have a: "failsCheckAt f g rs k'" unfolding k'_def by (rule LeastI[of _ k]) (rule assms(1))
  have b: "k' \<le> k" unfolding k'_def by (rule Least_le) (rule assms(1))
  have c: "\<not> failsCheckAt f g rs i" if "i < k'" for i
    using that not_less_Least[of i "failsCheckAt f g rs"] unfolding k'_def by blast
  have "firstToFail f g rs k'"
    unfolding firstToFail_def using a b c assms(2) by auto
  with b show ?thesis by blast
qed

lemma firstToFail_take: "k < j \<Longrightarrow> firstToFail f g rs k \<Longrightarrow> firstToFail f g (take j rs) k"
  by (auto simp: firstToFail_def failsCheckAt_def)

lemma validateVNIs_first:
  assumes "firstToFail vni_vrfName vni_vni vs k"
  shows "\<exists>e. validateVNIs vs kind = (Some e, [ReportResourceFailure kind (vni_name (vs ! k)) e])"
proof -
  have len: "k < length vs" using assms by (simp add: firstToFail_def)
  have st: "stopsAt Map.empty Map.empty vs k"
    using assms by (simp add: firstToFail_def stopsAt_empty)
  have before: "\<forall>i<k. \<not> stopsAt Map.empty Map.empty vs i"
    using assms by (simp add: firstToFail_def stopsAt_empty)
  show ?thesis unfolding validateVNIs_def by (rule loop_first[OF len st before])
qed

lemma validateVNIs_pass:
  assumes "\<forall>i<length vs. \<not> failsCheckAt vni_vrfName vni_vni vs i"
  shows "validateVNIs vs kind = (None, [])"
  unfolding validateVNIs_def using assms by (intro loop_pass) (simp add: stopsAt_empty)

lemma validateVNIs_error:
  assumes "validateVNIs vs kind = (Some e, reports)"
  shows "\<exists>k. firstToFail vni_vrfName vni_vni vs k
            \<and> reports = [ReportResourceFailure kind (vni_name (vs ! k)) e]"
proof -
  have "\<not> (\<forall>i<length vs. \<not> failsCheckAt vni_vrfName vni_vni vs i)"
    using validateVNIs_pass[of vs kind] assms by auto
  then obtain i where i: "i < length vs" "failsCheckAt vni_vrfName vni_vni vs i" by blast
  from first_exists[OF i(2) i(1)] obtain k where k: "firstToFail vni_vrfName vni_vni vs k"
    by blast
  from validateVNIs_first[OF k, of kind] assms
  have "reports = [ReportResourceFailure kind (vni_name (vs ! k)) e]" by auto
  with k show ?thesis by blast
qed

lemma ValidateL3VNIs_eq: "ValidateL3VNIs l3Vnis = validateVNIs (vnisFromL3VNIs l3Vnis) L3VNIKind"
  by (simp add: ValidateL3VNIs_def split: prod.splits option.splits)

lemma ValidateL2VNIs_common_error:
  "validateVNIs (vnisFromL2VNIs VRFName l2Vnis) L2VNIKind = (Some e, reports) \<Longrightarrow>
   ValidateL2VNIs VRFName ForCIDRStrings l2Vnis = (Some e, reports)"
  by (simp add: ValidateL2VNIs_def)

lemma ValidateL2VNIs_pass_common:
  "fst (ValidateL2VNIs VRFName ForCIDRStrings l2Vnis) = None \<Longrightarrow>
   fst (validateVNIs (vnisFromL2VNIs VRFName l2Vnis) L2VNIKind) = None"
  by (auto simp: ValidateL2VNIs_def split: prod.splits option.splits)

lemma failsCheckAt_L3:
  "k < length l3Vnis \<Longrightarrow>
   failsCheckAt vni_vrfName vni_vni (vnisFromL3VNIs l3Vnis) k \<longleftrightarrow> failsCheckAt l3_VRF l3_VNI l3Vnis k"
  by (simp add: failsCheckAt_def vnisFromL3VNIs_def)

lemma firstToFail_L3:
  "firstToFail vni_vrfName vni_vni (vnisFromL3VNIs l3Vnis) k \<longleftrightarrow> firstToFail l3_VRF l3_VNI l3Vnis k"
proof -
  have len: "length (vnisFromL3VNIs l3Vnis) = length l3Vnis" by (simp add: vnisFromL3VNIs_def)
  show ?thesis unfolding firstToFail_def len using failsCheckAt_L3[of _ l3Vnis] by auto
qed

lemma failsCheckAt_L2:
  "k < length l2Vnis \<Longrightarrow>
   failsCheckAt vni_vrfName vni_vni (vnisFromL2VNIs VRFName l2Vnis) k
     \<longleftrightarrow> failsCheckAt VRFName l2_VNI l2Vnis k"
  by (simp add: failsCheckAt_def vnisFromL2VNIs_def)

lemma firstToFail_L2:
  "firstToFail vni_vrfName vni_vni (vnisFromL2VNIs VRFName l2Vnis) k
     \<longleftrightarrow> firstToFail VRFName l2_VNI l2Vnis k"
proof -
  have len: "length (vnisFromL2VNIs VRFName l2Vnis) = length l2Vnis"
    by (simp add: vnisFromL2VNIs_def)
  show ?thesis unfolding firstToFail_def len using failsCheckAt_L2[of _ l2Vnis VRFName] by auto
qed

lemma ValidateL3VNIs_first:
  assumes "firstToFail l3_VRF l3_VNI l3Vnis k"
  shows "\<exists>e. ValidateL3VNIs l3Vnis = (Some e, [ReportResourceFailure L3VNIKind (l3_Name (l3Vnis ! k)) e])"
proof -
  have len: "k < length l3Vnis" using assms by (simp add: firstToFail_def)
  have nm: "vni_name (vnisFromL3VNIs l3Vnis ! k) = l3_Name (l3Vnis ! k)"
    using len by (simp add: vnisFromL3VNIs_def)
  from validateVNIs_first[of "vnisFromL3VNIs l3Vnis" k L3VNIKind] assms
  show ?thesis unfolding ValidateL3VNIs_eq nm by (simp add: firstToFail_L3)
qed

lemma ValidateL2VNIs_first:
  assumes "firstToFail VRFName l2_VNI l2Vnis k"
  shows "\<exists>e. ValidateL2VNIs VRFName ForCIDRStrings l2Vnis =
            (Some e, [ReportResourceFailure L2VNIKind (l2_Name (l2Vnis ! k)) e])"
proof -
  have len: "k < length l2Vnis" using assms by (simp add: firstToFail_def)
  have nm: "vni_name (vnisFromL2VNIs VRFName l2Vnis ! k) = l2_Name (l2Vnis ! k)"
    using len by (simp add: vnisFromL2VNIs_def)
  have "firstToFail vni_vrfName vni_vni (vnisFromL2VNIs VRFName l2Vnis) k"
    using assms by (simp add: firstToFail_L2)
  from validateVNIs_first[OF this, of L2VNIKind] obtain e where
    "validateVNIs (vnisFromL2VNIs VRFName l2Vnis) L2VNIKind =
       (Some e, [ReportResourceFailure L2VNIKind (l2_Name (l2Vnis ! k)) e])"
    unfolding nm by blast
  from ValidateL2VNIs_common_error[OF this] show ?thesis by blast
qed

lemma ValidateL3VNIs_duplicate:
  assumes "i < j" "j < length l3Vnis"
    "l3_VNI (l3Vnis ! i) = l3_VNI (l3Vnis ! j) \<or> l3_VRF (l3Vnis ! i) = l3_VRF (l3Vnis ! j)"
  shows "\<exists>k\<le>j. firstToFail l3_VRF l3_VNI l3Vnis k
      \<and> (\<exists>e. ValidateL3VNIs l3Vnis =
            (Some e, [ReportResourceFailure L3VNIKind (l3_Name (l3Vnis ! k)) e]))
      \<and> (fst (ValidateL3VNIs (take j l3Vnis)) = None \<longrightarrow> k = j)"
proof -
  have "failsCheckAt l3_VRF l3_VNI l3Vnis j"
  proof -
    have "i \<in> {0..<j}" using assms(1) by simp
    with assms(3) show ?thesis unfolding failsCheckAt_def by blast
  qed
  from first_exists[OF this assms(2)] obtain k where
    k: "k \<le> j" "firstToFail l3_VRF l3_VNI l3Vnis k" by blast
  have "k = j" if pass: "fst (ValidateL3VNIs (take j l3Vnis)) = None"
  proof (rule ccontr)
    assume "k \<noteq> j"
    with k(1) have "k < j" by simp
    from ValidateL3VNIs_first[OF firstToFail_take[OF this k(2)]] pass show False by auto
  qed
  then have last: "fst (ValidateL3VNIs (take j l3Vnis)) = None \<longrightarrow> k = j" by blast
  show ?thesis
    by (intro exI[of _ k] conjI k(1) k(2) ValidateL3VNIs_first[OF k(2)] last)
qed

lemma ValidateL2VNIs_duplicate:
  assumes "i < j" "j < length l2Vnis"
    "l2_VNI (l2Vnis ! i) = l2_VNI (l2Vnis ! j) \<or> VRFName (l2Vnis ! i) = VRFName (l2Vnis ! j)"
  shows "\<exists>k\<le>j. firstToFail VRFName l2_VNI l2Vnis k
      \<and> (\<exists>e. ValidateL2VNIs VRFName ForCIDRStrings l2Vnis =
            (Some e, [ReportResourceFailure L2VNIKind (l2_Name (l2Vnis ! k)) e]))
      \<and> (fst (ValidateL2VNIs VRFName ForCIDRStrings (take j l2Vnis)) = None \<longrightarrow> k = j)"
proof -
  have "failsCheckAt VRFName l2_VNI l2Vnis j"
  proof -
    have "i \<in> {0..<j}" using assms(1) by simp
    with assms(3) show ?thesis unfolding failsCheckAt_def by blast
  qed
  from first_exists[OF this assms(2)] obtain k where
    k: "k \<le> j" "firstToFail VRFName l2_VNI l2Vnis k" by blast
  have "k = j" if pass: "fst (ValidateL2VNIs VRFName ForCIDRStrings (take j l2Vnis)) = None"
  proof (rule ccontr)
    assume "k \<noteq> j"
    with k(1) have "k < j" by simp
    from ValidateL2VNIs_first[OF firstToFail_take[OF this k(2)], of ForCIDRStrings] pass
    show False by auto
  qed
  then have last:
    "fst (ValidateL2VNIs VRFName ForCIDRStrings (take j l2Vnis)) = None \<longrightarrow> k = j" by blast
  show ?thesis
    by (intro exI[of _ k] conjI k(1) k(2) ValidateL2VNIs_first[OF k(2)] last)
qed

text \<open>
  C1 (as amended). Within one kind: when two L3VNIs share a VNI number or a VRF name,
  \<open>ValidateL3VNIs\<close> returns an error and makes exactly one report, a failure against the
  first resource in processing order that fails a check: its VRF name is not an interface
  name, or an earlier L3VNI of the list has its VRF name or its VNI number. That resource is
  at or before the later one of the pair, and it is the later one whenever the resources
  before it validate on their own. The same holds for L2VNIs and \<open>ValidateL2VNIs\<close>. Each call
  keeps maps of its own, so nothing is said about a number or name shared between an L3VNI
  and an L2VNI.
\<close>

theorem duplicate_within_kind_detected:
  "(\<forall>i j. i < j \<and> j < length l3Vnis
       \<and> (l3_VNI (l3Vnis ! i) = l3_VNI (l3Vnis ! j) \<or> l3_VRF (l3Vnis ! i) = l3_VRF (l3Vnis ! j))
     \<longrightarrow> (\<exists>k\<le>j. firstToFail l3_VRF l3_VNI l3Vnis k
            \<and> (\<exists>e. ValidateL3VNIs l3Vnis =
                  (Some e, [ReportResourceFailure L3VNIKind (l3_Name (l3Vnis ! k)) e]))
            \<and> (fst (ValidateL3VNIs (take j l3Vnis)) = None \<longrightarrow> k = j)))
   \<and> (\<forall>i j. i < j \<and> j < length l2Vnis
       \<and> (l2_VNI (l2Vnis ! i) = l2_VNI (l2Vnis ! j) \<or> VRFName (l2Vnis ! i) = VRFName (l2Vnis ! j))
     \<longrightarrow> (\<exists>k\<le>j. firstToFail VRFName l2_VNI l2Vnis k
            \<and> (\<exists>e. ValidateL2VNIs VRFName ForCIDRStrings l2Vnis =
                  (Some e, [ReportResourceFailure L2VNIKind (l2_Name (l2Vnis ! k)) e]))
            \<and> (fst (ValidateL2VNIs VRFName ForCIDRStrings (take j l2Vnis)) = None \<longrightarrow> k = j)))"
proof (intro conjI allI impI)
  fix i j
  assume "i < j \<and> j < length l3Vnis
       \<and> (l3_VNI (l3Vnis ! i) = l3_VNI (l3Vnis ! j) \<or> l3_VRF (l3Vnis ! i) = l3_VRF (l3Vnis ! j))"
  then show "\<exists>k\<le>j. firstToFail l3_VRF l3_VNI l3Vnis k
            \<and> (\<exists>e. ValidateL3VNIs l3Vnis =
                  (Some e, [ReportResourceFailure L3VNIKind (l3_Name (l3Vnis ! k)) e]))
            \<and> (fst (ValidateL3VNIs (take j l3Vnis)) = None \<longrightarrow> k = j)"
    using ValidateL3VNIs_duplicate[of i j l3Vnis] by simp
next
  fix i j
  assume "i < j \<and> j < length l2Vnis
       \<and> (l2_VNI (l2Vnis ! i) = l2_VNI (l2Vnis ! j) \<or> VRFName (l2Vnis ! i) = VRFName (l2Vnis ! j))"
  then show "\<exists>k\<le>j. firstToFail VRFName l2_VNI l2Vnis k
            \<and> (\<exists>e. ValidateL2VNIs VRFName ForCIDRStrings l2Vnis =
                  (Some e, [ReportResourceFailure L2VNIKind (l2_Name (l2Vnis ! k)) e]))
            \<and> (fst (ValidateL2VNIs VRFName ForCIDRStrings (take j l2Vnis)) = None \<longrightarrow> k = j)"
    using ValidateL2VNIs_duplicate[of i j l2Vnis VRFName ForCIDRStrings] by simp
qed


lemma isValidInterfaceName_red: "isValidInterfaceName ''red'' = None"
  by (simp add: isValidInterfaceName_def isAsciiLetter_def isInterfaceNameChar_def)

lemma isValidInterfaceName_blue: "isValidInterfaceName ''blue'' = None"
  by (simp add: isValidInterfaceName_def isAsciiLetter_def isInterfaceNameChar_def)

text \<open>Two L3VNIs with VRF \<open>red\<close>, and two L2VNIs with VNI 300: the second one is reported.\<close>

theorem duplicate_within_kind_detected_witness:
  "(\<exists>e. ValidateL3VNIs [exampleL3VNI ''vni1'' 100 ''red'', exampleL3VNI ''vni2'' 200 ''red''] =
        (Some e, [ReportResourceFailure L3VNIKind ''vni2'' e]))
   \<and> (\<exists>e. ValidateL2VNIs exampleVRFName exampleForCIDRStrings
           [exampleL2VNI ''l2a'' 300 (Some ''blue''), exampleL2VNI ''l2b'' 300 (Some ''red'')] =
        (Some e, [ReportResourceFailure L2VNIKind ''l2b'' e]))"
proof -
  let ?l3 = "[exampleL3VNI ''vni1'' 100 ''red'', exampleL3VNI ''vni2'' 200 ''red'']"
  let ?l2 = "[exampleL2VNI ''l2a'' 300 (Some ''blue''), exampleL2VNI ''l2b'' 300 (Some ''red'')]"
  note inst = duplicate_within_kind_detected[of
      "[exampleL3VNI ''vni1'' 100 ''red'', exampleL3VNI ''vni2'' 200 ''red'']"
      "[exampleL2VNI ''l2a'' 300 (Some ''blue''), exampleL2VNI ''l2b'' 300 (Some ''red'')]"
      exampleVRFName exampleForCIDRStrings]
  have p3: "fst (ValidateL3VNIs (take 1 ?l3)) = None"
    by (simp add: ValidateL3VNIs_eq validateVNIs_def vnisFromL3VNIs_def exampleL3VNI_def
        validateVNIs_loop.simps isValidInterfaceName_red)
  have p2: "fst (ValidateL2VNIs exampleVRFName exampleForCIDRStrings (take 1 ?l2)) = None"
    by (simp add: ValidateL2VNIs_def validateVNIs_def vnisFromL2VNIs_def exampleL2VNI_def
        exampleVRFName_def validateVNIs_loop.simps isValidInterfaceName_blue)
  have h3: "(0::nat) < 1 \<and> 1 < length ?l3
      \<and> (l3_VNI (?l3 ! 0) = l3_VNI (?l3 ! 1) \<or> l3_VRF (?l3 ! 0) = l3_VRF (?l3 ! 1))"
    by (simp add: exampleL3VNI_def)
  have h2: "(0::nat) < 1 \<and> 1 < length ?l2
      \<and> (l2_VNI (?l2 ! 0) = l2_VNI (?l2 ! 1) \<or> exampleVRFName (?l2 ! 0) = exampleVRFName (?l2 ! 1))"
    by (simp add: exampleL2VNI_def)
  from inst h3 have "\<exists>k\<le>1. firstToFail l3_VRF l3_VNI ?l3 k
            \<and> (\<exists>e. ValidateL3VNIs ?l3 =
                  (Some e, [ReportResourceFailure L3VNIKind (l3_Name (?l3 ! k)) e]))
            \<and> (fst (ValidateL3VNIs (take 1 ?l3)) = None \<longrightarrow> k = 1)" by blast
  with p3 have r3: "\<exists>e. ValidateL3VNIs ?l3 = (Some e, [ReportResourceFailure L3VNIKind (l3_Name (?l3 ! 1)) e])"
    by blast
  from inst h2 have "\<exists>k\<le>1. firstToFail exampleVRFName l2_VNI ?l2 k
            \<and> (\<exists>e. ValidateL2VNIs exampleVRFName exampleForCIDRStrings ?l2 =
                  (Some e, [ReportResourceFailure L2VNIKind (l2_Name (?l2 ! k)) e]))
            \<and> (fst (ValidateL2VNIs exampleVRFName exampleForCIDRStrings (take 1 ?l2)) = None \<longrightarrow> k = 1)" by blast
  with p2 have r2: "\<exists>e. ValidateL2VNIs exampleVRFName exampleForCIDRStrings ?l2 =
      (Some e, [ReportResourceFailure L2VNIKind (l2_Name (?l2 ! 1)) e])"
    by blast
  from r3 r2 show ?thesis by (simp add: exampleL3VNI_def exampleL2VNI_def)
qed

text \<open>
  C1 as stated fails, in two ways. An L3VNI and an L2VNI with the same VNI number and the
  same VRF name pass both validations, and nothing is reported. And among three L3VNIs of
  which the first and the third have the same VNI number and VRF name, and the second has a
  VRF name that is not an interface name, the failure is reported against the second: nothing
  is reported against the third, the later-processed resource of the pair.
\<close>

theorem combined_set_duplicates_counterexample:
  "l3_VNI (exampleL3VNI ''vni1'' 100 ''red'') = l2_VNI (exampleL2VNI ''l2a'' 100 (Some ''red''))
   \<and> l3_VRF (exampleL3VNI ''vni1'' 100 ''red'') = exampleVRFName (exampleL2VNI ''l2a'' 100 (Some ''red''))
   \<and> ValidateL3VNIs [exampleL3VNI ''vni1'' 100 ''red''] = (None, [])
   \<and> ValidateL2VNIs exampleVRFName exampleForCIDRStrings [exampleL2VNI ''l2a'' 100 (Some ''red'')] = (None, [])
   \<and> l3_VNI (exampleL3VNI ''vni1'' 100 ''red'') = l3_VNI (exampleL3VNI ''vni3'' 100 ''red'')
   \<and> ValidateL3VNIs [exampleL3VNI ''vni1'' 100 ''red'', exampleL3VNI ''vni2'' 200 ''9bad'',
                      exampleL3VNI ''vni3'' 100 ''red''] =
       (Some (Errorf ''invalid vrf name for vni %s: %s - %w'' [ArgString ''vni2'', ArgString ''9bad'']
                (Some (Errorf ''interface name %s contains invalid characters''
                         [ArgString ''9bad''] None))),
        [ReportResourceFailure L3VNIKind ''vni2''
           (Errorf ''invalid vrf name for vni %s: %s - %w'' [ArgString ''vni2'', ArgString ''9bad'']
              (Some (Errorf ''interface name %s contains invalid characters''
                       [ArgString ''9bad''] None)))])"
  by (simp add: ValidateL3VNIs_eq ValidateL2VNIs_def validateVNIs_def vnisFromL3VNIs_def
      vnisFromL2VNIs_def exampleL3VNI_def exampleL2VNI_def exampleVRFName_def
      validateVNIs_loop.simps isValidInterfaceName_red isValidInterfaceName_def
      isAsciiLetter_def isInterfaceNameChar_def Let_def)

section \<open>Properties of the validation of host sessions\<close>

lemma fst_andThen_None: "fst (andThen a b) = None \<longleftrightarrow> fst a = None \<and> fst b = None"
  by (cases a; cases b) (auto simp: andThen_def split: option.splits)

lemma cidrsOverlap_parsed:
  "parses P a \<Longrightarrow> parses P b \<Longrightarrow> cidrsOverlap P C a b = Inr (overlapping P C a b)"
  by (auto simp: parses_def cidrsOverlap_def overlapping_def split: sum.splits prod.splits)

lemma validateCIDR_range_None:
  assumes "\<forall>k \<in> fst ` set existing. parses P k" and "parses P cidr"
  shows "fst (validateCIDR_range P C s cidr existing) = None
     \<longleftrightarrow> (\<forall>k \<in> fst ` set existing. \<not> overlapping P C k cidr)"
  using assms
proof (induction existing)
  case Nil
  show ?case by simp
next
  case (Cons p existing)
  obtain k name where p: "p = (k, name)" by (cases p)
  have pk: "parses P k" using Cons.prems(1) p by simp
  have ih: "fst (validateCIDR_range P C s cidr existing) = None
     \<longleftrightarrow> (\<forall>k \<in> fst ` set existing. \<not> overlapping P C k cidr)"
    using Cons.IH Cons.prems by simp
  show ?case
    using ih by (simp add: p cidrsOverlap_parsed[OF pk Cons.prems(2)] Let_def)
qed

lemma isValidCIDR_None: "cidr \<noteq> [] \<Longrightarrow> isValidCIDR P cidr = None \<longleftrightarrow> parses P cidr"
  by (auto simp: isValidCIDR_def parses_def split: sum.splits)

lemma validateCIDR_None:
  assumes "\<forall>k \<in> fst ` set existing. parses P k" and "cidr \<noteq> []"
  shows "fst (validateCIDR P C s cidr existing) = None
     \<longleftrightarrow> parses P cidr \<and> (\<forall>k \<in> fst ` set existing. \<not> overlapping P C k cidr)"
proof (cases "parses P cidr")
  case True
  then have "isValidCIDR P cidr = None" using assms(2) by (simp add: isValidCIDR_None)
  then show ?thesis
    using True validateCIDR_range_None[OF assms(1) True, of C s]
    by (simp add: validateCIDR_def)
next
  case False
  then have "isValidCIDR P cidr \<noteq> None" using assms(2) by (simp add: isValidCIDR_None)
  then show ?thesis using False by (auto simp: validateCIDR_def Let_def)
qed

lemma loop_Cons_None:
  "fst (validateHostSessions_loop P C e4 e6 (s # ss)) = None \<longleftrightarrow>
     hs_HostASN (hsi_HostSession s) \<noteq> hs_ASN (hsi_HostSession s)
     \<and> (IPv4 (hs_LocalCIDR (hsi_HostSession s)) \<noteq> [] \<longrightarrow>
          fst (validateCIDR P C s (IPv4 (hs_LocalCIDR (hsi_HostSession s))) e4) = None)
     \<and> (IPv6 (hs_LocalCIDR (hsi_HostSession s)) \<noteq> [] \<longrightarrow>
          fst (validateCIDR P C s (IPv6 (hs_LocalCIDR (hsi_HostSession s))) e6) = None)
     \<and> \<not> (IPv4 (hs_LocalCIDR (hsi_HostSession s)) = [] \<and> IPv6 (hs_LocalCIDR (hsi_HostSession s)) = [])
     \<and> fst (validateHostSessions_loop P C
          (if IPv4 (hs_LocalCIDR (hsi_HostSession s)) \<noteq> []
           then AList.update (IPv4 (hs_LocalCIDR (hsi_HostSession s))) (hsi_Name s) e4 else e4)
          (if IPv6 (hs_LocalCIDR (hsi_HostSession s)) \<noteq> []
           then AList.update (IPv6 (hs_LocalCIDR (hsi_HostSession s))) (hsi_Name s) e6 else e6)
          ss) = None"
  by (simp add: Let_def fst_andThen_None)

lemma cidrsV4_Cons:
  "cidrsV4 (hs # hss) = (if IPv4 (hs_LocalCIDR hs) \<noteq> []
      then IPv4 (hs_LocalCIDR hs) # cidrsV4 hss else cidrsV4 hss)"
  by (simp add: cidrsV4_def)

lemma cidrsV6_Cons:
  "cidrsV6 (hs # hss) = (if IPv6 (hs_LocalCIDR hs) \<noteq> []
      then IPv6 (hs_LocalCIDR hs) # cidrsV6 hss else cidrsV6 hss)"
  by (simp add: cidrsV6_def)

lemma apart_Nil [simp]: "apart P C existing []" "apart P C [] cs"
  by (simp_all add: apart_def)

lemma apart_update:
  "apart P C (AList.update k v existing) cs \<longleftrightarrow> (\<forall>c \<in> set cs. \<not> overlapping P C k c) \<and> apart P C existing cs"
  by (auto simp: apart_def dom_update)

lemma apart_Cons:
  "apart P C existing (c # cs) \<longleftrightarrow> (\<forall>k \<in> fst ` set existing. \<not> overlapping P C k c) \<and> apart P C existing cs"
  by (auto simp: apart_def)

lemma keys_update:
  "(\<forall>k \<in> fst ` set (AList.update a v e). Q k) \<longleftrightarrow> Q a \<and> (\<forall>k \<in> fst ` set e. Q k)"
  by (simp add: dom_update)

lemma loop_None:
  assumes "\<forall>k \<in> fst ` set e4. parses P k" and "\<forall>k \<in> fst ` set e6. parses P k"
  shows "fst (validateHostSessions_loop P C e4 e6 ss) = None \<longleftrightarrow>
     (\<forall>s \<in> set ss. sessionAccepted P (hsi_HostSession s))
     \<and> noOverlaps P C (cidrsV4 (map hsi_HostSession ss))
     \<and> apart P C e4 (cidrsV4 (map hsi_HostSession ss))
     \<and> noOverlaps P C (cidrsV6 (map hsi_HostSession ss))
     \<and> apart P C e6 (cidrsV6 (map hsi_HostSession ss))"
  using assms
proof (induction ss arbitrary: e4 e6)
  case Nil
  show ?case by (simp add: cidrsV4_def cidrsV6_def)
next
  case (Cons s ss)
  define hss where "hss = map hsi_HostSession ss"
  define v4 where "v4 = IPv4 (hs_LocalCIDR (hsi_HostSession s))"
  define v6 where "v6 = IPv6 (hs_LocalCIDR (hsi_HostSession s))"
  define e4' where "e4' = (if v4 \<noteq> [] then AList.update v4 (hsi_Name s) e4 else e4)"
  define e6' where "e6' = (if v6 \<noteq> [] then AList.update v6 (hsi_Name s) e6 else e6)"
  define headOK where "headOK \<longleftrightarrow> sessionAccepted P (hsi_HostSession s)
      \<and> (v4 \<noteq> [] \<longrightarrow> (\<forall>k \<in> fst ` set e4. \<not> overlapping P C k v4))
      \<and> (v6 \<noteq> [] \<longrightarrow> (\<forall>k \<in> fst ` set e6. \<not> overlapping P C k v6))"
  have c4: "v4 \<noteq> [] \<Longrightarrow> fst (validateCIDR P C s v4 e4) = None
     \<longleftrightarrow> parses P v4 \<and> (\<forall>k \<in> fst ` set e4. \<not> overlapping P C k v4)"
    by (rule validateCIDR_None[OF Cons.prems(1)])
  have c6: "v6 \<noteq> [] \<Longrightarrow> fst (validateCIDR P C s v6 e6) = None
     \<longleftrightarrow> parses P v6 \<and> (\<forall>k \<in> fst ` set e6. \<not> overlapping P C k v6)"
    by (rule validateCIDR_None[OF Cons.prems(2)])
  have lhs: "fst (validateHostSessions_loop P C e4 e6 (s # ss)) = None \<longleftrightarrow>
      headOK \<and> fst (validateHostSessions_loop P C e4' e6' ss) = None"
    unfolding loop_Cons_None headOK_def sessionAccepted_def Let_def
      v4_def[symmetric] v6_def[symmetric] e4'_def[symmetric] e6'_def[symmetric]
    using c4 c6 by auto
  have rhs: "(\<forall>s \<in> set (s # ss). sessionAccepted P (hsi_HostSession s))
     \<and> noOverlaps P C (cidrsV4 (map hsi_HostSession (s # ss)))
     \<and> apart P C e4 (cidrsV4 (map hsi_HostSession (s # ss)))
     \<and> noOverlaps P C (cidrsV6 (map hsi_HostSession (s # ss)))
     \<and> apart P C e6 (cidrsV6 (map hsi_HostSession (s # ss)))
    \<longleftrightarrow> headOK \<and> ((\<forall>s \<in> set ss. sessionAccepted P (hsi_HostSession s))
     \<and> noOverlaps P C (cidrsV4 hss) \<and> apart P C e4' (cidrsV4 hss)
     \<and> noOverlaps P C (cidrsV6 hss) \<and> apart P C e6' (cidrsV6 hss))"
    unfolding headOK_def list.map cidrsV4_Cons cidrsV6_Cons v4_def[symmetric] v6_def[symmetric]
      e4'_def e6'_def hss_def[symmetric]
    by (cases "v4 = []"; cases "v6 = []") (auto simp: apart_update apart_Cons)
  show ?case
  proof (cases headOK)
    case False
    with lhs rhs show ?thesis by blast
  next
    case True
    have acc: "v4 \<noteq> [] \<longrightarrow> parses P v4" "v6 \<noteq> [] \<longrightarrow> parses P v6"
      using True unfolding headOK_def sessionAccepted_def Let_def v4_def v6_def by simp_all
    have p4: "\<forall>k \<in> fst ` set e4'. parses P k"
      using acc(1) Cons.prems(1) keys_update[of v4 "hsi_Name s" e4 "parses P"]
      unfolding e4'_def by simp
    have p6: "\<forall>k \<in> fst ` set e6'. parses P k"
      using acc(2) Cons.prems(2) keys_update[of v6 "hsi_Name s" e6 "parses P"]
      unfolding e6'_def by simp
    note ih = Cons.IH[OF p4 p6, unfolded hss_def[symmetric]]
    from lhs rhs ih show ?thesis by blast
  qed
qed

lemma hostSessions_declared:
  "map hsi_HostSession (hostSessionsFromL3VNIs l3VNIs @ hostSessionsFromL3Passthrough l3Passthrough)
     = declaredHostSessions l3VNIs l3Passthrough"
proof -
  have "map hsi_HostSession (hostSessionsFromL3VNIs l3VNIs) = List.map_filter l3_HostSession l3VNIs"
    by (induction l3VNIs)
       (simp_all add: hostSessionsFromL3VNIs_def map_filter_simps split: option.splits)
  moreover have "map hsi_HostSession (hostSessionsFromL3Passthrough l3Passthrough)
      = map pt_HostSession l3Passthrough"
    by (simp add: hostSessionsFromL3Passthrough_def comp_def)
  ultimately show ?thesis by (simp add: declaredHostSessions_def)
qed

lemma loop_acceptable:
  "fst (validateHostSessions_loop P C [] [] ss) = None
     \<longleftrightarrow> sessionsAcceptable P C (map hsi_HostSession ss)"
  using loop_None[of "[]" P "[]" C ss] by (simp add: sessionsAcceptable_def)

text \<open>
  C5 (as amended). \<open>ValidateHostSessions\<close> returns \<^verbatim>\<open>nil\<close> exactly when every declared host
  session (of an L3VNI or of an L3Passthrough) has two different ASNs, has at least one of its
  two CIDRs set and only CIDRs that parse, and no two CIDRs written in the field \<^verbatim>\<open>IPv4\<close> and
  no two CIDRs written in the field \<^verbatim>\<open>IPv6\<close> overlap. In every other case it returns an
  error. The field stands for the address family: a CIDR written in one field is never
  compared with a CIDR written in the other.
\<close>

theorem ValidateHostSessions_accepts_iff:
  "fst (ValidateHostSessions P C l3VNIs l3Passthrough) = None \<longleftrightarrow>
     (\<forall>hs \<in> set (declaredHostSessions l3VNIs l3Passthrough). sessionAccepted P hs)
     \<and> noOverlaps P C (cidrsV4 (declaredHostSessions l3VNIs l3Passthrough))
     \<and> noOverlaps P C (cidrsV6 (declaredHostSessions l3VNIs l3Passthrough))"
proof -
  define ss where
    "ss = hostSessionsFromL3VNIs l3VNIs @ hostSessionsFromL3Passthrough l3Passthrough"
  have d: "declaredHostSessions l3VNIs l3Passthrough = map hsi_HostSession ss"
    unfolding ss_def by (rule hostSessions_declared[symmetric])
  have "fst (validateHostSessions_loop P C [] [] ss) = None \<longleftrightarrow>
     (\<forall>hs \<in> set (map hsi_HostSession ss). sessionAccepted P hs)
     \<and> noOverlaps P C (cidrsV4 (map hsi_HostSession ss))
     \<and> noOverlaps P C (cidrsV6 (map hsi_HostSession ss))"
    using loop_None[of "[]" P "[]" C ss] by simp
  then show ?thesis
    unfolding ValidateHostSessions_def d ss_def[symmetric] .
qed

text \<open>
  An L3VNI and a passthrough with \<open>192.168.1.0/24\<close> and \<open>192.168.2.0/24\<close> in the field
  \<^verbatim>\<open>IPv4\<close> are accepted; with \<open>192.168.1.0/24\<close> and \<open>192.168.1.128/25\<close> they are not.
\<close>

theorem ValidateHostSessions_accepts_iff_witness:
  "fst (ValidateHostSessions exampleParseCIDR exampleContains
          [exampleL3VNIWithSession ''vni1'' 1001 ''red'' ''192.168.1.0/24'']
          [examplePassthrough ''passthrough1'' 65003 65004 ''192.168.2.0/24'']) = None
   \<and> fst (ValidateHostSessions exampleParseCIDR exampleContains
          [exampleL3VNIWithSession ''vni1'' 1001 ''red'' ''192.168.1.0/24'']
          [examplePassthrough ''passthrough1'' 65003 65004 ''192.168.1.128/25'']) \<noteq> None"
  using ValidateHostSessions_accepts_iff[of exampleParseCIDR exampleContains
      "[exampleL3VNIWithSession ''vni1'' 1001 ''red'' ''192.168.1.0/24'']"
      "[examplePassthrough ''passthrough1'' 65003 65004 ''192.168.2.0/24'']"]
    ValidateHostSessions_accepts_iff[of exampleParseCIDR exampleContains
      "[exampleL3VNIWithSession ''vni1'' 1001 ''red'' ''192.168.1.0/24'']"
      "[examplePassthrough ''passthrough1'' 65003 65004 ''192.168.1.128/25'']"]
  by (simp add: declaredHostSessions_def map_filter_simps
      exampleL3VNIWithSession_def examplePassthrough_def sessionAccepted_def parses_def
      exampleParseCIDR_def exampleContains_def cidrsV4_def cidrsV6_def overlapping_def)

text \<open>
  C5 as stated fails: \<open>192.168.1.0/24\<close> written in the field \<^verbatim>\<open>IPv4\<close> of the host session of
  an L3VNI and the same CIDR written in the field \<^verbatim>\<open>IPv6\<close> of the host session of a
  passthrough are two overlapping CIDRs of one address family, and \<open>ValidateHostSessions\<close>
  returns \<^verbatim>\<open>nil\<close> without a report.
\<close>

theorem same_family_in_other_field_counterexample:
  "overlapping exampleParseCIDR exampleContains ''192.168.1.0/24'' ''192.168.1.0/24''
   \<and> ValidateHostSessions exampleParseCIDR exampleContains
        [exampleL3VNIWithSession ''vni1'' 1001 ''red'' ''192.168.1.0/24'']
        [examplePassthroughV6 ''passthrough1'' 65003 65004 ''192.168.1.0/24''] = (None, [])"
  by (simp add: ValidateHostSessions_def hostSessionsFromL3VNIs_def
      hostSessionsFromL3Passthrough_def exampleL3VNIWithSession_def examplePassthroughV6_def
      validateCIDR_def isValidCIDR_def exampleParseCIDR_def exampleContains_def overlapping_def
      andThen_def Let_def)

section \<open>Properties of the reports made by validation\<close>

lemma singleFailure_mono: "singleFailure R r \<Longrightarrow> R \<subseteq> R' \<Longrightarrow> singleFailure R' r"
  by (cases r) (auto simp: singleFailure_def split: option.splits)

lemma singleFailure_None [simp]: "singleFailure R (None, [])"
  by (simp add: singleFailure_def)

lemma singleFailure_Some:
  "(kind, name) \<in> R \<Longrightarrow> singleFailure R (Some e, [ReportResourceFailure kind name e])"
  by (auto simp: singleFailure_def)

lemma singleFailure_andThen:
  "singleFailure R a \<Longrightarrow> singleFailure R b \<Longrightarrow> singleFailure R (andThen a b)"
  by (cases a; cases b) (auto simp: singleFailure_def andThen_def split: option.splits)

lemma singleFailure_errorD:
  "singleFailure R (Some e, reports) \<Longrightarrow> \<exists>(kind, name) \<in> R. reports = [ReportResourceFailure kind name e]"
  by (simp add: singleFailure_def)

lemma validateNeighbors_single:
  "singleFailure {(UnderlayKind, ul_Name underlay)} (validateNeighbors underlay neighbors)"
  by (induction neighbors) (simp_all add: Let_def singleFailure_Some)

lemma validateNics_single:
  "singleFailure {(UnderlayKind, ul_Name underlay)} (validateNics underlay nics)"
  by (induction nics) (simp_all add: Let_def singleFailure_Some split: option.splits)

lemma validateUnderlay_single:
  "singleFailure {(UnderlayKind, ul_Name underlay)} (validateUnderlay ParseCIDR underlay)"
proof (cases "ul_ASN underlay = 0")
  case True
  then show ?thesis by (simp add: validateUnderlay_def Let_def singleFailure_Some)
next
  case False
  let ?R = "{(UnderlayKind, ul_Name underlay)}"
  have evpn: "singleFailure ?R
     (case ul_EVPN underlay of
        None \<Rightarrow> (None, [])
      | Some evpn \<Rightarrow>
          (case ParseCIDR (VTEPCIDR evpn) of
             Inl e \<Rightarrow>
               (let validationErr = Errorf ''invalid vtep CIDR format for underlay %s: %s - %w''
                      [ArgString (ul_Name underlay), ArgString (VTEPCIDR evpn)] (Some e)
                in (Some validationErr,
                    [ReportResourceFailure UnderlayKind (ul_Name underlay) validationErr]))
           | Inr _ \<Rightarrow> (None, [])))"
    by (simp add: Let_def singleFailure_Some split: option.splits sum.splits)
  have nics: "singleFailure ?R
     (if length (ul_Nics underlay) > 1 then
        (let e = Errorf ''underlay %s can only have one nic, found %d''
                   [ArgString (ul_Name underlay), ArgInt (int (length (ul_Nics underlay)))] None
         in (Some e, [ReportResourceFailure UnderlayKind (ul_Name underlay) e]))
      else (None, []))"
    by (simp add: Let_def singleFailure_Some)
  show ?thesis
    unfolding validateUnderlay_def if_not_P[OF False]
    by (intro singleFailure_andThen validateNeighbors_single validateNics_single evpn nics)
qed

lemma validateUnderlays_loop_single:
  "singleFailure ((\<lambda>u. (UnderlayKind, ul_Name u)) ` set underlays)
     (validateUnderlays_loop ParseCIDR underlays)"
proof (induction underlays)
  case Nil
  show ?case by simp
next
  case (Cons u us)
  show ?case
    unfolding validateUnderlays_loop.simps
  proof (rule singleFailure_andThen)
    show "singleFailure ((\<lambda>u. (UnderlayKind, ul_Name u)) ` set (u # us)) (validateUnderlay ParseCIDR u)"
      by (rule singleFailure_mono[OF validateUnderlay_single]) simp
    show "singleFailure ((\<lambda>u. (UnderlayKind, ul_Name u)) ` set (u # us)) (validateUnderlays_loop ParseCIDR us)"
      by (rule singleFailure_mono[OF Cons.IH]) auto
  qed
qed

lemma ValidateL2VNIs_andThen:
  "ValidateL2VNIs VRFName ForCIDRStrings l2Vnis =
     andThen (validateVNIs (vnisFromL2VNIs VRFName l2Vnis) L2VNIKind)
       (validateL2Specific ForCIDRStrings l2Vnis)"
  by (simp add: ValidateL2VNIs_def andThen_def split: prod.splits option.splits)

lemma validateCIDR_range_single:
  "singleFailure {(resourceKind s, resourceName s)} (validateCIDR_range P C s cidr existing)"
  by (induction existing) (auto simp: Let_def singleFailure_Some split: sum.splits)

lemma validateCIDR_single:
  "singleFailure {(resourceKind s, resourceName s)} (validateCIDR P C s cidr existing)"
  by (auto simp: validateCIDR_def Let_def singleFailure_Some validateCIDR_range_single
      split: option.splits)

lemma ValidateUnderlays_single:
  "length underlays \<le> 1 \<Longrightarrow>
   singleFailure ((\<lambda>u. (UnderlayKind, ul_Name u)) ` set underlays) (ValidateUnderlays ParseCIDR underlays)"
  by (simp add: ValidateUnderlays_def validateUnderlays_loop_single)

lemma singleFailure_cases:
  assumes "singleFailure {(kind, name)} r"
  shows "r = (None, []) \<or> (\<exists>e. r = (Some e, [ReportResourceFailure kind name e]))"
  using assms by (cases r) (auto simp: singleFailure_def split: option.splits)

lemma validateL2Specific_head:
  "l2SpecificFails F v \<Longrightarrow>
     \<exists>e. validateL2Specific F (v # vs) = (Some e, [ReportResourceFailure L2VNIKind (l2_Name v) e])"
  "\<not> l2SpecificFails F v \<Longrightarrow> validateL2Specific F (v # vs) = validateL2Specific F vs"
  by (auto simp: l2SpecificFails_def Let_def split: option.splits)

lemma validateL2Specific_first:
  "k < length vs \<Longrightarrow> l2SpecificFails F (vs ! k) \<Longrightarrow> \<forall>i<k. \<not> l2SpecificFails F (vs ! i) \<Longrightarrow>
   \<exists>e. validateL2Specific F vs = (Some e, [ReportResourceFailure L2VNIKind (l2_Name (vs ! k)) e])"
proof (induction vs arbitrary: k)
  case Nil
  then show ?case by simp
next
  case (Cons v vs)
  show ?case
  proof (cases k)
    case 0
    with Cons.prems(2) have "l2SpecificFails F v" by simp
    from validateL2Specific_head(1)[OF this, of vs] show ?thesis using 0 by simp
  next
    case (Suc k')
    have pass: "\<not> l2SpecificFails F v" using Cons.prems(3) Suc by auto
    have len: "k' < length vs" using Cons.prems(1) Suc by simp
    have st: "l2SpecificFails F (vs ! k')" using Cons.prems(2) Suc by simp
    have before: "\<forall>i<k'. \<not> l2SpecificFails F (vs ! i)"
    proof (intro allI impI)
      fix i assume "i < k'"
      then show "\<not> l2SpecificFails F (vs ! i)"
        using Cons.prems(3)[rule_format, of "Suc i"] Suc by simp
    qed
    from Cons.IH[OF len st before] show ?thesis
      unfolding validateL2Specific_head(2)[OF pass] Suc by simp
  qed
qed

lemma validateL2Specific_pass:
  "\<forall>i<length vs. \<not> l2SpecificFails F (vs ! i) \<Longrightarrow> validateL2Specific F vs = (None, [])"
proof (induction vs)
  case Nil
  show ?case by simp
next
  case (Cons v vs)
  have pass: "\<not> l2SpecificFails F v" using Cons.prems by auto
  have rest: "\<forall>i<length vs. \<not> l2SpecificFails F (vs ! i)"
  proof (intro allI impI)
    fix i assume "i < length vs"
    then show "\<not> l2SpecificFails F (vs ! i)"
      using Cons.prems[rule_format, of "Suc i"] by simp
  qed
  show ?case unfolding validateL2Specific_head(2)[OF pass] by (rule Cons.IH[OF rest])
qed

lemma validateL2Specific_error:
  assumes "validateL2Specific F vs = (Some e, reports)"
  shows "\<exists>k<length vs. l2SpecificFails F (vs ! k) \<and> (\<forall>i \<in> {0..<k}. \<not> l2SpecificFails F (vs ! i))
            \<and> reports = [ReportResourceFailure L2VNIKind (l2_Name (vs ! k)) e]"
proof -
  have "\<not> (\<forall>i<length vs. \<not> l2SpecificFails F (vs ! i))"
    using validateL2Specific_pass[of vs F] assms by auto
  then obtain i where i: "i < length vs" "l2SpecificFails F (vs ! i)" by blast
  define k where "k = (LEAST n. n < length vs \<and> l2SpecificFails F (vs ! n))"
  have a: "k < length vs \<and> l2SpecificFails F (vs ! k)"
    unfolding k_def by (rule LeastI[of _ i]) (simp add: i)
  have c: "\<not> l2SpecificFails F (vs ! n)" if "n < k" for n
  proof -
    have "\<not> (n < length vs \<and> l2SpecificFails F (vs ! n))"
      using that not_less_Least[of n "\<lambda>n. n < length vs \<and> l2SpecificFails F (vs ! n)"]
      unfolding k_def by blast
    moreover have "n < length vs" using that a by simp
    ultimately show ?thesis by simp
  qed
  from validateL2Specific_first[of k vs F] a c assms
  have "reports = [ReportResourceFailure L2VNIKind (l2_Name (vs ! k)) e]" by auto
  with a c show ?thesis by auto
qed


lemma validateVNIs_None:
  assumes "fst (validateVNIs vs kind) = None"
  shows "validateVNIs vs kind = (None, [])"
    and "\<forall>i<length vs. \<not> failsCheckAt vni_vrfName vni_vni vs i"
proof -
  show none: "\<forall>i<length vs. \<not> failsCheckAt vni_vrfName vni_vni vs i"
  proof (intro allI impI notI)
    fix i assume i: "i < length vs" "failsCheckAt vni_vrfName vni_vni vs i"
    from first_exists[OF i(2) i(1)] obtain k where "firstToFail vni_vrfName vni_vni vs k" by blast
    from validateVNIs_first[OF this, of kind] assms show False by auto
  qed
  show "validateVNIs vs kind = (None, [])" by (rule validateVNIs_pass[OF none])
qed

lemma ValidateL3VNIs_error:
  assumes "ValidateL3VNIs l3Vnis = (Some e, reports)"
  shows "\<exists>k. firstToFail l3_VRF l3_VNI l3Vnis k
            \<and> reports = [ReportResourceFailure L3VNIKind (l3_Name (l3Vnis ! k)) e]"
proof -
  from validateVNIs_error[of "vnisFromL3VNIs l3Vnis" L3VNIKind e reports] assms
  obtain k where k: "firstToFail vni_vrfName vni_vni (vnisFromL3VNIs l3Vnis) k"
    "reports = [ReportResourceFailure L3VNIKind (vni_name (vnisFromL3VNIs l3Vnis ! k)) e]"
    unfolding ValidateL3VNIs_eq by blast
  have f: "firstToFail l3_VRF l3_VNI l3Vnis k" using k(1) by (simp add: firstToFail_L3)
  then have "k < length l3Vnis" by (simp add: firstToFail_def)
  then have "vni_name (vnisFromL3VNIs l3Vnis ! k) = l3_Name (l3Vnis ! k)"
    by (simp add: vnisFromL3VNIs_def)
  with k(2) f show ?thesis by auto
qed

lemma ValidateL2VNIs_error:
  assumes "ValidateL2VNIs VRFName F l2Vnis = (Some e, reports)"
  shows "(\<exists>k. firstToFail VRFName l2_VNI l2Vnis k
            \<and> reports = [ReportResourceFailure L2VNIKind (l2_Name (l2Vnis ! k)) e])
       \<or> ((\<forall>i \<in> {0..<length l2Vnis}. \<not> failsCheckAt VRFName l2_VNI l2Vnis i)
          \<and> (\<exists>k<length l2Vnis. l2SpecificFails F (l2Vnis ! k)
                \<and> (\<forall>i \<in> {0..<k}. \<not> l2SpecificFails F (l2Vnis ! i))
                \<and> reports = [ReportResourceFailure L2VNIKind (l2_Name (l2Vnis ! k)) e]))"
proof (cases "fst (validateVNIs (vnisFromL2VNIs VRFName l2Vnis) L2VNIKind)")
  case (Some e')
  then obtain r where r: "validateVNIs (vnisFromL2VNIs VRFName l2Vnis) L2VNIKind = (Some e', r)"
    by (cases "validateVNIs (vnisFromL2VNIs VRFName l2Vnis) L2VNIKind") simp
  from ValidateL2VNIs_common_error[OF r, of F] assms have eq: "e' = e" "r = reports" by simp_all
  from validateVNIs_error[OF r] obtain k where
    k: "firstToFail vni_vrfName vni_vni (vnisFromL2VNIs VRFName l2Vnis) k"
    "r = [ReportResourceFailure L2VNIKind (vni_name (vnisFromL2VNIs VRFName l2Vnis ! k)) e']"
    by blast
  have f: "firstToFail VRFName l2_VNI l2Vnis k" using k(1) by (simp add: firstToFail_L2)
  then have "k < length l2Vnis" by (simp add: firstToFail_def)
  then have "vni_name (vnisFromL2VNIs VRFName l2Vnis ! k) = l2_Name (l2Vnis ! k)"
    by (simp add: vnisFromL2VNIs_def)
  with k(2) f eq show ?thesis by auto
next
  case None
  note common = validateVNIs_None[OF None]
  have len: "length (vnisFromL2VNIs VRFName l2Vnis) = length l2Vnis"
    by (simp add: vnisFromL2VNIs_def)
  have nofail: "\<forall>i \<in> {0..<length l2Vnis}. \<not> failsCheckAt VRFName l2_VNI l2Vnis i"
    using common(2) failsCheckAt_L2[of _ l2Vnis VRFName] unfolding len by auto
  have "validateL2Specific F l2Vnis = (Some e, reports)"
    using assms unfolding ValidateL2VNIs_andThen common(1) by (simp add: andThen_def split: prod.splits)
  from validateL2Specific_error[OF this] nofail show ?thesis by blast
qed

lemma ValidateUnderlays_error:
  assumes "length underlays \<le> 1" and "ValidateUnderlays ParseCIDR underlays = (Some e, reports)"
  shows "\<exists>u. underlays = [u] \<and> reports = [ReportResourceFailure UnderlayKind (ul_Name u) e]"
proof (cases underlays)
  case Nil
  with assms(2) show ?thesis by (simp add: ValidateUnderlays_def)
next
  case (Cons u us)
  with assms(1) have one: "underlays = [u]" by simp
  from ValidateUnderlays_single[OF assms(1), of ParseCIDR] assms(2)
  have "reports = [ReportResourceFailure UnderlayKind (ul_Name u) e]"
    unfolding one by (auto simp: singleFailure_def)
  with one show ?thesis by blast
qed


lemma loop_head:
  "(\<exists>e. \<forall>ss. validateHostSessions_loop P C e4 e6 (s # ss) =
            (Some e, [ReportResourceFailure (resourceKind s) (resourceName s) e]))
   \<or> (\<exists>e4' e6'. \<forall>ss. validateHostSessions_loop P C e4 e6 (s # ss) =
            validateHostSessions_loop P C e4' e6' ss)"
proof -
  define v4 where "v4 = IPv4 (hs_LocalCIDR (hsi_HostSession s))"
  define v6 where "v6 = IPv6 (hs_LocalCIDR (hsi_HostSession s))"
  define A where "A = (if v4 \<noteq> [] then validateCIDR P C s v4 e4 else (None, []))"
  define B where "B = (if v6 \<noteq> [] then validateCIDR P C s v6 e6 else (None, []))"
  define e4' where "e4' = (if v4 \<noteq> [] then AList.update v4 (hsi_Name s) e4 else e4)"
  define e6' where "e6' = (if v6 \<noteq> [] then AList.update v6 (hsi_Name s) e6 else e6)"
  define e0 where "e0 = Errorf ''%s local ASN %d must be different from remote ASN %d''
      [ArgString (hsi_Name s), ArgInt (uint (hs_HostASN (hsi_HostSession s))),
       ArgInt (uint (hs_ASN (hsi_HostSession s)))] None"
  define e1 where "e1 = Errorf
      ''at least one local CIDR (IPv4 or IPv6) must be provided for vni %s''
      [ArgString (hsi_Name s)] None"
  have unfolded: "validateHostSessions_loop P C e4 e6 (s # ss) =
     (if hs_HostASN (hsi_HostSession s) = hs_ASN (hsi_HostSession s) then
        (Some e0, [ReportResourceFailure (resourceKind s) (resourceName s) e0])
      else andThen A (andThen B
        (if v4 = [] \<and> v6 = [] then
           (Some e1, [ReportResourceFailure (resourceKind s) (resourceName s) e1])
         else validateHostSessions_loop P C e4' e6' ss)))" for ss
    unfolding validateHostSessions_loop.simps Let_def v4_def v6_def A_def B_def e4'_def e6'_def
      e0_def e1_def by (rule refl)
  have sA: "singleFailure {(resourceKind s, resourceName s)} A"
    unfolding A_def by (simp add: validateCIDR_single)
  have sB: "singleFailure {(resourceKind s, resourceName s)} B"
    unfolding B_def by (simp add: validateCIDR_single)
  show ?thesis
  proof (cases "hs_HostASN (hsi_HostSession s) = hs_ASN (hsi_HostSession s)")
    case True
    then show ?thesis unfolding unfolded by (intro disjI1 exI[of _ e0]) simp
  next
    case asn: False
    from singleFailure_cases[OF sA] show ?thesis
    proof
      assume "\<exists>e. A = (Some e, [ReportResourceFailure (resourceKind s) (resourceName s) e])"
      then obtain e where "A = (Some e, [ReportResourceFailure (resourceKind s) (resourceName s) e])"
        by blast
      then show ?thesis unfolding unfolded using asn
        by (intro disjI1 exI[of _ e]) (simp add: andThen_def)
    next
      assume A: "A = (None, [])"
      from singleFailure_cases[OF sB] show ?thesis
      proof
        assume "\<exists>e. B = (Some e, [ReportResourceFailure (resourceKind s) (resourceName s) e])"
        then obtain e where "B = (Some e, [ReportResourceFailure (resourceKind s) (resourceName s) e])"
          by blast
        then show ?thesis unfolding unfolded A using asn
          by (intro disjI1 exI[of _ e]) (simp add: andThen_def)
      next
        assume B: "B = (None, [])"
        show ?thesis
        proof (cases "v4 = [] \<and> v6 = []")
          case True
          then show ?thesis unfolding unfolded A B using asn
            by (intro disjI1 exI[of _ e1]) (simp add: andThen_def)
        next
          case False
          then have "\<forall>ss. validateHostSessions_loop P C e4 e6 (s # ss) =
              validateHostSessions_loop P C e4' e6' ss"
            unfolding unfolded A B using asn by (auto simp: andThen_def split: prod.splits)
          then show ?thesis by blast
        qed
      qed
    qed
  qed
qed

lemma loop_blame:
  "validateHostSessions_loop P C e4 e6 ss = (Some e, reports) \<Longrightarrow>
   \<exists>k<length ss. fst (validateHostSessions_loop P C e4 e6 (take k ss)) = None
      \<and> fst (validateHostSessions_loop P C e4 e6 (take (Suc k) ss)) \<noteq> None
      \<and> reports = [ReportResourceFailure (resourceKind (ss ! k)) (resourceName (ss ! k)) e]"
proof (induction ss arbitrary: e4 e6)
  case Nil
  then show ?case by simp
next
  case (Cons s ss)
  from loop_head[of P C e4 e6 s] show ?case
  proof (elim disjE exE)
    fix e'
    assume h: "\<forall>ss. validateHostSessions_loop P C e4 e6 (s # ss) =
            (Some e', [ReportResourceFailure (resourceKind s) (resourceName s) e'])"
    have "validateHostSessions_loop P C e4 e6 (s # ss) =
        (Some e', [ReportResourceFailure (resourceKind s) (resourceName s) e'])"
      by (rule h[rule_format])
    with Cons.prems
    have "(Some e', [ReportResourceFailure (resourceKind s) (resourceName s) e']) = (Some e, reports)"
      by (simp only:)
    then have eq: "e' = e" "reports = [ReportResourceFailure (resourceKind s) (resourceName s) e]"
      by auto
    show ?thesis
    proof (intro exI[of _ 0] conjI)
      show "0 < length (s # ss)" by simp
      show "fst (validateHostSessions_loop P C e4 e6 (take 0 (s # ss))) = None" by simp
      show "fst (validateHostSessions_loop P C e4 e6 (take (Suc 0) (s # ss))) \<noteq> None"
        using h[rule_format, of "[]"] by simp
      show "reports = [ReportResourceFailure (resourceKind ((s # ss) ! 0))
          (resourceName ((s # ss) ! 0)) e]" using eq(2) by simp
    qed
  next
    fix e4' e6'
    assume h: "\<forall>ss. validateHostSessions_loop P C e4 e6 (s # ss) =
            validateHostSessions_loop P C e4' e6' ss"
    from Cons.prems have "validateHostSessions_loop P C e4' e6' ss = (Some e, reports)"
      unfolding h[rule_format, of ss] .
    from Cons.IH[OF this] show ?thesis
    proof (elim exE conjE)
      fix k
      assume k: "k < length ss"
        "fst (validateHostSessions_loop P C e4' e6' (take k ss)) = None"
        "fst (validateHostSessions_loop P C e4' e6' (take (Suc k) ss)) \<noteq> None"
        "reports = [ReportResourceFailure (resourceKind (ss ! k)) (resourceName (ss ! k)) e]"
      show ?thesis
      proof (intro exI[of _ "Suc k"] conjI)
        show "Suc k < length (s # ss)" using k(1) by simp
        show "fst (validateHostSessions_loop P C e4 e6 (take (Suc k) (s # ss))) = None"
          using k(2) h[rule_format, of "take k ss"] by simp
        show "fst (validateHostSessions_loop P C e4 e6 (take (Suc (Suc k)) (s # ss))) \<noteq> None"
          using k(3) h[rule_format, of "take (Suc k) ss"] by simp
        show "reports = [ReportResourceFailure (resourceKind ((s # ss) ! Suc k))
            (resourceName ((s # ss) ! Suc k)) e]" using k(4) by simp
      qed
    qed
  qed
qed

lemma hostSessionsFromL3VNIs_Cons:
  "hostSessionsFromL3VNIs (v # l3VNIs) =
     (case l3_HostSession v of
        None \<Rightarrow> []
      | Some hs \<Rightarrow> [\<lparr>hsi_HostSession = hs, resourceKind = L3VNIKind, resourceName = l3_Name v\<rparr>])
     @ hostSessionsFromL3VNIs l3VNIs"
  by (simp add: hostSessionsFromL3VNIs_def)

lemma hostSessionsFromL3VNIs_Nil: "hostSessionsFromL3VNIs [] = []"
  by (simp add: hostSessionsFromL3VNIs_def)

lemma hostSessionsFromL3VNIs_index:
  "k < length (hostSessionsFromL3VNIs l3VNIs) \<Longrightarrow>
   \<exists>n<length l3VNIs. l3_HostSession (l3VNIs ! n) \<noteq> None
      \<and> resourceKind (hostSessionsFromL3VNIs l3VNIs ! k) = L3VNIKind
      \<and> resourceName (hostSessionsFromL3VNIs l3VNIs ! k) = l3_Name (l3VNIs ! n)
      \<and> take k (hostSessionsFromL3VNIs l3VNIs) = hostSessionsFromL3VNIs (take n l3VNIs)
      \<and> take (Suc k) (hostSessionsFromL3VNIs l3VNIs) = hostSessionsFromL3VNIs (take (Suc n) l3VNIs)"
proof (induction l3VNIs arbitrary: k)
  case Nil
  then show ?case by (simp add: hostSessionsFromL3VNIs_Nil)
next
  case (Cons v vs)
  have shift: "\<exists>n<length (v # vs). l3_HostSession ((v # vs) ! n) \<noteq> None
      \<and> resourceKind (hostSessionsFromL3VNIs vs ! j) = L3VNIKind
      \<and> resourceName (hostSessionsFromL3VNIs vs ! j) = l3_Name ((v # vs) ! n)
      \<and> hostSessionsFromL3VNIs (take 1 (v # vs)) @ take j (hostSessionsFromL3VNIs vs)
          = hostSessionsFromL3VNIs (take n (v # vs))
      \<and> hostSessionsFromL3VNIs (take 1 (v # vs)) @ take (Suc j) (hostSessionsFromL3VNIs vs)
          = hostSessionsFromL3VNIs (take (Suc n) (v # vs))"
    if j: "j < length (hostSessionsFromL3VNIs vs)" for j
    using Cons.IH[OF j]
  proof (elim exE conjE)
    fix n
    assume n: "n < length vs" "l3_HostSession (vs ! n) \<noteq> None"
      "resourceKind (hostSessionsFromL3VNIs vs ! j) = L3VNIKind"
      "resourceName (hostSessionsFromL3VNIs vs ! j) = l3_Name (vs ! n)"
      "take j (hostSessionsFromL3VNIs vs) = hostSessionsFromL3VNIs (take n vs)"
      "take (Suc j) (hostSessionsFromL3VNIs vs) = hostSessionsFromL3VNIs (take (Suc n) vs)"
    show ?thesis
    proof (intro exI[of _ "Suc n"] conjI)
      show "Suc n < length (v # vs)" using n(1) by simp
      show "l3_HostSession ((v # vs) ! Suc n) \<noteq> None" using n(2) by simp
      show "resourceKind (hostSessionsFromL3VNIs vs ! j) = L3VNIKind" by (rule n(3))
      show "resourceName (hostSessionsFromL3VNIs vs ! j) = l3_Name ((v # vs) ! Suc n)"
        using n(4) by simp
      show "hostSessionsFromL3VNIs (take 1 (v # vs)) @ take j (hostSessionsFromL3VNIs vs)
          = hostSessionsFromL3VNIs (take (Suc n) (v # vs))"
        unfolding n(5) by (simp add: hostSessionsFromL3VNIs_Cons hostSessionsFromL3VNIs_Nil)
      show "hostSessionsFromL3VNIs (take 1 (v # vs)) @ take (Suc j) (hostSessionsFromL3VNIs vs)
          = hostSessionsFromL3VNIs (take (Suc (Suc n)) (v # vs))"
        unfolding n(6)
        by (simp add: hostSessionsFromL3VNIs_Cons[of v "take (Suc n) vs"]
            hostSessionsFromL3VNIs_Cons[of v "[]"] hostSessionsFromL3VNIs_Nil)
    qed
  qed
  show ?case
  proof (cases "l3_HostSession v")
    case None
    have eq: "hostSessionsFromL3VNIs (v # vs) = hostSessionsFromL3VNIs vs"
      by (simp add: hostSessionsFromL3VNIs_Cons None)
    have one: "hostSessionsFromL3VNIs (take 1 (v # vs)) = []"
      by (simp add: hostSessionsFromL3VNIs_Cons None hostSessionsFromL3VNIs_Nil)
    have j: "k < length (hostSessionsFromL3VNIs vs)" using Cons.prems eq by simp
    from shift[OF j] show ?thesis unfolding eq one by simp
  next
    case (Some hs)
    define x where "x = \<lparr>hsi_HostSession = hs, resourceKind = L3VNIKind, resourceName = l3_Name v\<rparr>"
    have eq: "hostSessionsFromL3VNIs (v # ws) = x # hostSessionsFromL3VNIs ws" for ws
      by (simp add: hostSessionsFromL3VNIs_Cons Some x_def)
    have one: "hostSessionsFromL3VNIs (take 1 (v # vs)) = [x]"
      by (simp add: eq hostSessionsFromL3VNIs_Nil)
    show ?thesis
    proof (cases k)
      case 0
      show ?thesis
      proof (intro exI[of _ 0] conjI)
        show "0 < length (v # vs)" by simp
        show "l3_HostSession ((v # vs) ! 0) \<noteq> None" using Some by simp
        show "resourceKind (hostSessionsFromL3VNIs (v # vs) ! k) = L3VNIKind"
          by (simp add: eq 0 x_def)
        show "resourceName (hostSessionsFromL3VNIs (v # vs) ! k) = l3_Name ((v # vs) ! 0)"
          by (simp add: eq 0 x_def)
        show "take k (hostSessionsFromL3VNIs (v # vs)) = hostSessionsFromL3VNIs (take 0 (v # vs))"
          by (simp add: 0 hostSessionsFromL3VNIs_Nil)
        show "take (Suc k) (hostSessionsFromL3VNIs (v # vs))
            = hostSessionsFromL3VNIs (take (Suc 0) (v # vs))"
          by (simp add: 0 eq hostSessionsFromL3VNIs_Nil)
      qed
    next
      case (Suc j)
      have j: "j < length (hostSessionsFromL3VNIs vs)" using Cons.prems Suc by (simp add: eq)
      from shift[OF j] show ?thesis unfolding eq[of vs] one Suc by simp
    qed
  qed
qed


lemma declared_L3VNIs:
  "map hsi_HostSession (hostSessionsFromL3VNIs l3VNIs) = declaredHostSessions l3VNIs []"
  using hostSessions_declared[of l3VNIs "[]"] by (simp add: hostSessionsFromL3Passthrough_def)

lemma ValidateHostSessions_blame:
  assumes "ValidateHostSessions P C l3VNIs l3Passthrough = (Some e, reports)"
  shows "(\<exists>k<length l3VNIs. l3_HostSession (l3VNIs ! k) \<noteq> None
            \<and> sessionsAcceptable P C (declaredHostSessions (take k l3VNIs) [])
            \<and> \<not> sessionsAcceptable P C (declaredHostSessions (take (Suc k) l3VNIs) [])
            \<and> reports = [ReportResourceFailure L3VNIKind (l3_Name (l3VNIs ! k)) e])
       \<or> (\<exists>k<length l3Passthrough.
              sessionsAcceptable P C (declaredHostSessions l3VNIs (take k l3Passthrough))
            \<and> \<not> sessionsAcceptable P C (declaredHostSessions l3VNIs (take (Suc k) l3Passthrough))
            \<and> reports = [ReportResourceFailure L3PassthroughKind (pt_Name (l3Passthrough ! k)) e])"
proof -
  define X where "X = hostSessionsFromL3VNIs l3VNIs"
  define Y where "Y = hostSessionsFromL3Passthrough l3Passthrough"
  have lenY: "length Y = length l3Passthrough"
    by (simp add: Y_def hostSessionsFromL3Passthrough_def)
  have takeY: "take j Y = hostSessionsFromL3Passthrough (take j l3Passthrough)" for j
    by (simp add: Y_def hostSessionsFromL3Passthrough_def take_map)
  from assms have "validateHostSessions_loop P C [] [] (X @ Y) = (Some e, reports)"
    by (simp add: ValidateHostSessions_def X_def Y_def)
  from loop_blame[OF this] obtain k where k: "k < length (X @ Y)"
    "fst (validateHostSessions_loop P C [] [] (take k (X @ Y))) = None"
    "fst (validateHostSessions_loop P C [] [] (take (Suc k) (X @ Y))) \<noteq> None"
    "reports = [ReportResourceFailure (resourceKind ((X @ Y) ! k)) (resourceName ((X @ Y) ! k)) e]"
    by blast
  have acc: "sessionsAcceptable P C (map hsi_HostSession (take k (X @ Y)))"
    using k(2) by (simp add: loop_acceptable)
  have nacc: "\<not> sessionsAcceptable P C (map hsi_HostSession (take (Suc k) (X @ Y)))"
    using k(3) by (simp add: loop_acceptable)
  show ?thesis
  proof (cases "k < length X")
    case True
    from hostSessionsFromL3VNIs_index[of k l3VNIs] True obtain n where n: "n < length l3VNIs"
      "l3_HostSession (l3VNIs ! n) \<noteq> None"
      "resourceKind (X ! k) = L3VNIKind" "resourceName (X ! k) = l3_Name (l3VNIs ! n)"
      "take k X = hostSessionsFromL3VNIs (take n l3VNIs)"
      "take (Suc k) X = hostSessionsFromL3VNIs (take (Suc n) l3VNIs)"
      unfolding X_def by blast
    have t1: "take k (X @ Y) = hostSessionsFromL3VNIs (take n l3VNIs)"
      using True n(5) by simp
    have t2: "take (Suc k) (X @ Y) = hostSessionsFromL3VNIs (take (Suc n) l3VNIs)"
      using True n(6) by simp
    have el: "(X @ Y) ! k = X ! k" using True by (simp add: nth_append)
    have "sessionsAcceptable P C (declaredHostSessions (take n l3VNIs) [])"
      using acc unfolding t1 declared_L3VNIs .
    moreover have "\<not> sessionsAcceptable P C (declaredHostSessions (take (Suc n) l3VNIs) [])"
      using nacc unfolding t2 declared_L3VNIs .
    moreover have "reports = [ReportResourceFailure L3VNIKind (l3_Name (l3VNIs ! n)) e]"
      using k(4) unfolding el n(3) n(4) .
    ultimately show ?thesis using n(1) n(2) by blast
  next
    case False
    define j where "j = k - length X"
    have j: "j < length l3Passthrough" using k(1) False lenY by (simp add: j_def)
    have t1: "take k (X @ Y) = X @ hostSessionsFromL3Passthrough (take j l3Passthrough)"
      using False by (simp add: j_def takeY)
    have t2: "take (Suc k) (X @ Y) = X @ hostSessionsFromL3Passthrough (take (Suc j) l3Passthrough)"
      using False by (simp add: j_def takeY Suc_diff_le)
    have el: "(X @ Y) ! k = Y ! j" using False by (simp add: nth_append j_def)
    have yj: "resourceKind (Y ! j) = L3PassthroughKind"
      "resourceName (Y ! j) = pt_Name (l3Passthrough ! j)"
      using j by (simp_all add: Y_def hostSessionsFromL3Passthrough_def)
    have m1: "map hsi_HostSession (take k (X @ Y)) = declaredHostSessions l3VNIs (take j l3Passthrough)"
      unfolding t1 unfolding X_def by (rule hostSessions_declared)
    have m2: "map hsi_HostSession (take (Suc k) (X @ Y))
        = declaredHostSessions l3VNIs (take (Suc j) l3Passthrough)"
      unfolding t2 unfolding X_def by (rule hostSessions_declared)
    have "sessionsAcceptable P C (declaredHostSessions l3VNIs (take j l3Passthrough))"
      using acc unfolding m1 .
    moreover have "\<not> sessionsAcceptable P C (declaredHostSessions l3VNIs (take (Suc j) l3Passthrough))"
      using nacc unfolding m2 .
    moreover have "reports = [ReportResourceFailure L3PassthroughKind (pt_Name (l3Passthrough ! j)) e]"
      using k(4) unfolding el yj .
    ultimately show ?thesis using j by blast
  qed
qed

text \<open>
  C2 (as amended). Every error of a validation function other than the
  more-than-one-underlay error of \<open>ValidateUnderlays\<close> comes with exactly one report: a
  failure that carries the returned error, against the offending resource, which is the first
  one in processing order at which a check fails.
  \<^item> For \<open>ValidateUnderlays\<close> on at most one underlay it is that underlay.
  \<^item> For \<open>ValidateL3VNIs\<close> it is the first L3VNI whose VRF name is not an interface name or
    whose VRF name or VNI number is that of an earlier L3VNI.
  \<^item> For \<open>ValidateL2VNIs\<close> it is the first L2VNI that fails in this way or, when none does, the
    first L2VNI whose host master name or gateway IPs are refused.
  \<^item> For \<open>ValidateHostSessions\<close> it is the L3VNI with a host session, or the L3Passthrough, up
    to which the declared host sessions go together and with which they no longer do; the
    L3VNIs come before the L3Passthroughs.
\<close>

theorem validation_error_reported_once:
  "(\<forall>e reports. length underlays \<le> 1 \<and> ValidateUnderlays ParseCIDR underlays = (Some e, reports)
      \<longrightarrow> (\<exists>u. underlays = [u] \<and> reports = [ReportResourceFailure UnderlayKind (ul_Name u) e]))
   \<and> (\<forall>e reports. ValidateL3VNIs l3Vnis = (Some e, reports)
      \<longrightarrow> (\<exists>k. firstToFail l3_VRF l3_VNI l3Vnis k
             \<and> reports = [ReportResourceFailure L3VNIKind (l3_Name (l3Vnis ! k)) e]))
   \<and> (\<forall>e reports. ValidateL2VNIs VRFName ForCIDRStrings l2Vnis = (Some e, reports)
      \<longrightarrow> (\<exists>k. firstToFail VRFName l2_VNI l2Vnis k
             \<and> reports = [ReportResourceFailure L2VNIKind (l2_Name (l2Vnis ! k)) e])
          \<or> ((\<forall>i \<in> {0..<length l2Vnis}. \<not> failsCheckAt VRFName l2_VNI l2Vnis i)
             \<and> (\<exists>k<length l2Vnis. l2SpecificFails ForCIDRStrings (l2Vnis ! k)
                   \<and> (\<forall>i \<in> {0..<k}. \<not> l2SpecificFails ForCIDRStrings (l2Vnis ! i))
                   \<and> reports = [ReportResourceFailure L2VNIKind (l2_Name (l2Vnis ! k)) e])))
   \<and> (\<forall>e reports. ValidateHostSessions ParseCIDR Contains l3VNIs l3Passthrough = (Some e, reports)
      \<longrightarrow> (\<exists>k<length l3VNIs. l3_HostSession (l3VNIs ! k) \<noteq> None
             \<and> sessionsAcceptable ParseCIDR Contains (declaredHostSessions (take k l3VNIs) [])
             \<and> \<not> sessionsAcceptable ParseCIDR Contains
                    (declaredHostSessions (take (Suc k) l3VNIs) [])
             \<and> reports = [ReportResourceFailure L3VNIKind (l3_Name (l3VNIs ! k)) e])
          \<or> (\<exists>k<length l3Passthrough.
                sessionsAcceptable ParseCIDR Contains
                  (declaredHostSessions l3VNIs (take k l3Passthrough))
              \<and> \<not> sessionsAcceptable ParseCIDR Contains
                     (declaredHostSessions l3VNIs (take (Suc k) l3Passthrough))
              \<and> reports = [ReportResourceFailure L3PassthroughKind
                              (pt_Name (l3Passthrough ! k)) e]))"
proof (intro conjI allI impI)
  fix e reports
  assume "length underlays \<le> 1 \<and> ValidateUnderlays ParseCIDR underlays = (Some e, reports)"
  then show "\<exists>u. underlays = [u] \<and> reports = [ReportResourceFailure UnderlayKind (ul_Name u) e]"
    using ValidateUnderlays_error[of underlays ParseCIDR e reports] by simp
next
  fix e reports
  assume "ValidateL3VNIs l3Vnis = (Some e, reports)"
  then show "\<exists>k. firstToFail l3_VRF l3_VNI l3Vnis k
             \<and> reports = [ReportResourceFailure L3VNIKind (l3_Name (l3Vnis ! k)) e]"
    by (rule ValidateL3VNIs_error)
next
  fix e reports
  assume "ValidateL2VNIs VRFName ForCIDRStrings l2Vnis = (Some e, reports)"
  then show "(\<exists>k. firstToFail VRFName l2_VNI l2Vnis k
             \<and> reports = [ReportResourceFailure L2VNIKind (l2_Name (l2Vnis ! k)) e])
          \<or> ((\<forall>i \<in> {0..<length l2Vnis}. \<not> failsCheckAt VRFName l2_VNI l2Vnis i)
             \<and> (\<exists>k<length l2Vnis. l2SpecificFails ForCIDRStrings (l2Vnis ! k)
                   \<and> (\<forall>i \<in> {0..<k}. \<not> l2SpecificFails ForCIDRStrings (l2Vnis ! i))
                   \<and> reports = [ReportResourceFailure L2VNIKind (l2_Name (l2Vnis ! k)) e]))"
    by (rule ValidateL2VNIs_error)
next
  fix e reports
  assume "ValidateHostSessions ParseCIDR Contains l3VNIs l3Passthrough = (Some e, reports)"
  then show "(\<exists>k<length l3VNIs. l3_HostSession (l3VNIs ! k) \<noteq> None
             \<and> sessionsAcceptable ParseCIDR Contains (declaredHostSessions (take k l3VNIs) [])
             \<and> \<not> sessionsAcceptable ParseCIDR Contains
                    (declaredHostSessions (take (Suc k) l3VNIs) [])
             \<and> reports = [ReportResourceFailure L3VNIKind (l3_Name (l3VNIs ! k)) e])
          \<or> (\<exists>k<length l3Passthrough.
                sessionsAcceptable ParseCIDR Contains
                  (declaredHostSessions l3VNIs (take k l3Passthrough))
              \<and> \<not> sessionsAcceptable ParseCIDR Contains
                     (declaredHostSessions l3VNIs (take (Suc k) l3Passthrough))
              \<and> reports = [ReportResourceFailure L3PassthroughKind
                              (pt_Name (l3Passthrough ! k)) e])"
    by (rule ValidateHostSessions_blame)
qed


lemma isValidInterfaceName_eth0: "isValidInterfaceName ''eth0'' = None"
  by (simp add: isValidInterfaceName_def isAsciiLetter_def isInterfaceNameChar_def)

text \<open>
  An underlay with ASN 0, two L3VNIs with VRF \<open>red\<close>, two L2VNIs with VNI 300, and an L3VNI
  and a passthrough with overlapping CIDRs: each error comes with its one report, against the
  second resource, the first that fails.
\<close>

theorem validation_error_reported_once_witness:
  "ValidateUnderlays exampleParseCIDR [exampleUnderlay ''underlay1'' 0] =
     (Some (Errorf ''underlay %s must have a valid ASN'' [ArgString ''underlay1''] None),
      [ReportResourceFailure UnderlayKind ''underlay1''
         (Errorf ''underlay %s must have a valid ASN'' [ArgString ''underlay1''] None)])
   \<and> ValidateL3VNIs [exampleL3VNI ''vni1'' 100 ''red'', exampleL3VNI ''vni2'' 200 ''red''] =
     (Some (Errorf ''duplicate vrf %s: %s - %s'' [ArgString ''red'', ArgString ''vni1'', ArgString ''vni2''] None),
      [ReportResourceFailure L3VNIKind ''vni2''
         (Errorf ''duplicate vrf %s: %s - %s'' [ArgString ''red'', ArgString ''vni1'', ArgString ''vni2''] None)])
   \<and> (\<exists>k. firstToFail l3_VRF l3_VNI
              [exampleL3VNI ''vni1'' 100 ''red'', exampleL3VNI ''vni2'' 200 ''red''] k
          \<and> l3_Name ([exampleL3VNI ''vni1'' 100 ''red'', exampleL3VNI ''vni2'' 200 ''red''] ! k)
              = ''vni2'')
   \<and> ValidateL2VNIs exampleVRFName exampleForCIDRStrings
        [exampleL2VNI ''l2a'' 300 (Some ''blue''), exampleL2VNI ''l2b'' 300 (Some ''red'')] =
     (Some (Errorf ''duplicate vni %d:%s - %s'' [ArgInt 300, ArgString ''l2a'', ArgString ''l2b''] None),
      [ReportResourceFailure L2VNIKind ''l2b''
         (Errorf ''duplicate vni %d:%s - %s'' [ArgInt 300, ArgString ''l2a'', ArgString ''l2b''] None)])
   \<and> (\<exists>k. firstToFail exampleVRFName l2_VNI
              [exampleL2VNI ''l2a'' 300 (Some ''blue''), exampleL2VNI ''l2b'' 300 (Some ''red'')] k
          \<and> l2_Name ([exampleL2VNI ''l2a'' 300 (Some ''blue''),
                       exampleL2VNI ''l2b'' 300 (Some ''red'')] ! k) = ''l2b'')
   \<and> ValidateHostSessions exampleParseCIDR exampleContains
        [exampleL3VNIWithSession ''vni1'' 1001 ''red'' ''192.168.1.0/24'']
        [examplePassthrough ''pt1'' 65003 65004 ''192.168.1.128/25''] =
     (Some (Errorf ''overlapping cidrs %s - %s for vnis %s - %s''
              [ArgString ''192.168.1.0/24'', ArgString ''192.168.1.128/25'',
               ArgString ''L3VNI vni1'', ArgString ''L3Passthrough pt1''] None),
      [ReportResourceFailure L3PassthroughKind ''pt1''
         (Errorf ''overlapping cidrs %s - %s for vnis %s - %s''
            [ArgString ''192.168.1.0/24'', ArgString ''192.168.1.128/25'',
             ArgString ''L3VNI vni1'', ArgString ''L3Passthrough pt1''] None)])
   \<and> sessionsAcceptable exampleParseCIDR exampleContains
         (declaredHostSessions [exampleL3VNIWithSession ''vni1'' 1001 ''red'' ''192.168.1.0/24''] [])
   \<and> \<not> sessionsAcceptable exampleParseCIDR exampleContains
         (declaredHostSessions [exampleL3VNIWithSession ''vni1'' 1001 ''red'' ''192.168.1.0/24'']
            [examplePassthrough ''pt1'' 65003 65004 ''192.168.1.128/25''])"
proof -
  let ?l3 = "[exampleL3VNI ''vni1'' 100 ''red'', exampleL3VNI ''vni2'' 200 ''red'']"
  let ?l2 = "[exampleL2VNI ''l2a'' 300 (Some ''blue''), exampleL2VNI ''l2b'' 300 (Some ''red'')]"
  let ?s3 = "[exampleL3VNIWithSession ''vni1'' 1001 ''red'' ''192.168.1.0/24'']"
  let ?pt = "[examplePassthrough ''pt1'' 65003 65004 ''192.168.1.128/25'']"
  have r1: "ValidateUnderlays exampleParseCIDR [exampleUnderlay ''underlay1'' 0] =
     (Some (Errorf ''underlay %s must have a valid ASN'' [ArgString ''underlay1''] None),
      [ReportResourceFailure UnderlayKind ''underlay1''
         (Errorf ''underlay %s must have a valid ASN'' [ArgString ''underlay1''] None)])"
    by (simp add: ValidateUnderlays_def validateUnderlay_def exampleUnderlay_def Let_def andThen_def)
  have r2: "ValidateL3VNIs ?l3 =
     (Some (Errorf ''duplicate vrf %s: %s - %s'' [ArgString ''red'', ArgString ''vni1'', ArgString ''vni2''] None),
      [ReportResourceFailure L3VNIKind ''vni2''
         (Errorf ''duplicate vrf %s: %s - %s'' [ArgString ''red'', ArgString ''vni1'', ArgString ''vni2''] None)])"
    by (simp add: ValidateL3VNIs_eq validateVNIs_def vnisFromL3VNIs_def exampleL3VNI_def
        validateVNIs_loop.simps isValidInterfaceName_red Let_def)
  have r3: "ValidateL2VNIs exampleVRFName exampleForCIDRStrings ?l2 =
     (Some (Errorf ''duplicate vni %d:%s - %s'' [ArgInt 300, ArgString ''l2a'', ArgString ''l2b''] None),
      [ReportResourceFailure L2VNIKind ''l2b''
         (Errorf ''duplicate vni %d:%s - %s'' [ArgInt 300, ArgString ''l2a'', ArgString ''l2b''] None)])"
    by (simp add: ValidateL2VNIs_def validateVNIs_def vnisFromL2VNIs_def exampleL2VNI_def
        exampleVRFName_def validateVNIs_loop.simps isValidInterfaceName_red
        isValidInterfaceName_blue Let_def)
  have r4: "ValidateHostSessions exampleParseCIDR exampleContains ?s3 ?pt =
     (Some (Errorf ''overlapping cidrs %s - %s for vnis %s - %s''
              [ArgString ''192.168.1.0/24'', ArgString ''192.168.1.128/25'',
               ArgString ''L3VNI vni1'', ArgString ''L3Passthrough pt1''] None),
      [ReportResourceFailure L3PassthroughKind ''pt1''
         (Errorf ''overlapping cidrs %s - %s for vnis %s - %s''
            [ArgString ''192.168.1.0/24'', ArgString ''192.168.1.128/25'',
             ArgString ''L3VNI vni1'', ArgString ''L3Passthrough pt1''] None)])"
    by (simp add: ValidateHostSessions_def hostSessionsFromL3VNIs_def
        hostSessionsFromL3Passthrough_def exampleL3VNIWithSession_def examplePassthrough_def
        validateCIDR_def isValidCIDR_def cidrsOverlap_def exampleParseCIDR_def
        exampleContains_def hsi_Name_def L3PassthroughKind_def L3VNIKind_def andThen_def Let_def)
  note inst = validation_error_reported_once[of "[exampleUnderlay ''underlay1'' 0]"
      exampleParseCIDR
      "[exampleL3VNI ''vni1'' 100 ''red'', exampleL3VNI ''vni2'' 200 ''red'']"
      exampleVRFName exampleForCIDRStrings
      "[exampleL2VNI ''l2a'' 300 (Some ''blue''), exampleL2VNI ''l2b'' 300 (Some ''red'')]"
      exampleContains
      "[exampleL3VNIWithSession ''vni1'' 1001 ''red'' ''192.168.1.0/24'']"
      "[examplePassthrough ''pt1'' 65003 65004 ''192.168.1.128/25'']"]
  from inst have i2: "\<forall>e reports. ValidateL3VNIs ?l3 = (Some e, reports)
      \<longrightarrow> (\<exists>k. firstToFail l3_VRF l3_VNI ?l3 k
             \<and> reports = [ReportResourceFailure L3VNIKind (l3_Name (?l3 ! k)) e])"
    by (elim conjE)
  from inst have i3: "\<forall>e reports. ValidateL2VNIs exampleVRFName exampleForCIDRStrings ?l2 = (Some e, reports)
      \<longrightarrow> (\<exists>k. firstToFail exampleVRFName l2_VNI ?l2 k
             \<and> reports = [ReportResourceFailure L2VNIKind (l2_Name (?l2 ! k)) e])
          \<or> ((\<forall>i \<in> {0..<length ?l2}. \<not> failsCheckAt exampleVRFName l2_VNI ?l2 i)
             \<and> (\<exists>k<length ?l2. l2SpecificFails exampleForCIDRStrings (?l2 ! k)
                   \<and> (\<forall>i \<in> {0..<k}. \<not> l2SpecificFails exampleForCIDRStrings (?l2 ! i))
                   \<and> reports = [ReportResourceFailure L2VNIKind (l2_Name (?l2 ! k)) e]))"
    by (elim conjE)
  from inst have i4: "\<forall>e reports. ValidateHostSessions exampleParseCIDR exampleContains ?s3 ?pt = (Some e, reports)
      \<longrightarrow> (\<exists>k<length ?s3. l3_HostSession (?s3 ! k) \<noteq> None
             \<and> sessionsAcceptable exampleParseCIDR exampleContains (declaredHostSessions (take k ?s3) [])
             \<and> \<not> sessionsAcceptable exampleParseCIDR exampleContains
                    (declaredHostSessions (take (Suc k) ?s3) [])
             \<and> reports = [ReportResourceFailure L3VNIKind (l3_Name (?s3 ! k)) e])
          \<or> (\<exists>k<length ?pt.
                sessionsAcceptable exampleParseCIDR exampleContains
                  (declaredHostSessions ?s3 (take k ?pt))
              \<and> \<not> sessionsAcceptable exampleParseCIDR exampleContains
                     (declaredHostSessions ?s3 (take (Suc k) ?pt))
              \<and> reports = [ReportResourceFailure L3PassthroughKind
                              (pt_Name (?pt ! k)) e])"
    by (elim conjE)
  from i2[rule_format, OF r2]
  have c2: "\<exists>k. firstToFail l3_VRF l3_VNI ?l3 k \<and> l3_Name (?l3 ! k) = ''vni2''"
    by auto
  have f3: "failsCheckAt exampleVRFName l2_VNI ?l2 1" "(1::nat) \<in> {0..<length ?l2}"
    by (simp_all add: failsCheckAt_def exampleL2VNI_def)
  from i3[rule_format, OF r3] f3
  have c3: "\<exists>k. firstToFail exampleVRFName l2_VNI ?l2 k \<and> l2_Name (?l2 ! k) = ''l2b''"
    by auto
  from i4[rule_format, OF r4]
  have c4: "sessionsAcceptable exampleParseCIDR exampleContains (declaredHostSessions ?s3 [])
          \<and> \<not> sessionsAcceptable exampleParseCIDR exampleContains (declaredHostSessions ?s3 ?pt)"
    by (auto simp: L3VNIKind_def L3PassthroughKind_def)
  from r1 r2 c2 r3 c3 r4 c4 show ?thesis by blast
qed

text \<open>
  C2 as stated fails: two underlays, each valid on its own, make \<open>ValidateUnderlays\<close> return
  an error without any report.
\<close>

theorem validation_error_without_report_counterexample:
  "ValidateUnderlays exampleParseCIDR
     [exampleUnderlay ''underlay1'' 65001, exampleUnderlay ''underlay2'' 65002] =
   (Some (Errorf ''can't have more than one underlay'' [] None), [])"
  by (simp add: ValidateUnderlays_def)

text \<open>
  C9 (as amended). A list of underlays that holds an underlay with ASN 0 never passes
  \<open>ValidateUnderlays\<close>. When the list holds no more than one underlay, the error comes with
  exactly one report, a failure against that underlay.
\<close>

theorem zero_ASN_underlay_rejected:
  assumes "u \<in> set underlays" and "ul_ASN u = 0"
  shows "(\<exists>e. fst (ValidateUnderlays ParseCIDR underlays) = Some e)
     \<and> (length underlays \<le> 1 \<longrightarrow>
          (\<exists>e. ValidateUnderlays ParseCIDR underlays =
                  (Some e, [ReportResourceFailure UnderlayKind (ul_Name u) e])))"
proof (cases "length underlays > 1")
  case True
  then show ?thesis by (simp add: ValidateUnderlays_def)
next
  case False
  with assms(1) have "underlays = [u]"
    by (cases underlays) auto
  with assms(2) show ?thesis
    by (simp add: ValidateUnderlays_def validateUnderlay_def andThen_def Let_def)
qed

theorem zero_ASN_underlay_rejected_witness:
  "exampleUnderlay ''underlay1'' 0 \<in> set [exampleUnderlay ''underlay1'' 0]
   \<and> ul_ASN (exampleUnderlay ''underlay1'' 0) = 0
   \<and> (\<exists>e. ValidateUnderlays exampleParseCIDR [exampleUnderlay ''underlay1'' 0] =
             (Some e, [ReportResourceFailure UnderlayKind ''underlay1'' e]))"
  using zero_ASN_underlay_rejected[of "exampleUnderlay ''underlay1'' 0"
      "[exampleUnderlay ''underlay1'' 0]" exampleParseCIDR]
  by (simp add: exampleUnderlay_def)

text \<open>
  C9 as stated fails: next to a second underlay, the underlay with ASN 0 makes
  \<open>ValidateUnderlays\<close> return an error, and no failure is reported for it.
\<close>

theorem zero_ASN_underlay_not_reported_counterexample:
  "ul_ASN (exampleUnderlay ''underlay1'' 0) = 0
   \<and> ValidateUnderlays exampleParseCIDR
        [exampleUnderlay ''underlay1'' 0, exampleUnderlay ''underlay2'' 65002] =
      (Some (Errorf ''can't have more than one underlay'' [] None), [])"
  by (simp add: ValidateUnderlays_def exampleUnderlay_def)

section \<open>Properties of the error returned for a removed underlay\<close>

lemma errorsAs_unwrapAll: "errorsAs p e \<longleftrightarrow> (\<exists>x \<in> set (unwrapAll e). p x)"
  by (induction p e rule: errorsAs.induct) (auto simp: list_ex_iff split: option.splits)

lemma thenDo_neq:
  assumes "\<And>t. fst (a t) \<noteq> Some x" and "\<And>t. fst (b t) \<noteq> Some x"
  shows "fst (thenDo a b t) \<noteq> Some x"
  using assms(1)[of t] assms(2)[of "snd (a t)"]
  by (cases "a t") (auto simp: thenDo_def split: option.splits)

lemma wrapErr_neq: "fst (wrapErr f args step t) \<noteq> Some UnderlayRemovedError"
  by (cases "step t") (auto simp: wrapErr_def split: option.splits)

lemma hostSetup_neq: "fst (hostSetup c call kind name f args t) \<noteq> Some UnderlayRemovedError"
  by (auto simp: hostSetup_def split: option.splits)

lemma proceed_neq: "fst (proceed t) \<noteq> Some UnderlayRemovedError"
  by (simp add: proceed_def)

lemma setupL3VNIs_neq: "fst (setupL3VNIs c hostConfig l3vnis t) \<noteq> Some UnderlayRemovedError"
proof (induction l3vnis arbitrary: t)
  case Nil
  show ?case by (simp add: proceed_def)
next
  case (Cons l3vni l3vnis)
  show ?case
  proof (cases "findHostL3VNI (hc_L3VNIs hostConfig) (uint (l3_VNI l3vni))")
    case None
    then show ?thesis by simp
  next
    case (Some h)
    show ?thesis
      unfolding setupL3VNIs.simps Some option.case
      by (rule thenDo_neq) (rule hostSetup_neq, rule Cons.IH)
  qed
qed

lemma setupL2VNIs_neq: "fst (setupL2VNIs c hostConfig l2vnis t) \<noteq> Some UnderlayRemovedError"
proof (induction l2vnis arbitrary: t)
  case Nil
  show ?case by (simp add: proceed_def)
next
  case (Cons l2vni l2vnis)
  show ?case
  proof (cases "findHostL2VNI (hc_L2VNIs hostConfig) (uint (l2_VNI l2vni))")
    case None
    then show ?thesis by simp
  next
    case (Some h)
    show ?thesis
      unfolding setupL2VNIs.simps Some option.case
      by (rule thenDo_neq) (rule hostSetup_neq, rule Cons.IH)
  qed
qed

lemma applyHostConfig_neq:
  "fst (applyHostConfig c config apiConfig hostConfig t) \<noteq> Some UnderlayRemovedError"
  unfolding applyHostConfig_def Let_def
  by (intro thenDo_neq wrapErr_neq setupL3VNIs_neq setupL2VNIs_neq)
     (auto simp: hostSetup_neq proceed_neq wrapErr_neq split: option.splits)

text \<open>
  C3. \<open>configureInterfaces\<close> returns \<open>UnderlayRemovedError\<close> exactly when the check of the
  target namespace answers that it has an underlay interface and no Underlay is declared;
  and \<open>nonRecoverableHostError\<close> holds of exactly the errors that are, or wrap, an
  \<open>UnderlayRemovedError\<close> or an \<open>UnderlayExistsError\<close>.
\<close>

theorem UnderlayRemovedError_returned_and_classified:
  "(fst (configureInterfaces c config t) = Some UnderlayRemovedError
      \<longleftrightarrow> hostHasUnderlayInterface c t (targetNamespace config) = Inr True
          \<and> length (Underlays (ic_ApiConfigData config)) = 0)
   \<and> (nonRecoverableHostError e
      \<longleftrightarrow> (\<exists>e'. e = Some e'
            \<and> (\<exists>x \<in> set (unwrapAll e'). x = UnderlayRemovedError \<or> (\<exists>s. x = UnderlayExistsError s))))"
proof
  show "fst (configureInterfaces c config t) = Some UnderlayRemovedError
      \<longleftrightarrow> hostHasUnderlayInterface c t (targetNamespace config) = Inr True
          \<and> length (Underlays (ic_ApiConfigData config)) = 0"
    using applyHostConfig_neq[of c config]
    by (auto simp: configureInterfaces_def Let_def split: sum.splits)
next
  have r: "isUnderlayRemovedError x \<longleftrightarrow> x = UnderlayRemovedError" for x
    by (cases x) (simp_all add: isUnderlayRemovedError_def)
  have x: "isUnderlayExistsError x \<longleftrightarrow> (\<exists>s. x = UnderlayExistsError s)" for x
    by (cases x) (simp_all add: isUnderlayExistsError_def)
  show "nonRecoverableHostError e
      \<longleftrightarrow> (\<exists>e'. e = Some e'
            \<and> (\<exists>x \<in> set (unwrapAll e'). x = UnderlayRemovedError \<or> (\<exists>s. x = UnderlayExistsError s)))"
    by (cases e) (auto simp: nonRecoverableHostError_def errorsAs_unwrapAll r x)
qed


text \<open>
  The host has an underlay interface and no Underlay is declared: the error is
  \<open>UnderlayRemovedError\<close>, and it stays non-recoverable when \<open>Reconcile\<close> has wrapped it; an
  error of another kind is recoverable.
\<close>

theorem UnderlayRemovedError_returned_and_classified_witness:
  "fst (configureInterfaces (exampleCollaborators True)
          \<lparr>targetNamespace = ''ns'', ic_ApiConfigData = exampleApiConfig [] [] [] []\<rparr> [])
     = Some UnderlayRemovedError
   \<and> nonRecoverableHostError
        (Some (Errorf ''failed to configure the host: %w'' [] (Some UnderlayRemovedError)))
   \<and> nonRecoverableHostError
        (Some (Errorf ''failed to setup underlay: %w'' []
                 (Some (UnderlayExistsError ''eth0''))))
   \<and> \<not> nonRecoverableHostError (Some (External ''link not found''))"
  using UnderlayRemovedError_returned_and_classified[of "exampleCollaborators True"
      "\<lparr>targetNamespace = ''ns'', ic_ApiConfigData = exampleApiConfig [] [] [] []\<rparr>" "[]"
      "Some (Errorf ''failed to configure the host: %w'' [] (Some UnderlayRemovedError))"]
    UnderlayRemovedError_returned_and_classified[of "exampleCollaborators True"
      "\<lparr>targetNamespace = ''ns'', ic_ApiConfigData = exampleApiConfig [] [] [] []\<rparr>" "[]"
      "Some (Errorf ''failed to setup underlay: %w'' [] (Some (UnderlayExistsError ''eth0'')))"]
    UnderlayRemovedError_returned_and_classified[of "exampleCollaborators True"
      "\<lparr>targetNamespace = ''ns'', ic_ApiConfigData = exampleApiConfig [] [] [] []\<rparr>" "[]"
      "Some (External ''link not found'')"]
  by (simp add: exampleCollaborators_def exampleApiConfig_def)

section \<open>Properties of the configuration of the host\<close>

lemma thenDo_NoneE:
  assumes "thenDo a b t = (None, t'')"
  obtains t' where "a t = (None, t')" and "b t' = (None, t'')"
  using assms by (cases "a t") (auto simp: thenDo_def split: option.splits)

lemma wrapErr_hostDo_None:
  assumes "wrapErr f args (hostDo c call) t = (None, t')"
  shows "t' = t @ [HostCall call] \<and> hostnetwork c t call = None"
  using assms by (auto simp: wrapErr_def hostDo_def split: option.splits)

lemma hostSetup_extends: "\<exists>m. snd (hostSetup c call kind name f args t) = t @ m"
  by (auto simp: hostSetup_def split: option.splits)

lemma findHostL3VNI_Some:
  "findHostL3VNI hs vni = Some h \<Longrightarrow> h \<in> set hs \<and> VNI (l3p_VNIParams h) = vni"
  by (induction hs) (auto split: if_splits)

lemma findHostL2VNI_Some:
  "findHostL2VNI hs vni = Some h \<Longrightarrow> h \<in> set hs \<and> VNI (l2p_VNIParams h) = vni"
  by (induction hs) (auto split: if_splits)

lemma setupL3VNIs_None:
  assumes "setupL3VNIs c hostConfig l3vnis t = (None, t')"
  shows "(\<exists>m. t' = t @ m)
     \<and> (\<forall>l3vni \<in> set l3vnis. uint (l3_VNI l3vni) \<in> VNI ` l3p_VNIParams ` set (hc_L3VNIs hostConfig))"
  using assms
proof (induction l3vnis arbitrary: t)
  case Nil
  then show ?case by (simp add: proceed_def)
next
  case (Cons l3vni l3vnis)
  show ?case
  proof (cases "findHostL3VNI (hc_L3VNIs hostConfig) (uint (l3_VNI l3vni))")
    case None
    with Cons.prems show ?thesis by simp
  next
    case (Some h)
    from Cons.prems have "thenDo (hostSetup c (SetupL3VNI h) L3VNIKind (l3_Name l3vni)
                    ''failed to setup L3VNI %s: %w'' [ArgString (l3_Name l3vni)])
                 (setupL3VNIs c hostConfig l3vnis) t = (None, t')"
      by (simp add: Some)
    then obtain t1 where
      a: "hostSetup c (SetupL3VNI h) L3VNIKind (l3_Name l3vni)
            ''failed to setup L3VNI %s: %w'' [ArgString (l3_Name l3vni)] t = (None, t1)"
      and b: "setupL3VNIs c hostConfig l3vnis t1 = (None, t')"
      by (rule thenDo_NoneE)
    from hostSetup_extends[of c "SetupL3VNI h" L3VNIKind "l3_Name l3vni"
        "''failed to setup L3VNI %s: %w''" "[ArgString (l3_Name l3vni)]" t] a
    obtain m1 where m1: "t1 = t @ m1" by auto
    from Cons.IH[OF b] obtain m2 where m2: "t' = t1 @ m2"
      and rest: "\<forall>l3vni \<in> set l3vnis. uint (l3_VNI l3vni) \<in> VNI ` l3p_VNIParams ` set (hc_L3VNIs hostConfig)"
      by auto
    have "uint (l3_VNI l3vni) \<in> VNI ` l3p_VNIParams ` set (hc_L3VNIs hostConfig)"
      using findHostL3VNI_Some[OF Some] by force
    with rest m1 m2 show ?thesis by auto
  qed
qed

lemma setupL2VNIs_None:
  assumes "setupL2VNIs c hostConfig l2vnis t = (None, t')"
  shows "(\<exists>m. t' = t @ m)
     \<and> (\<forall>l2vni \<in> set l2vnis. uint (l2_VNI l2vni) \<in> VNI ` l2p_VNIParams ` set (hc_L2VNIs hostConfig))"
  using assms
proof (induction l2vnis arbitrary: t)
  case Nil
  then show ?case by (simp add: proceed_def)
next
  case (Cons l2vni l2vnis)
  show ?case
  proof (cases "findHostL2VNI (hc_L2VNIs hostConfig) (uint (l2_VNI l2vni))")
    case None
    with Cons.prems show ?thesis by simp
  next
    case (Some h)
    from Cons.prems have "thenDo (hostSetup c (SetupL2VNI h) L2VNIKind (l2_Name l2vni)
                    ''failed to setup L2VNI %s: %w'' [ArgString (l2_Name l2vni)])
                 (setupL2VNIs c hostConfig l2vnis) t = (None, t')"
      by (simp add: Some)
    then obtain t1 where
      a: "hostSetup c (SetupL2VNI h) L2VNIKind (l2_Name l2vni)
            ''failed to setup L2VNI %s: %w'' [ArgString (l2_Name l2vni)] t = (None, t1)"
      and b: "setupL2VNIs c hostConfig l2vnis t1 = (None, t')"
      by (rule thenDo_NoneE)
    from hostSetup_extends[of c "SetupL2VNI h" L2VNIKind "l2_Name l2vni"
        "''failed to setup L2VNI %s: %w''" "[ArgString (l2_Name l2vni)]" t] a
    obtain m1 where m1: "t1 = t @ m1" by auto
    from Cons.IH[OF b] obtain m2 where m2: "t' = t1 @ m2"
      and rest: "\<forall>l2vni \<in> set l2vnis. uint (l2_VNI l2vni) \<in> VNI ` l2p_VNIParams ` set (hc_L2VNIs hostConfig)"
      by auto
    have "uint (l2_VNI l2vni) \<in> VNI ` l2p_VNIParams ` set (hc_L2VNIs hostConfig)"
      using findHostL2VNI_Some[OF Some] by force
    with rest m1 m2 show ?thesis by auto
  qed
qed


lemma applyHostConfig_None:
  assumes "applyHostConfig c config apiConfig hostConfig t = (None, t')"
  shows "\<exists>mid.
      t' = t @ [HostCall (EnsureIPv6Forwarding (targetNamespace config))] @ mid
             @ HostCall (RemoveNonConfiguredVNIs (targetNamespace config)
                  (map l3p_VNIParams (hc_L3VNIs hostConfig)
                   @ map l2p_VNIParams (hc_L2VNIs hostConfig)))
             # (if L3Passthrough apiConfig = []
                then [HostCall (RemovePassthrough (targetNamespace config))] else [])
    \<and> hostnetwork c t (EnsureIPv6Forwarding (targetNamespace config)) = None
    \<and> hostnetwork c (t @ [HostCall (EnsureIPv6Forwarding (targetNamespace config))] @ mid)
          (RemoveNonConfiguredVNIs (targetNamespace config)
             (map l3p_VNIParams (hc_L3VNIs hostConfig)
              @ map l2p_VNIParams (hc_L2VNIs hostConfig))) = None
    \<and> (L3Passthrough apiConfig = [] \<longrightarrow>
          hostnetwork c
            (t @ [HostCall (EnsureIPv6Forwarding (targetNamespace config))] @ mid
               @ [HostCall (RemoveNonConfiguredVNIs (targetNamespace config)
                     (map l3p_VNIParams (hc_L3VNIs hostConfig)
                      @ map l2p_VNIParams (hc_L2VNIs hostConfig)))])
            (RemovePassthrough (targetNamespace config)) = None)
    \<and> (\<forall>l3vni \<in> set (L3VNIs (ic_ApiConfigData config)).
          uint (l3_VNI l3vni) \<in> VNI ` l3p_VNIParams ` set (hc_L3VNIs hostConfig))
    \<and> (\<forall>l2vni \<in> set (L2VNIs (ic_ApiConfigData config)).
          uint (l2_VNI l2vni) \<in> VNI ` l2p_VNIParams ` set (hc_L2VNIs hostConfig))"
proof -
  define cfg where "cfg = ic_ApiConfigData config"
  define ns where "ns = targetNamespace config"
  define toCheck where
    "toCheck = map l3p_VNIParams (hc_L3VNIs hostConfig) @ map l2p_VNIParams (hc_L2VNIs hostConfig)"
  define underlayStep where "underlayStep =
     (if length (Underlays cfg) > 0 then
        hostSetup c (SetupUnderlay (hc_Underlay hostConfig)) UnderlayKind
          (ul_Name (hd (Underlays cfg))) ''failed to setup underlay: %w'' []
      else proceed)"
  define passthroughStep where "passthroughStep =
     (if length (L3Passthrough cfg) > 0 then
        (case hc_L3Passthrough hostConfig of
           None \<Rightarrow>
             (\<lambda>t. (Some (Errorf ''unexpected error, L3Passthrough not found in host config''
                           [] None), t))
         | Some passthrough \<Rightarrow>
             hostSetup c (SetupPassthrough passthrough) L3PassthroughKind
               (pt_Name (hd (L3Passthrough cfg))) ''failed to setup L3Passthrough %s: %w''
               [ArgString (pt_Name (hd (L3Passthrough cfg)))])
      else proceed)"
  define removeStep where "removeStep =
     (if length (L3Passthrough apiConfig) = 0 then
        wrapErr ''failed to remove passthrough: %w'' [] (hostDo c (RemovePassthrough ns))
      else proceed)"
  have unfolded: "applyHostConfig c config apiConfig hostConfig =
     thenDo (wrapErr ''failed to ensure IPv6 forwarding: %w'' []
                (hostDo c (EnsureIPv6Forwarding ns)))
     (thenDo underlayStep
     (thenDo (setupL3VNIs c hostConfig (L3VNIs cfg))
     (thenDo (setupL2VNIs c hostConfig (L2VNIs cfg))
     (thenDo passthroughStep
     (thenDo (wrapErr ''failed to remove deleted vnis: %w'' []
                (hostDo c (RemoveNonConfiguredVNIs ns toCheck)))
             removeStep)))))"
    unfolding applyHostConfig_def Let_def cfg_def ns_def toCheck_def underlayStep_def
      passthroughStep_def removeStep_def by (rule refl)
  from assms[unfolded unfolded] obtain t1 where
    s1: "wrapErr ''failed to ensure IPv6 forwarding: %w'' []
           (hostDo c (EnsureIPv6Forwarding ns)) t = (None, t1)"
    and r1: "thenDo underlayStep
     (thenDo (setupL3VNIs c hostConfig (L3VNIs cfg))
     (thenDo (setupL2VNIs c hostConfig (L2VNIs cfg))
     (thenDo passthroughStep
     (thenDo (wrapErr ''failed to remove deleted vnis: %w'' []
                (hostDo c (RemoveNonConfiguredVNIs ns toCheck)))
             removeStep)))) t1 = (None, t')"
    by (rule thenDo_NoneE)
  from r1 obtain t2 where
    s2: "underlayStep t1 = (None, t2)"
    and r2: "thenDo (setupL3VNIs c hostConfig (L3VNIs cfg))
     (thenDo (setupL2VNIs c hostConfig (L2VNIs cfg))
     (thenDo passthroughStep
     (thenDo (wrapErr ''failed to remove deleted vnis: %w'' []
                (hostDo c (RemoveNonConfiguredVNIs ns toCheck)))
             removeStep))) t2 = (None, t')"
    by (rule thenDo_NoneE)
  from r2 obtain t3 where
    s3: "setupL3VNIs c hostConfig (L3VNIs cfg) t2 = (None, t3)"
    and r3: "thenDo (setupL2VNIs c hostConfig (L2VNIs cfg))
     (thenDo passthroughStep
     (thenDo (wrapErr ''failed to remove deleted vnis: %w'' []
                (hostDo c (RemoveNonConfiguredVNIs ns toCheck)))
             removeStep)) t3 = (None, t')"
    by (rule thenDo_NoneE)
  from r3 obtain t4 where
    s4: "setupL2VNIs c hostConfig (L2VNIs cfg) t3 = (None, t4)"
    and r4: "thenDo passthroughStep
     (thenDo (wrapErr ''failed to remove deleted vnis: %w'' []
                (hostDo c (RemoveNonConfiguredVNIs ns toCheck)))
             removeStep) t4 = (None, t')"
    by (rule thenDo_NoneE)
  from r4 obtain t5 where
    s5: "passthroughStep t4 = (None, t5)"
    and r5: "thenDo (wrapErr ''failed to remove deleted vnis: %w'' []
                (hostDo c (RemoveNonConfiguredVNIs ns toCheck)))
             removeStep t5 = (None, t')"
    by (rule thenDo_NoneE)
  from r5 obtain t6 where
    s6: "wrapErr ''failed to remove deleted vnis: %w'' []
           (hostDo c (RemoveNonConfiguredVNIs ns toCheck)) t5 = (None, t6)"
    and s7: "removeStep t6 = (None, t')"
    by (rule thenDo_NoneE)
  have e1: "t1 = t @ [HostCall (EnsureIPv6Forwarding ns)]"
    and h1: "hostnetwork c t (EnsureIPv6Forwarding ns) = None"
    using wrapErr_hostDo_None[OF s1] by simp_all
  obtain m2 where e2: "t2 = t1 @ m2"
    using s2 hostSetup_extends[of c "SetupUnderlay (hc_Underlay hostConfig)" UnderlayKind
        "ul_Name (hd (Underlays cfg))" "''failed to setup underlay: %w''" "[]" t1]
    by (auto simp: underlayStep_def proceed_def split: if_splits)
  obtain m3 where e3: "t3 = t2 @ m3"
    using setupL3VNIs_None[OF s3] by auto
  have v3: "\<forall>l3vni \<in> set (L3VNIs cfg).
      uint (l3_VNI l3vni) \<in> VNI ` l3p_VNIParams ` set (hc_L3VNIs hostConfig)"
    using setupL3VNIs_None[OF s3] by simp
  obtain m4 where e4: "t4 = t3 @ m4"
    using setupL2VNIs_None[OF s4] by auto
  have v4: "\<forall>l2vni \<in> set (L2VNIs cfg).
      uint (l2_VNI l2vni) \<in> VNI ` l2p_VNIParams ` set (hc_L2VNIs hostConfig)"
    using setupL2VNIs_None[OF s4] by simp
  have "\<exists>m5. t5 = t4 @ m5"
  proof (cases "length (L3Passthrough cfg) > 0")
    case False
    then show ?thesis using s5 by (simp add: passthroughStep_def proceed_def)
  next
    case True
    show ?thesis
    proof (cases "hc_L3Passthrough hostConfig")
      case None
      then show ?thesis using s5 True by (simp add: passthroughStep_def)
    next
      case (Some passthrough)
      then show ?thesis
        using s5 True hostSetup_extends[of c "SetupPassthrough passthrough" L3PassthroughKind
          "pt_Name (hd (L3Passthrough cfg))" "''failed to setup L3Passthrough %s: %w''"
          "[ArgString (pt_Name (hd (L3Passthrough cfg)))]" t4]
        by (simp add: passthroughStep_def)
    qed
  qed
  then obtain m5 where e5: "t5 = t4 @ m5" by auto
  have e6: "t6 = t5 @ [HostCall (RemoveNonConfiguredVNIs ns toCheck)]"
    and h6: "hostnetwork c t5 (RemoveNonConfiguredVNIs ns toCheck) = None"
    using wrapErr_hostDo_None[OF s6] by simp_all
  have e7: "t' = t6 @ (if L3Passthrough apiConfig = [] then [HostCall (RemovePassthrough ns)] else [])"
    and h7: "L3Passthrough apiConfig = [] \<longrightarrow> hostnetwork c t6 (RemovePassthrough ns) = None"
    using s7 wrapErr_hostDo_None[of "''failed to remove passthrough: %w''" "[]" c
        "RemovePassthrough ns" t6 t']
    by (auto simp: removeStep_def proceed_def split: if_splits)
  define mid where "mid = m2 @ m3 @ m4 @ m5"
  have t5_eq: "t5 = t @ [HostCall (EnsureIPv6Forwarding ns)] @ mid"
    by (simp add: e1 e2 e3 e4 e5 mid_def)
  show ?thesis
    unfolding cfg_def[symmetric] ns_def[symmetric] toCheck_def[symmetric]
  proof (intro exI[of _ mid] conjI)
    show "t' = t @ [HostCall (EnsureIPv6Forwarding ns)] @ mid
             @ HostCall (RemoveNonConfiguredVNIs ns toCheck)
             # (if L3Passthrough apiConfig = [] then [HostCall (RemovePassthrough ns)] else [])"
      using e7 e6 t5_eq by simp
    show "hostnetwork c t (EnsureIPv6Forwarding ns) = None" by (rule h1)
    show "hostnetwork c (t @ [HostCall (EnsureIPv6Forwarding ns)] @ mid)
          (RemoveNonConfiguredVNIs ns toCheck) = None"
      using h6 t5_eq by simp
    show "L3Passthrough apiConfig = [] \<longrightarrow>
          hostnetwork c
            (t @ [HostCall (EnsureIPv6Forwarding ns)] @ mid
               @ [HostCall (RemoveNonConfiguredVNIs ns toCheck)])
            (RemovePassthrough ns) = None"
      using h7 e6 t5_eq by simp
    show "\<forall>l3vni \<in> set (L3VNIs cfg).
          uint (l3_VNI l3vni) \<in> VNI ` l3p_VNIParams ` set (hc_L3VNIs hostConfig)" by (rule v3)
    show "\<forall>l2vni \<in> set (L2VNIs cfg).
          uint (l2_VNI l2vni) \<in> VNI ` l2p_VNIParams ` set (hc_L2VNIs hostConfig)" by (rule v4)
  qed
qed


text \<open>
  The events of a pass of \<open>configureInterfaces\<close> that returns \<^verbatim>\<open>nil\<close> with an Underlay
  declared: the check for an underlay interface, \<open>EnsureIPv6Forwarding\<close>, the setup calls,
  \<open>RemoveNonConfiguredVNIs\<close> with the VNI parameters of the converted host configuration, and
  last \<open>RemovePassthrough\<close> when no L3Passthrough is declared.
\<close>

lemma configureInterfaces_None_trace:
  assumes "fst (configureInterfaces c config t) = None"
    and "Underlays (ic_ApiConfigData config) \<noteq> []"
  shows "\<exists>hostConfig mid.
      APItoHostConfig c (NodeIndex (ic_ApiConfigData config)) (targetNamespace config)
        ((ic_ApiConfigData config)\<lparr>LogLevel := []\<rparr>) = Inr hostConfig
    \<and> snd (configureInterfaces c config t) =
        t @ [HostCall (HasUnderlayInterface (targetNamespace config)),
             HostCall (EnsureIPv6Forwarding (targetNamespace config))] @ mid
          @ HostCall (RemoveNonConfiguredVNIs (targetNamespace config) (vnisToCheck hostConfig))
          # (if L3Passthrough (ic_ApiConfigData config) = []
             then [HostCall (RemovePassthrough (targetNamespace config))] else [])
    \<and> hostnetwork c (t @ [HostCall (HasUnderlayInterface (targetNamespace config))])
          (EnsureIPv6Forwarding (targetNamespace config)) = None
    \<and> hostnetwork c
          (t @ [HostCall (HasUnderlayInterface (targetNamespace config)),
                HostCall (EnsureIPv6Forwarding (targetNamespace config))] @ mid)
          (RemoveNonConfiguredVNIs (targetNamespace config) (vnisToCheck hostConfig)) = None
    \<and> (L3Passthrough (ic_ApiConfigData config) = [] \<longrightarrow>
          hostnetwork c
            (t @ [HostCall (HasUnderlayInterface (targetNamespace config)),
                  HostCall (EnsureIPv6Forwarding (targetNamespace config))] @ mid
               @ [HostCall (RemoveNonConfiguredVNIs (targetNamespace config)
                     (vnisToCheck hostConfig))])
            (RemovePassthrough (targetNamespace config)) = None)
    \<and> (\<forall>l3vni \<in> set (L3VNIs (ic_ApiConfigData config)).
          uint (l3_VNI l3vni) \<in> VNI ` set (vnisToCheck hostConfig))
    \<and> (\<forall>l2vni \<in> set (L2VNIs (ic_ApiConfigData config)).
          uint (l2_VNI l2vni) \<in> VNI ` set (vnisToCheck hostConfig))"
proof -
  define cfg where "cfg = ic_ApiConfigData config"
  define ns where "ns = targetNamespace config"
  define t1 where "t1 = t @ [HostCall (HasUnderlayInterface ns)]"
  define apiConfig where "apiConfig = cfg\<lparr>LogLevel := []\<rparr>"
  have api: "\<lparr>UnderlayFromMultus = UnderlayFromMultus cfg, NodeIndex = NodeIndex cfg,
      LogLevel = [], Underlays = Underlays cfg, L3VNIs = L3VNIs cfg, L2VNIs = L2VNIs cfg,
      L3Passthrough = L3Passthrough cfg\<rparr> = apiConfig"
    by (simp add: apiConfig_def)
  have pt: "L3Passthrough apiConfig = L3Passthrough cfg" by (simp add: apiConfig_def)
  have ne: "length (Underlays cfg) \<noteq> 0" using assms(2) by (simp add: cfg_def)
  have unfolded: "configureInterfaces c config t =
     (case hostHasUnderlayInterface c t ns of
        Inl e \<Rightarrow>
          (Some (Errorf ''failed to check if target namespace %s has underlay: %w''
                   [ArgString ns] (Some e)), t1)
      | Inr hasAlreadyUnderlay \<Rightarrow>
          (case APItoHostConfig c (NodeIndex cfg) ns apiConfig of
             Inl e \<Rightarrow>
               (Some (Errorf ''failed to convert config to host configuration: %w'' []
                        (Some e)), t1)
           | Inr hostConfig \<Rightarrow> applyHostConfig c config apiConfig hostConfig t1))"
    using ne unfolding configureInterfaces_def Let_def cfg_def[symmetric] ns_def[symmetric]
      t1_def[symmetric] api
    by (simp split: sum.splits)
  from assms(1) obtain hasAlreadyUnderlay where "hostHasUnderlayInterface c t ns = Inr hasAlreadyUnderlay"
    unfolding unfolded by (cases "hostHasUnderlayInterface c t ns") simp_all
  note has = this
  from assms(1) obtain hostConfig where conv: "APItoHostConfig c (NodeIndex cfg) ns apiConfig = Inr hostConfig"
    unfolding unfolded has by (cases "APItoHostConfig c (NodeIndex cfg) ns apiConfig") simp_all
  have res: "configureInterfaces c config t = applyHostConfig c config apiConfig hostConfig t1"
    unfolding unfolded has conv by simp
  obtain t' where t': "applyHostConfig c config apiConfig hostConfig t1 = (None, t')"
    using assms(1) unfolding res by (cases "applyHostConfig c config apiConfig hostConfig t1") simp
  from applyHostConfig_None[OF t'] show ?thesis
  proof (elim exE conjE)
    fix mid
    assume a: "t' = t1 @ [HostCall (EnsureIPv6Forwarding (targetNamespace config))] @ mid
             @ HostCall (RemoveNonConfiguredVNIs (targetNamespace config)
                  (map l3p_VNIParams (hc_L3VNIs hostConfig)
                   @ map l2p_VNIParams (hc_L2VNIs hostConfig)))
             # (if L3Passthrough apiConfig = []
                then [HostCall (RemovePassthrough (targetNamespace config))] else [])"
      and b: "hostnetwork c t1 (EnsureIPv6Forwarding (targetNamespace config)) = None"
      and d: "hostnetwork c (t1 @ [HostCall (EnsureIPv6Forwarding (targetNamespace config))] @ mid)
          (RemoveNonConfiguredVNIs (targetNamespace config)
             (map l3p_VNIParams (hc_L3VNIs hostConfig)
              @ map l2p_VNIParams (hc_L2VNIs hostConfig))) = None"
      and e: "L3Passthrough apiConfig = [] \<longrightarrow>
          hostnetwork c
            (t1 @ [HostCall (EnsureIPv6Forwarding (targetNamespace config))] @ mid
               @ [HostCall (RemoveNonConfiguredVNIs (targetNamespace config)
                     (map l3p_VNIParams (hc_L3VNIs hostConfig)
                      @ map l2p_VNIParams (hc_L2VNIs hostConfig)))])
            (RemovePassthrough (targetNamespace config)) = None"
      and f: "\<forall>l3vni \<in> set (L3VNIs (ic_ApiConfigData config)).
          uint (l3_VNI l3vni) \<in> VNI ` l3p_VNIParams ` set (hc_L3VNIs hostConfig)"
      and g: "\<forall>l2vni \<in> set (L2VNIs (ic_ApiConfigData config)).
          uint (l2_VNI l2vni) \<in> VNI ` l2p_VNIParams ` set (hc_L2VNIs hostConfig)"
    show ?thesis
    proof (intro exI[of _ hostConfig] exI[of _ mid] conjI)
      show "APItoHostConfig c (NodeIndex (ic_ApiConfigData config)) (targetNamespace config)
          ((ic_ApiConfigData config)\<lparr>LogLevel := []\<rparr>) = Inr hostConfig"
        using conv by (simp add: cfg_def ns_def apiConfig_def)
      show "snd (configureInterfaces c config t) =
        t @ [HostCall (HasUnderlayInterface (targetNamespace config)),
             HostCall (EnsureIPv6Forwarding (targetNamespace config))] @ mid
          @ HostCall (RemoveNonConfiguredVNIs (targetNamespace config) (vnisToCheck hostConfig))
          # (if L3Passthrough (ic_ApiConfigData config) = []
             then [HostCall (RemovePassthrough (targetNamespace config))] else [])"
      proof -
        have "snd (configureInterfaces c config t) = t'" by (simp add: res t')
        then show ?thesis
          unfolding a by (simp add: pt t1_def ns_def cfg_def vnisToCheck_def)
      qed
      show "hostnetwork c (t @ [HostCall (HasUnderlayInterface (targetNamespace config))])
          (EnsureIPv6Forwarding (targetNamespace config)) = None"
        using b by (simp add: t1_def ns_def)
      show "hostnetwork c
          (t @ [HostCall (HasUnderlayInterface (targetNamespace config)),
                HostCall (EnsureIPv6Forwarding (targetNamespace config))] @ mid)
          (RemoveNonConfiguredVNIs (targetNamespace config) (vnisToCheck hostConfig)) = None"
        using d by (simp add: t1_def ns_def vnisToCheck_def)
      show "L3Passthrough (ic_ApiConfigData config) = [] \<longrightarrow>
          hostnetwork c
            (t @ [HostCall (HasUnderlayInterface (targetNamespace config)),
                  HostCall (EnsureIPv6Forwarding (targetNamespace config))] @ mid
               @ [HostCall (RemoveNonConfiguredVNIs (targetNamespace config)
                     (vnisToCheck hostConfig))])
            (RemovePassthrough (targetNamespace config)) = None"
        using e pt by (simp add: t1_def ns_def cfg_def vnisToCheck_def)
      show "\<forall>l3vni \<in> set (L3VNIs (ic_ApiConfigData config)).
          uint (l3_VNI l3vni) \<in> VNI ` set (vnisToCheck hostConfig)"
        using f by (auto simp: vnisToCheck_def)
      show "\<forall>l2vni \<in> set (L2VNIs (ic_ApiConfigData config)).
          uint (l2_VNI l2vni) \<in> VNI ` set (vnisToCheck hostConfig)"
        using g by (auto simp: vnisToCheck_def)
    qed
  qed
qed


lemma hostStateAfter_append:
  "hostStateAfter ns (xs @ ys) s = hostStateAfter ns ys (hostStateAfter ns xs s)"
  by (induction ns xs s rule: hostStateAfter.induct) simp_all

lemma hostCallEffect_forwarding:
  "ipv6Forwarding s \<Longrightarrow> ipv6Forwarding (hostCallEffect ns call s)"
  by (cases call) simp_all

lemma hostStateAfter_forwarding:
  "ipv6Forwarding s \<Longrightarrow> ipv6Forwarding (hostStateAfter ns events s)"
  by (induction ns events s rule: hostStateAfter.induct) (simp_all add: hostCallEffect_forwarding)

lemma oneDescriptorPerVNI_desired:
  assumes "oneDescriptorPerVNI apiConfig hostConfig"
  shows "VNI ` set (vnisToCheck hostConfig) = desiredVNIs apiConfig"
proof -
  have l3: "set (map (\<lambda>params. VNI (l3p_VNIParams params)) (hc_L3VNIs hostConfig))
      = set (map (\<lambda>l3vni. uint (l3_VNI l3vni)) (L3VNIs apiConfig))"
    using assms unfolding oneDescriptorPerVNI_def by (metis set_sort)
  have l2: "set (map (\<lambda>params. VNI (l2p_VNIParams params)) (hc_L2VNIs hostConfig))
      = set (map (\<lambda>l2vni. uint (l2_VNI l2vni)) (L2VNIs apiConfig))"
    using assms unfolding oneDescriptorPerVNI_def by (metis set_sort)
  have "VNI ` set (vnisToCheck hostConfig)
      = set (map (\<lambda>params. VNI (l3p_VNIParams params)) (hc_L3VNIs hostConfig))
        \<union> set (map (\<lambda>params. VNI (l2p_VNIParams params)) (hc_L2VNIs hostConfig))"
    by (simp add: vnisToCheck_def image_Un image_image)
  also have "\<dots> = desiredVNIs apiConfig"
    unfolding l3 l2 by (simp add: desiredVNIs_def)
  finally show ?thesis .
qed

text \<open>
  C4 (as amended). When \<open>configureInterfaces\<close> returns \<^verbatim>\<open>nil\<close> and at least one Underlay is
  declared, then
  \<^item> \<open>EnsureIPv6Forwarding\<close> has been called for the target namespace, first after the check
    for an underlay interface, and returned \<^verbatim>\<open>nil\<close>: IPv6 forwarding is enabled there;
  \<^item> \<open>RemoveNonConfiguredVNIs\<close> has been called for the target namespace after the setup calls,
    with exactly the VNI numbers of the declared L3VNIs and L2VNIs, and returned \<^verbatim>\<open>nil\<close>:
    every VNI that was configured before the pass and whose number is not among them is
    configured no longer, and no VNI is configured whose number is not among them;
  \<^item> \<open>RemovePassthrough\<close> has been called last for the target namespace and returned \<^verbatim>\<open>nil\<close>
    when no L3Passthrough is declared: no passthrough is configured then.

  The state of the host is the one that the specification describes, starting from any state
  \<open>before\<close>, and the converter's result \<open>hostConfig\<close> has one descriptor for each declared VNI,
  as the specification says.
\<close>

theorem configureInterfaces_success_cleans_up:
  assumes "fst (configureInterfaces c config t) = None"
    and "Underlays (ic_ApiConfigData config) \<noteq> []"
    and "APItoHostConfig c (NodeIndex (ic_ApiConfigData config)) (targetNamespace config)
           ((ic_ApiConfigData config)\<lparr>LogLevel := []\<rparr>) = Inr hostConfig"
    and "oneDescriptorPerVNI (ic_ApiConfigData config) hostConfig"
  shows "(\<exists>mid.
        snd (configureInterfaces c config t) =
          t @ [HostCall (HasUnderlayInterface (targetNamespace config)),
               HostCall (EnsureIPv6Forwarding (targetNamespace config))] @ mid
            @ HostCall (RemoveNonConfiguredVNIs (targetNamespace config) (vnisToCheck hostConfig))
            # (if L3Passthrough (ic_ApiConfigData config) = []
               then [HostCall (RemovePassthrough (targetNamespace config))] else [])
      \<and> hostnetwork c (t @ [HostCall (HasUnderlayInterface (targetNamespace config))])
            (EnsureIPv6Forwarding (targetNamespace config)) = None
      \<and> hostnetwork c
            (t @ [HostCall (HasUnderlayInterface (targetNamespace config)),
                  HostCall (EnsureIPv6Forwarding (targetNamespace config))] @ mid)
            (RemoveNonConfiguredVNIs (targetNamespace config) (vnisToCheck hostConfig)) = None
      \<and> (L3Passthrough (ic_ApiConfigData config) = [] \<longrightarrow>
            hostnetwork c
              (t @ [HostCall (HasUnderlayInterface (targetNamespace config)),
                    HostCall (EnsureIPv6Forwarding (targetNamespace config))] @ mid
                 @ [HostCall (RemoveNonConfiguredVNIs (targetNamespace config)
                       (vnisToCheck hostConfig))])
              (RemovePassthrough (targetNamespace config)) = None))
    \<and> VNI ` set (vnisToCheck hostConfig) = desiredVNIs (ic_ApiConfigData config)
    \<and> ipv6Forwarding
         (hostStateAfter (targetNamespace config)
            (drop (length t) (snd (configureInterfaces c config t))) before)
    \<and> (\<forall>n \<in> configuredVNIs before. n \<notin> desiredVNIs (ic_ApiConfigData config) \<longrightarrow>
           n \<notin> configuredVNIs
                 (hostStateAfter (targetNamespace config)
                    (drop (length t) (snd (configureInterfaces c config t))) before))
    \<and> configuredVNIs
         (hostStateAfter (targetNamespace config)
            (drop (length t) (snd (configureInterfaces c config t))) before)
       \<subseteq> desiredVNIs (ic_ApiConfigData config)
    \<and> (L3Passthrough (ic_ApiConfigData config) = [] \<longrightarrow>
          \<not> passthroughConfigured
               (hostStateAfter (targetNamespace config)
                  (drop (length t) (snd (configureInterfaces c config t))) before))"
proof -
  define ns where "ns = targetNamespace config"
  define cfg where "cfg = ic_ApiConfigData config"
  define toCheck where "toCheck = vnisToCheck hostConfig"
  define tail where "tail = (if L3Passthrough cfg = []
      then [HostCall (RemovePassthrough ns) :: 'a event] else [])"
  define new where "new = drop (length t) (snd (configureInterfaces c config t))"
  from configureInterfaces_None_trace[OF assms(1,2)] obtain hc mid where
    conv: "APItoHostConfig c (NodeIndex cfg) ns (cfg\<lparr>LogLevel := []\<rparr>) = Inr hc"
    and tr: "snd (configureInterfaces c config t) =
        t @ [HostCall (HasUnderlayInterface ns), HostCall (EnsureIPv6Forwarding ns)] @ mid
          @ HostCall (RemoveNonConfiguredVNIs ns (vnisToCheck hc)) # tail"
    and h1: "hostnetwork c (t @ [HostCall (HasUnderlayInterface ns)]) (EnsureIPv6Forwarding ns) = None"
    and h2: "hostnetwork c
          (t @ [HostCall (HasUnderlayInterface ns), HostCall (EnsureIPv6Forwarding ns)] @ mid)
          (RemoveNonConfiguredVNIs ns (vnisToCheck hc)) = None"
    and h3: "L3Passthrough cfg = [] \<longrightarrow>
          hostnetwork c
            (t @ [HostCall (HasUnderlayInterface ns), HostCall (EnsureIPv6Forwarding ns)] @ mid
               @ [HostCall (RemoveNonConfiguredVNIs ns (vnisToCheck hc))])
            (RemovePassthrough ns) = None"
    unfolding ns_def cfg_def tail_def by blast
  have hc: "hc = hostConfig" using conv assms(3) by (simp add: ns_def cfg_def)
  have desired: "VNI ` set toCheck = desiredVNIs cfg"
    unfolding toCheck_def cfg_def by (rule oneDescriptorPerVNI_desired[OF assms(4)])
  have new_eq: "new = [HostCall (HasUnderlayInterface ns), HostCall (EnsureIPv6Forwarding ns)]
      @ mid @ [HostCall (RemoveNonConfiguredVNIs ns toCheck)] @ tail"
    unfolding new_def tr hc toCheck_def by simp
  define s1 where "s1 = hostStateAfter ns
      [HostCall (HasUnderlayInterface ns), HostCall (EnsureIPv6Forwarding ns) :: 'a event] before"
  define s2 where "s2 = hostStateAfter ns mid s1"
  define s3 where "s3 = hostStateAfter ns [HostCall (RemoveNonConfiguredVNIs ns toCheck)] s2"
  define s4 where "s4 = hostStateAfter ns tail s3"
  have after: "hostStateAfter ns new before = s4"
    unfolding new_eq hostStateAfter_append s1_def s2_def s3_def s4_def by (rule refl)
  have f1: "ipv6Forwarding s1" by (simp add: s1_def)
  have f2: "ipv6Forwarding s2" unfolding s2_def by (rule hostStateAfter_forwarding[OF f1])
  have f3: "ipv6Forwarding s3" unfolding s3_def by (rule hostStateAfter_forwarding[OF f2])
  have f4: "ipv6Forwarding s4" unfolding s4_def by (rule hostStateAfter_forwarding[OF f3])
  have v3: "configuredVNIs s3 = configuredVNIs s2 \<inter> desiredVNIs cfg"
    by (simp add: s3_def desired)
  have v4: "configuredVNIs s4 = configuredVNIs s3" by (simp add: s4_def tail_def)
  have p4: "L3Passthrough cfg = [] \<longrightarrow> \<not> passthroughConfigured s4"
    by (simp add: s4_def tail_def)
  have sub: "configuredVNIs s4 \<subseteq> desiredVNIs cfg" using v3 v4 by simp
  have trace: "\<exists>mid.
        snd (configureInterfaces c config t) =
          t @ [HostCall (HasUnderlayInterface ns), HostCall (EnsureIPv6Forwarding ns)] @ mid
            @ HostCall (RemoveNonConfiguredVNIs ns (vnisToCheck hostConfig)) # tail
      \<and> hostnetwork c (t @ [HostCall (HasUnderlayInterface ns)]) (EnsureIPv6Forwarding ns) = None
      \<and> hostnetwork c
            (t @ [HostCall (HasUnderlayInterface ns), HostCall (EnsureIPv6Forwarding ns)] @ mid)
            (RemoveNonConfiguredVNIs ns (vnisToCheck hostConfig)) = None
      \<and> (L3Passthrough cfg = [] \<longrightarrow>
            hostnetwork c
              (t @ [HostCall (HasUnderlayInterface ns), HostCall (EnsureIPv6Forwarding ns)] @ mid
                 @ [HostCall (RemoveNonConfiguredVNIs ns (vnisToCheck hostConfig))])
              (RemovePassthrough ns) = None)"
    using tr h1 h2 h3 unfolding hc by (intro exI[of _ mid] conjI)
  show ?thesis
    unfolding ns_def[symmetric] cfg_def[symmetric] new_def[symmetric] after
      toCheck_def[symmetric]
  proof (intro conjI)
    show "\<exists>mid.
        snd (configureInterfaces c config t) =
          t @ [HostCall (HasUnderlayInterface ns), HostCall (EnsureIPv6Forwarding ns)] @ mid
            @ HostCall (RemoveNonConfiguredVNIs ns toCheck)
            # (if L3Passthrough cfg = [] then [HostCall (RemovePassthrough ns)] else [])
      \<and> hostnetwork c (t @ [HostCall (HasUnderlayInterface ns)]) (EnsureIPv6Forwarding ns) = None
      \<and> hostnetwork c
            (t @ [HostCall (HasUnderlayInterface ns), HostCall (EnsureIPv6Forwarding ns)] @ mid)
            (RemoveNonConfiguredVNIs ns toCheck) = None
      \<and> (L3Passthrough cfg = [] \<longrightarrow>
            hostnetwork c
              (t @ [HostCall (HasUnderlayInterface ns), HostCall (EnsureIPv6Forwarding ns)] @ mid
                 @ [HostCall (RemoveNonConfiguredVNIs ns toCheck)])
              (RemovePassthrough ns) = None)"
      using trace unfolding tail_def toCheck_def .
    show "VNI ` set toCheck = desiredVNIs cfg" by (rule desired)
    show "ipv6Forwarding s4" by (rule f4)
    show "\<forall>n \<in> configuredVNIs before. n \<notin> desiredVNIs cfg \<longrightarrow> n \<notin> configuredVNIs s4"
      using sub by blast
    show "configuredVNIs s4 \<subseteq> desiredVNIs cfg" by (rule sub)
    show "L3Passthrough cfg = [] \<longrightarrow> \<not> passthroughConfigured s4" by (rule p4)
  qed
qed

text \<open>
  One Underlay, one L3VNI, one L2VNI and no L3Passthrough, on a host whose calls succeed and
  that starts with the VNIs 100 and 999 and a passthrough: the pass returns \<^verbatim>\<open>nil\<close> after the
  calls below, and leaves IPv6 forwarding enabled, the VNIs 100 and 300, and no passthrough.
\<close>

theorem configureInterfaces_success_cleans_up_witness:
  "fst (configureInterfaces (exampleCollaborators False)
          \<lparr>targetNamespace = ''ns'',
           ic_ApiConfigData = exampleApiConfig [exampleUnderlay ''underlay1'' 64514]
                                [exampleL3VNI ''vni1'' 100 ''red'']
                                [exampleL2VNI ''l2a'' 300 (Some ''blue'')] []\<rparr> []) = None
   \<and> Underlays (exampleApiConfig [exampleUnderlay ''underlay1'' 64514]
                   [exampleL3VNI ''vni1'' 100 ''red'']
                   [exampleL2VNI ''l2a'' 300 (Some ''blue'')] []) \<noteq> []
   \<and> APItoHostConfig (exampleCollaborators False) 0 ''ns''
        ((exampleApiConfig [exampleUnderlay ''underlay1'' 64514]
            [exampleL3VNI ''vni1'' 100 ''red'']
            [exampleL2VNI ''l2a'' 300 (Some ''blue'')] [])\<lparr>LogLevel := []\<rparr>) =
       Inr \<lparr>hc_Underlay = (),
            hc_L3VNIs = [\<lparr>l3p_VNIParams = \<lparr>VNI = 100, vp_rest = ()\<rparr>, l3p_rest = ()\<rparr>],
            hc_L2VNIs = [\<lparr>l2p_VNIParams = \<lparr>VNI = 300, vp_rest = ()\<rparr>, l2p_rest = ()\<rparr>],
            hc_L3Passthrough = None\<rparr>
   \<and> oneDescriptorPerVNI
        (exampleApiConfig [exampleUnderlay ''underlay1'' 64514]
           [exampleL3VNI ''vni1'' 100 ''red'']
           [exampleL2VNI ''l2a'' 300 (Some ''blue'')] [])
        \<lparr>hc_Underlay = (),
         hc_L3VNIs = [\<lparr>l3p_VNIParams = \<lparr>VNI = 100, vp_rest = ()\<rparr>, l3p_rest = ()\<rparr>],
         hc_L2VNIs = [\<lparr>l2p_VNIParams = \<lparr>VNI = 300, vp_rest = ()\<rparr>, l2p_rest = ()\<rparr>],
         hc_L3Passthrough = None\<rparr>
   \<and> snd (configureInterfaces (exampleCollaborators False)
          \<lparr>targetNamespace = ''ns'',
           ic_ApiConfigData = exampleApiConfig [exampleUnderlay ''underlay1'' 64514]
                                [exampleL3VNI ''vni1'' 100 ''red'']
                                [exampleL2VNI ''l2a'' 300 (Some ''blue'')] []\<rparr> []) =
       [HostCall (HasUnderlayInterface ''ns''),
        HostCall (EnsureIPv6Forwarding ''ns''),
        HostCall (SetupUnderlay ()),
        Report (ReportResourceSuccess UnderlayKind ''underlay1''),
        HostCall (SetupL3VNI \<lparr>l3p_VNIParams = \<lparr>VNI = 100, vp_rest = ()\<rparr>, l3p_rest = ()\<rparr>),
        Report (ReportResourceSuccess L3VNIKind ''vni1''),
        HostCall (SetupL2VNI \<lparr>l2p_VNIParams = \<lparr>VNI = 300, vp_rest = ()\<rparr>, l2p_rest = ()\<rparr>),
        Report (ReportResourceSuccess L2VNIKind ''l2a''),
        HostCall (RemoveNonConfiguredVNIs ''ns''
          [\<lparr>VNI = 100, vp_rest = ()\<rparr>, \<lparr>VNI = 300, vp_rest = ()\<rparr>]),
        HostCall (RemovePassthrough ''ns'')]
   \<and> hostStateAfter ''ns''
        (snd (configureInterfaces (exampleCollaborators False)
          \<lparr>targetNamespace = ''ns'',
           ic_ApiConfigData = exampleApiConfig [exampleUnderlay ''underlay1'' 64514]
                                [exampleL3VNI ''vni1'' 100 ''red'']
                                [exampleL2VNI ''l2a'' 300 (Some ''blue'')] []\<rparr> []))
        exampleHostState =
       \<lparr>ipv6Forwarding = True, configuredVNIs = {100, 300}, passthroughConfigured = False\<rparr>"
  using configureInterfaces_success_cleans_up[of "exampleCollaborators False"
      "\<lparr>targetNamespace = ''ns'',
        ic_ApiConfigData = exampleApiConfig [exampleUnderlay ''underlay1'' 64514]
                             [exampleL3VNI ''vni1'' 100 ''red'']
                             [exampleL2VNI ''l2a'' 300 (Some ''blue'')] []\<rparr>" "[]"
      "\<lparr>hc_Underlay = (),
        hc_L3VNIs = [\<lparr>l3p_VNIParams = \<lparr>VNI = 100, vp_rest = ()\<rparr>, l3p_rest = ()\<rparr>],
        hc_L2VNIs = [\<lparr>l2p_VNIParams = \<lparr>VNI = 300, vp_rest = ()\<rparr>, l2p_rest = ()\<rparr>],
        hc_L3Passthrough = None\<rparr>" exampleHostState]
  by (simp add: configureInterfaces_def applyHostConfig_def exampleCollaborators_def
      exampleApiConfig_def exampleUnderlay_def exampleL3VNI_def exampleL2VNI_def
      exampleAPItoHostConfig_def oneDescriptorPerVNI_def exampleHostState_def
      desiredVNIs_def vnisToCheck_def
      thenDo_def wrapErr_def hostDo_def hostSetup_def proceed_def Let_def)

text \<open>
  C4 as stated fails: with no Underlay declared, on a host without an underlay interface,
  \<open>configureInterfaces\<close> returns \<^verbatim>\<open>nil\<close> after the check alone. The host is left as it was:
  IPv6 forwarding is not enabled, the VNI 999 is still configured although only VNI 100 is
  declared, and the passthrough is still configured although none is declared.
\<close>

theorem configureInterfaces_without_underlay_counterexample:
  "configureInterfaces (exampleCollaborators False)
     \<lparr>targetNamespace = ''ns'',
      ic_ApiConfigData = exampleApiConfig [] [exampleL3VNI ''vni1'' 100 ''red''] [] []\<rparr> [] =
   (None, [HostCall (HasUnderlayInterface ''ns'')])
   \<and> hostStateAfter ''ns''
        (snd (configureInterfaces (exampleCollaborators False)
           \<lparr>targetNamespace = ''ns'',
            ic_ApiConfigData = exampleApiConfig [] [exampleL3VNI ''vni1'' 100 ''red''] [] []\<rparr> []))
        exampleHostState = exampleHostState
   \<and> \<not> ipv6Forwarding exampleHostState
   \<and> 999 \<in> configuredVNIs exampleHostState
   \<and> 999 \<notin> desiredVNIs (exampleApiConfig [] [exampleL3VNI ''vni1'' 100 ''red''] [] [])
   \<and> L3Passthrough (exampleApiConfig [] [exampleL3VNI ''vni1'' 100 ''red''] [] []) = []
   \<and> passthroughConfigured exampleHostState"
  by (simp add: configureInterfaces_def exampleCollaborators_def exampleApiConfig_def Let_def
      exampleHostState_def desiredVNIs_def exampleL3VNI_def)

section \<open>Properties of the pipeline\<close>

lemma Reconcile_runSteps:
  "Reconcile c apiConfig frrConfigPath targetNS =
     runSteps
       [(''failed to validate underlays: %w'',
         reporting (ValidateUnderlays (netParseCIDR c) (Underlays apiConfig))),
        (''failed to validate l3vnis: %w'', reporting (ValidateL3VNIs (L3VNIs apiConfig))),
        (''failed to validate l2vnis: %w'',
         reporting (ValidateL2VNIs (l2vniVRFName c) (ipfamilyForCIDRStrings c)
                      (L2VNIs apiConfig))),
        (''failed to validate host sessions: %w'',
         reporting (ValidateHostSessions (netParseCIDR c) (netContains c) (L3VNIs apiConfig)
                      (L3Passthrough apiConfig))),
        (''failed to reload frr config: %w'', configureFRR_step c frrConfigPath apiConfig),
        (''failed to configure the host: %w'',
         configureInterfaces c \<lparr>targetNamespace = targetNS, ic_ApiConfigData = apiConfig\<rparr>)]"
  by (rule ext) (simp add: Reconcile_def thenDo_def wrapErr_def split: prod.splits option.splits)


lemma runSteps_reporting:
  "runSteps ((msg, reporting r) # rest) t =
     (case fst r of
        Some e \<Rightarrow> (Some (Errorf msg [] (Some e)), t @ map Report (snd r))
      | None \<Rightarrow> runSteps rest (t @ map Report (snd r)))"
  by (simp add: reporting_def split: option.splits)

lemma runSteps_validations:
  "runSteps ((m1, reporting r1) # (m2, reporting r2) # (m3, reporting r3) # (m4, reporting r4) # rest) t =
     (if fst r1 \<noteq> None then (Some (Errorf m1 [] (Some (the (fst r1)))), t @ map Report (snd r1))
      else if fst r2 \<noteq> None then
        (Some (Errorf m2 [] (Some (the (fst r2)))), t @ map Report (snd r1 @ snd r2))
      else if fst r3 \<noteq> None then
        (Some (Errorf m3 [] (Some (the (fst r3)))), t @ map Report (snd r1 @ snd r2 @ snd r3))
      else if fst r4 \<noteq> None then
        (Some (Errorf m4 [] (Some (the (fst r4)))),
         t @ map Report (snd r1 @ snd r2 @ snd r3 @ snd r4))
      else runSteps rest (t @ map Report (snd r1 @ snd r2 @ snd r3 @ snd r4)))"
  unfolding runSteps_reporting by (auto split: option.splits)

lemma runSteps_validations_fail:
  assumes "fst r1 \<noteq> None \<or> fst r2 \<noteq> None \<or> fst r3 \<noteq> None \<or> fst r4 \<noteq> None"
  shows "\<exists>e reports.
     runSteps ((m1, reporting r1) # (m2, reporting r2) # (m3, reporting r3) # (m4, reporting r4)
               # rest) t = (Some e, t @ map Report reports)"
proof -
  consider (a) "fst r1 \<noteq> None"
    | (b) "fst r1 = None" "fst r2 \<noteq> None"
    | (c) "fst r1 = None" "fst r2 = None" "fst r3 \<noteq> None"
    | (d) "fst r1 = None" "fst r2 = None" "fst r3 = None" "fst r4 \<noteq> None"
    using assms by blast
  then show ?thesis
  proof cases
    case a
    show ?thesis unfolding runSteps_validations using a
      by (intro exI[of _ "Errorf m1 [] (Some (the (fst r1)))"] exI[of _ "snd r1"]) simp
  next
    case b
    show ?thesis unfolding runSteps_validations using b
      by (intro exI[of _ "Errorf m2 [] (Some (the (fst r2)))"] exI[of _ "snd r1 @ snd r2"]) simp
  next
    case c
    show ?thesis unfolding runSteps_validations using c
      by (intro exI[of _ "Errorf m3 [] (Some (the (fst r3)))"]
            exI[of _ "snd r1 @ snd r2 @ snd r3"]) simp
  next
    case d
    show ?thesis unfolding runSteps_validations using d
      by (intro exI[of _ "Errorf m4 [] (Some (the (fst r4)))"]
            exI[of _ "snd r1 @ snd r2 @ snd r3 @ snd r4"]) simp
  qed
qed

lemma runSteps_frr_host:
  "runSteps [(m5, configureFRR_step c path cfg), (m6, host)] t =
     (case configureFRR c t path cfg of
        Some e \<Rightarrow> (Some (Errorf m5 [] (Some e)), t @ [ConfigureFRR path cfg])
      | None \<Rightarrow>
          (case host (t @ [ConfigureFRR path cfg]) of
             (Some e, t') \<Rightarrow> (Some (Errorf m6 [] (Some e)), t')
           | (None, t') \<Rightarrow> (None, t')))"
  by (simp add: configureFRR_step_def split: option.splits prod.splits)

lemma thenDo_extends:
  assumes "\<And>t. \<exists>m. snd (a t) = t @ m" and "\<And>t. \<exists>m. snd (b t) = t @ m"
  shows "\<exists>m. snd (thenDo a b t) = t @ m"
proof -
  obtain r t1 where at: "a t = (r, t1)" by (cases "a t")
  from assms(1)[of t] at obtain m1 where m1: "t1 = t @ m1" by auto
  from assms(2)[of t1] obtain m2 where m2: "snd (b t1) = t1 @ m2" by auto
  show ?thesis
    using at m1 m2 by (cases r) (auto simp: thenDo_def)
qed

lemma wrapErr_extends:
  assumes "\<And>t. \<exists>m. snd (step t) = t @ m"
  shows "\<exists>m. snd (wrapErr f args step t) = t @ m"
  using assms[of t] by (cases "step t") (auto simp: wrapErr_def split: option.splits)

lemma hostDo_extends: "\<exists>m. snd (hostDo c call t) = t @ m"
  by (simp add: hostDo_def)

lemma proceed_extends: "\<exists>m. snd (proceed t) = t @ m"
  by (simp add: proceed_def)

lemma setupL3VNIs_extends: "\<exists>m. snd (setupL3VNIs c hostConfig l3vnis t) = t @ m"
proof (induction l3vnis arbitrary: t)
  case Nil
  show ?case by (simp add: proceed_def)
next
  case (Cons l3vni l3vnis)
  show ?case
  proof (cases "findHostL3VNI (hc_L3VNIs hostConfig) (uint (l3_VNI l3vni))")
    case None
    then show ?thesis by simp
  next
    case (Some h)
    show ?thesis
      unfolding setupL3VNIs.simps Some option.case
      by (rule thenDo_extends) (rule hostSetup_extends, rule Cons.IH)
  qed
qed

lemma setupL2VNIs_extends: "\<exists>m. snd (setupL2VNIs c hostConfig l2vnis t) = t @ m"
proof (induction l2vnis arbitrary: t)
  case Nil
  show ?case by (simp add: proceed_def)
next
  case (Cons l2vni l2vnis)
  show ?case
  proof (cases "findHostL2VNI (hc_L2VNIs hostConfig) (uint (l2_VNI l2vni))")
    case None
    then show ?thesis by simp
  next
    case (Some h)
    show ?thesis
      unfolding setupL2VNIs.simps Some option.case
      by (rule thenDo_extends) (rule hostSetup_extends, rule Cons.IH)
  qed
qed

lemma applyHostConfig_extends:
  "\<exists>m. snd (applyHostConfig c config apiConfig hostConfig t) = t @ m"
  unfolding applyHostConfig_def Let_def
  by (intro thenDo_extends wrapErr_extends hostDo_extends setupL3VNIs_extends
        setupL2VNIs_extends)
     (auto simp: hostSetup_extends proceed_def intro: wrapErr_extends hostDo_extends
        split: option.splits)

lemma configureInterfaces_extends: "\<exists>m. snd (configureInterfaces c config t) = t @ m"
proof -
  have "\<exists>m. snd (applyHostConfig c config apiConfig hostConfig
                   (t @ [HostCall (HasUnderlayInterface ns)])) = t @ m"
    for apiConfig hostConfig ns
    using applyHostConfig_extends[of c config apiConfig hostConfig
        "t @ [HostCall (HasUnderlayInterface ns)]"] by auto
  then show ?thesis
    by (auto simp: configureInterfaces_def Let_def split: sum.splits)
qed


text \<open>
  C6. \<open>Reconcile\<close> is the run of six steps in this order: validation of the underlays, of
  the L3VNIs, of the L2VNIs, of the host sessions, then \<open>configureFRR\<close>, then
  \<open>configureInterfaces\<close>; the first step that fails ends the run, and its error is returned
  wrapped in the step's message. When a validation fails, \<open>Reconcile\<close> returns an error and
  all it has done is report: neither \<open>configureFRR\<close> nor the host-network layer is called.
  When the validations pass, \<open>configureFRR\<close> is called before any call into the host-network
  layer, and when it fails nothing follows it.
\<close>

theorem Reconcile_ordered_and_aborting:
  "Reconcile c apiConfig frrConfigPath targetNS =
     runSteps
       [(''failed to validate underlays: %w'',
         reporting (ValidateUnderlays (netParseCIDR c) (Underlays apiConfig))),
        (''failed to validate l3vnis: %w'', reporting (ValidateL3VNIs (L3VNIs apiConfig))),
        (''failed to validate l2vnis: %w'',
         reporting (ValidateL2VNIs (l2vniVRFName c) (ipfamilyForCIDRStrings c)
                      (L2VNIs apiConfig))),
        (''failed to validate host sessions: %w'',
         reporting (ValidateHostSessions (netParseCIDR c) (netContains c) (L3VNIs apiConfig)
                      (L3Passthrough apiConfig))),
        (''failed to reload frr config: %w'', configureFRR_step c frrConfigPath apiConfig),
        (''failed to configure the host: %w'',
         configureInterfaces c \<lparr>targetNamespace = targetNS, ic_ApiConfigData = apiConfig\<rparr>)]
   \<and> (fst (ValidateUnderlays (netParseCIDR c) (Underlays apiConfig)) \<noteq> None
        \<or> fst (ValidateL3VNIs (L3VNIs apiConfig)) \<noteq> None
        \<or> fst (ValidateL2VNIs (l2vniVRFName c) (ipfamilyForCIDRStrings c) (L2VNIs apiConfig))
            \<noteq> None
        \<or> fst (ValidateHostSessions (netParseCIDR c) (netContains c) (L3VNIs apiConfig)
                 (L3Passthrough apiConfig)) \<noteq> None
      \<longrightarrow> (\<exists>e reports. Reconcile c apiConfig frrConfigPath targetNS t =
                           (Some e, t @ map Report reports)))
   \<and> (fst (ValidateUnderlays (netParseCIDR c) (Underlays apiConfig)) = None
        \<and> fst (ValidateL3VNIs (L3VNIs apiConfig)) = None
        \<and> fst (ValidateL2VNIs (l2vniVRFName c) (ipfamilyForCIDRStrings c) (L2VNIs apiConfig))
            = None
        \<and> fst (ValidateHostSessions (netParseCIDR c) (netContains c) (L3VNIs apiConfig)
                 (L3Passthrough apiConfig)) = None
      \<longrightarrow> (\<exists>reports rest.
             snd (Reconcile c apiConfig frrConfigPath targetNS t) =
               t @ map Report reports @ ConfigureFRR frrConfigPath apiConfig # rest
           \<and> (configureFRR c (t @ map Report reports) frrConfigPath apiConfig \<noteq> None
                \<longrightarrow> rest = [] \<and> fst (Reconcile c apiConfig frrConfigPath targetNS t) \<noteq> None)))"
proof (intro conjI impI)
  show "Reconcile c apiConfig frrConfigPath targetNS =
     runSteps
       [(''failed to validate underlays: %w'',
         reporting (ValidateUnderlays (netParseCIDR c) (Underlays apiConfig))),
        (''failed to validate l3vnis: %w'', reporting (ValidateL3VNIs (L3VNIs apiConfig))),
        (''failed to validate l2vnis: %w'',
         reporting (ValidateL2VNIs (l2vniVRFName c) (ipfamilyForCIDRStrings c)
                      (L2VNIs apiConfig))),
        (''failed to validate host sessions: %w'',
         reporting (ValidateHostSessions (netParseCIDR c) (netContains c) (L3VNIs apiConfig)
                      (L3Passthrough apiConfig))),
        (''failed to reload frr config: %w'', configureFRR_step c frrConfigPath apiConfig),
        (''failed to configure the host: %w'',
         configureInterfaces c \<lparr>targetNamespace = targetNS, ic_ApiConfigData = apiConfig\<rparr>)]"
    by (rule Reconcile_runSteps)
next
  assume "fst (ValidateUnderlays (netParseCIDR c) (Underlays apiConfig)) \<noteq> None
        \<or> fst (ValidateL3VNIs (L3VNIs apiConfig)) \<noteq> None
        \<or> fst (ValidateL2VNIs (l2vniVRFName c) (ipfamilyForCIDRStrings c) (L2VNIs apiConfig))
            \<noteq> None
        \<or> fst (ValidateHostSessions (netParseCIDR c) (netContains c) (L3VNIs apiConfig)
                 (L3Passthrough apiConfig)) \<noteq> None"
  then show "\<exists>e reports. Reconcile c apiConfig frrConfigPath targetNS t =
                           (Some e, t @ map Report reports)"
    unfolding Reconcile_runSteps by (rule runSteps_validations_fail)
next
  define reports where "reports =
     snd (ValidateUnderlays (netParseCIDR c) (Underlays apiConfig))
     @ snd (ValidateL3VNIs (L3VNIs apiConfig))
     @ snd (ValidateL2VNIs (l2vniVRFName c) (ipfamilyForCIDRStrings c) (L2VNIs apiConfig))
     @ snd (ValidateHostSessions (netParseCIDR c) (netContains c) (L3VNIs apiConfig)
              (L3Passthrough apiConfig))"
  define t1 where "t1 = t @ map Report reports"
  define config where "config = \<lparr>targetNamespace = targetNS, ic_ApiConfigData = apiConfig\<rparr>"
  assume pass: "fst (ValidateUnderlays (netParseCIDR c) (Underlays apiConfig)) = None
        \<and> fst (ValidateL3VNIs (L3VNIs apiConfig)) = None
        \<and> fst (ValidateL2VNIs (l2vniVRFName c) (ipfamilyForCIDRStrings c) (L2VNIs apiConfig))
            = None
        \<and> fst (ValidateHostSessions (netParseCIDR c) (netContains c) (L3VNIs apiConfig)
                 (L3Passthrough apiConfig)) = None"
  have run0: "Reconcile c apiConfig frrConfigPath targetNS t =
     runSteps [(''failed to reload frr config: %w'', configureFRR_step c frrConfigPath apiConfig),
               (''failed to configure the host: %w'', configureInterfaces c config)] t1"
    unfolding Reconcile_runSteps runSteps_validations
    using pass by (simp add: t1_def reports_def config_def)
  have run: "Reconcile c apiConfig frrConfigPath targetNS t =
     (case configureFRR c t1 frrConfigPath apiConfig of
        Some e \<Rightarrow> (Some (Errorf ''failed to reload frr config: %w'' [] (Some e)),
                   t1 @ [ConfigureFRR frrConfigPath apiConfig])
      | None \<Rightarrow>
          (case configureInterfaces c config (t1 @ [ConfigureFRR frrConfigPath apiConfig]) of
             (Some e, t') \<Rightarrow> (Some (Errorf ''failed to configure the host: %w'' [] (Some e)), t')
           | (None, t') \<Rightarrow> (None, t')))"
    unfolding run0 by (rule runSteps_frr_host)
  obtain m where m: "snd (configureInterfaces c config (t1 @ [ConfigureFRR frrConfigPath apiConfig]))
      = (t1 @ [ConfigureFRR frrConfigPath apiConfig]) @ m"
    using configureInterfaces_extends[of c config "t1 @ [ConfigureFRR frrConfigPath apiConfig]"]
    by auto
  define rest where "rest = (if configureFRR c t1 frrConfigPath apiConfig = None then m else [])"
  have "snd (Reconcile c apiConfig frrConfigPath targetNS t) =
               t1 @ ConfigureFRR frrConfigPath apiConfig # rest"
    using m unfolding run rest_def
    by (auto split: option.splits prod.splits)
  then have "snd (Reconcile c apiConfig frrConfigPath targetNS t) =
               t @ map Report reports @ ConfigureFRR frrConfigPath apiConfig # rest"
    by (simp add: t1_def)
  moreover have "configureFRR c t1 frrConfigPath apiConfig \<noteq> None
      \<longrightarrow> rest = [] \<and> fst (Reconcile c apiConfig frrConfigPath targetNS t) \<noteq> None"
    unfolding run rest_def by auto
  then have "configureFRR c (t @ map Report reports) frrConfigPath apiConfig \<noteq> None
      \<longrightarrow> rest = [] \<and> fst (Reconcile c apiConfig frrConfigPath targetNS t) \<noteq> None"
    by (simp add: t1_def)
  ultimately show "\<exists>reports rest.
             snd (Reconcile c apiConfig frrConfigPath targetNS t) =
               t @ map Report reports @ ConfigureFRR frrConfigPath apiConfig # rest
           \<and> (configureFRR c (t @ map Report reports) frrConfigPath apiConfig \<noteq> None
                \<longrightarrow> rest = [] \<and> fst (Reconcile c apiConfig frrConfigPath targetNS t) \<noteq> None)"
    by blast
qed


text \<open>
  Two L3VNIs with VRF \<open>red\<close>: the validation of the L3VNIs fails, and \<open>Reconcile\<close> returns
  its error after the one report, with no call of \<open>configureFRR\<close> or of the host-network
  layer.
\<close>

theorem Reconcile_ordered_and_aborting_witness:
  "fst (ValidateL3VNIs [exampleL3VNI ''vni1'' 100 ''red'', exampleL3VNI ''vni2'' 200 ''red''])
     \<noteq> None
   \<and> Reconcile (exampleCollaborators False)
        (exampleApiConfig [exampleUnderlay ''underlay1'' 64514]
           [exampleL3VNI ''vni1'' 100 ''red'', exampleL3VNI ''vni2'' 200 ''red''] [] [])
        ''/etc/frr/frr.conf'' ''ns'' [] =
      (Some (Errorf ''failed to validate l3vnis: %w'' []
               (Some (Errorf ''duplicate vrf %s: %s - %s''
                        [ArgString ''red'', ArgString ''vni1'', ArgString ''vni2''] None))),
       [Report (ReportResourceFailure L3VNIKind ''vni2''
                  (Errorf ''duplicate vrf %s: %s - %s''
                     [ArgString ''red'', ArgString ''vni1'', ArgString ''vni2''] None))])"
  using Reconcile_ordered_and_aborting[of "exampleCollaborators False"
      "exampleApiConfig [exampleUnderlay ''underlay1'' 64514]
         [exampleL3VNI ''vni1'' 100 ''red'', exampleL3VNI ''vni2'' 200 ''red''] [] []"
      "''/etc/frr/frr.conf''" "''ns''" "[]"]
  by (simp add: Reconcile_def thenDo_def wrapErr_def reporting_def exampleCollaborators_def
      exampleApiConfig_def exampleUnderlay_def exampleL3VNI_def ValidateUnderlays_def
      validateUnderlay_def andThen_def isValidInterfaceName_eth0 ValidateL3VNIs_eq
      validateVNIs_def vnisFromL3VNIs_def validateVNIs_loop.simps isValidInterfaceName_red
      Let_def)

section \<open>Properties of the status manager\<close>

lemma sendTriggerEvent_channel:
  "triggerChannel (sendTriggerEvent er) =
     (if length (triggerChannel er) < triggerChannelCap er
      then triggerChannel er @ [triggerOf er] else triggerChannel er)"
  by (simp add: sendTriggerEvent_def triggerOf_def Let_def)

text \<open>
  C7 (as amended). \<open>ReportResourceSuccess\<close> and \<open>ReportResourceFailure\<close>, for every key, and
  \<open>ReportResourceRemoved\<close> for a key that is in the failure cache, put exactly one trigger
  event at the end of the trigger channel when the channel has room, and leave the channel as
  it is when it is full. \<open>ReportResourceRemoved\<close> for a key that is not in the cache leaves
  the channel as it is.
\<close>

theorem report_enqueues_one_trigger:
  "triggerChannel (SM_ReportResourceSuccess er kind name) =
     (if length (triggerChannel er) < triggerChannelCap er
      then triggerChannel er @ [triggerOf er] else triggerChannel er)
   \<and> triggerChannel (SM_ReportResourceFailure er now kind name e) =
     (if length (triggerChannel er) < triggerChannelCap er
      then triggerChannel er @ [triggerOf er] else triggerChannel er)
   \<and> triggerChannel (SM_ReportResourceRemoved er kind name) =
     (if failedResourceCache er (kind @ '':'' @ name) \<noteq> None
         \<and> length (triggerChannel er) < triggerChannelCap er
      then triggerChannel er @ [triggerOf er] else triggerChannel er)"
  by (simp add: SM_ReportResourceSuccess_def SM_ReportResourceFailure_def
      SM_ReportResourceRemoved_def sendTriggerEvent_channel triggerOf_def Let_def)

text \<open>
  A failure is reported and then the resource is removed, on an empty channel: each call
  adds one trigger.
\<close>

theorem report_enqueues_one_trigger_witness:
  "triggerChannel (SM_ReportResourceFailure (exampleStatusManager []) 1000 L3VNIKind ''vni1''
                     (External ''link not found'')) =
     [triggerOf (exampleStatusManager [])]
   \<and> triggerChannel
        (SM_ReportResourceRemoved
           (SM_ReportResourceFailure (exampleStatusManager []) 1000 L3VNIKind ''vni1''
              (External ''link not found''))
           L3VNIKind ''vni1'') =
     [triggerOf (exampleStatusManager []), triggerOf (exampleStatusManager [])]"
  using report_enqueues_one_trigger[of "exampleStatusManager []" L3VNIKind "''vni1''" 1000
      "External ''link not found''"]
    report_enqueues_one_trigger[of
      "SM_ReportResourceFailure (exampleStatusManager []) 1000 L3VNIKind ''vni1''
         (External ''link not found'')" L3VNIKind "''vni1''" 1000 "External ''link not found''"]
  by (simp add: exampleStatusManager_def SM_ReportResourceFailure_def sendTriggerEvent_def
      triggerOf_def Let_def)

text \<open>
  C7 as stated fails: \<open>ReportResourceRemoved\<close> for a resource that is not in the failure
  cache sends no trigger, although the channel is empty.
\<close>

theorem removed_without_entry_counterexample:
  "length (triggerChannel (exampleStatusManager [])) < triggerChannelCap (exampleStatusManager [])
   \<and> triggerChannel (SM_ReportResourceRemoved (exampleStatusManager []) L3VNIKind ''vni1'') = []"
  by (simp add: exampleStatusManager_def SM_ReportResourceRemoved_def Let_def)

section \<open>Properties of the status reconciler\<close>

lemma zeroTransitionTimes_from:
  "zeroTransitionTimes i conds =
     take i conds @ map (\<lambda>c. c\<lparr>cond_LastTransitionTime := 0\<rparr>) (drop i conds)"
proof (induction i conds rule: zeroTransitionTimes.induct)
  case (1 i conds)
  show ?case
  proof (cases "i < length conds")
    case False
    then show ?thesis by (simp add: zeroTransitionTimes.simps[of i conds])
  next
    case True
    let ?f = "\<lambda>c. c\<lparr>cond_LastTransitionTime := 0\<rparr>"
    let ?conds' = "conds[i := ?f (conds ! i)]"
    have "zeroTransitionTimes i conds = zeroTransitionTimes (Suc i) ?conds'"
      using True by (simp add: zeroTransitionTimes.simps[of i conds])
    also have "\<dots> = take (Suc i) ?conds' @ map ?f (drop (Suc i) ?conds')"
      using "1.IH"[OF True] .
    also have "take (Suc i) ?conds' = take i conds @ [?f (conds ! i)]"
      using True by (simp add: take_Suc_conv_app_nth)
    also have "drop (Suc i) ?conds' = drop (Suc i) conds"
      by simp
    finally show ?thesis
      using True by (simp add: Cons_nth_drop_Suc[symmetric])
  qed
qed

lemma normalizedCopy_withoutTimestamps: "normalizedCopy a = withoutTimestamps a"
  by (cases "Conditions a")
     (simp_all add: normalizedCopy_def withoutTimestamps_def zeroTransitionTimes_from Let_def)


lemma patchIfChanged_equal:
  "statusEqual (rn_Status obj) (buildStatus r) \<Longrightarrow> patchIfChanged r obj t = (None, t)"
  by (simp add: patchIfChanged_def Let_def)

lemma patchIfChanged_calls:
  "ClientStatusPatch patched base \<in> set (snd (patchIfChanged r obj t)) \<Longrightarrow>
   ClientStatusPatch patched base \<notin> set t \<Longrightarrow>
   \<not> statusEqual (rn_Status base) (buildStatus r) \<and> rn_Status patched = buildStatus r"
  by (auto simp: patchIfChanged_def Let_def split: if_splits)

lemma createRouterNodeStatus_calls:
  "ClientStatusPatch patched base \<in> set (snd (createRouterNodeStatus r t)) \<Longrightarrow>
   ClientStatusPatch patched base \<in> set t"
  by (auto simp: createRouterNodeStatus_def Let_def split: sum.splits)

text \<open>
  C8. \<open>statusEqual a b\<close> holds exactly when \<open>a\<close> and \<open>b\<close> are equal once the top-level
  \<open>LastUpdateTime\<close> of both is unset and the \<open>LastTransitionTime\<close> of every condition is the
  zero value. When the status of the object that the reconciler has read is equal in this
  sense to the status it has built, the reconciler makes no call but the read and returns
  \<^verbatim>\<open>nil\<close>; and every status patch it issues is against an object whose status differs in this
  sense from the status built, which is the status it sets.
\<close>

theorem status_patched_only_when_changed:
  "(statusEqual a b \<longleftrightarrow> withoutTimestamps a = withoutTimestamps b)
   \<and> (clientGet r t (MyNode r) (MyNamespace r) = Inr found
        \<and> statusEqual (rn_Status found) (buildStatus r)
      \<longrightarrow> StatusReconcile r t = (None, t @ [ClientGet (MyNode r) (MyNamespace r)]))
   \<and> (\<forall>patched base.
         ClientStatusPatch patched base \<in> set (snd (StatusReconcile r t))
         \<and> ClientStatusPatch patched base \<notin> set t
       \<longrightarrow> \<not> statusEqual (rn_Status base) (buildStatus r) \<and> rn_Status patched = buildStatus r)"
proof -
  have p1: "statusEqual a b \<longleftrightarrow> withoutTimestamps a = withoutTimestamps b"
    by (simp add: statusEqual_def normalizedCopy_withoutTimestamps)
  have p2: "clientGet r t (MyNode r) (MyNamespace r) = Inr found
        \<and> statusEqual (rn_Status found) (buildStatus r)
      \<longrightarrow> StatusReconcile r t = (None, t @ [ClientGet (MyNode r) (MyNamespace r)])"
    by (simp add: StatusReconcile_def Let_def patchIfChanged_equal)
  have p3: "\<not> statusEqual (rn_Status base) (buildStatus r) \<and> rn_Status patched = buildStatus r"
    if h: "ClientStatusPatch patched base \<in> set (snd (StatusReconcile r t))
         \<and> ClientStatusPatch patched base \<notin> set t" for patched base
  proof -
  define t1 where "t1 = t @ [ClientGet (MyNode r) (MyNamespace r)]"
  have n1: "ClientStatusPatch patched base \<notin> set t1" using h by (simp add: t1_def)
  show ?thesis
  proof (cases "clientGet r t (MyNode r) (MyNamespace r)")
    case (Inr found)
    then have "StatusReconcile r t = patchIfChanged r found t1"
      by (simp add: StatusReconcile_def Let_def t1_def)
    with h n1 show ?thesis using patchIfChanged_calls[of patched base r found t1] by simp
  next
    case (Inl e)
    show ?thesis
    proof (cases "IsNotFound r e")
      case False
      then have "StatusReconcile r t = (Some e, t1)"
        using Inl by (simp add: StatusReconcile_def Let_def t1_def)
      with h n1 show ?thesis by simp
    next
      case True
      obtain res t2 where c: "createRouterNodeStatus r t1 = (res, t2)"
        by (cases "createRouterNodeStatus r t1")
      have n2: "ClientStatusPatch patched base \<notin> set t2"
        using createRouterNodeStatus_calls[of patched base r t1] c n1 by auto
      show ?thesis
      proof (cases res)
        case (Some e')
        then have "StatusReconcile r t = (Some e', t2)"
          using Inl True c by (simp add: StatusReconcile_def Let_def t1_def)
        with h n2 show ?thesis by simp
      next
        case None
        define t3 where "t3 = t2 @ [ClientGet (MyNode r) (MyNamespace r)]"
        have n3: "ClientStatusPatch patched base \<notin> set t3" using n2 by (simp add: t3_def)
        show ?thesis
        proof (cases "clientGet r t2 (MyNode r) (MyNamespace r)")
          case (Inl e')
          then have "StatusReconcile r t = (Some e', t3)"
            using \<open>clientGet r t (MyNode r) (MyNamespace r) = Inl e\<close> True c None
            by (simp add: StatusReconcile_def Let_def t1_def t3_def)
          with h n3 show ?thesis by simp
        next
          case (Inr created)
          then have "StatusReconcile r t = patchIfChanged r created t3"
            using \<open>clientGet r t (MyNode r) (MyNamespace r) = Inl e\<close> True c None
            by (simp add: StatusReconcile_def Let_def t1_def t3_def)
          with h n3 show ?thesis using patchIfChanged_calls[of patched base r created t3] by simp
        qed
      qed
    qed
  qed
  qed
  have p3': "\<forall>patched base.
         ClientStatusPatch patched base \<in> set (snd (StatusReconcile r t))
         \<and> ClientStatusPatch patched base \<notin> set t
       \<longrightarrow> \<not> statusEqual (rn_Status base) (buildStatus r) \<and> rn_Status patched = buildStatus r"
    using p3 by (intro allI impI)
  show ?thesis by (intro conjI) (rule p1, rule p2, rule p3')
qed

lemma buildStatus_example: "buildStatus (exampleStatusReconciler stored) = exampleStatus 2000"
  by (simp add: buildStatus_def buildConditions_def exampleStatusReconciler_def
      exampleStatus_def Let_def)

text \<open>
  The stored status was built at the instant 1000 and nothing has failed since: the status
  built at the instant 2000 is equal to it up to the timestamps, and the reconciler only
  reads.
\<close>

theorem status_patched_only_when_changed_witness:
  "statusEqual (exampleStatus 1000) (exampleStatus 2000)
   \<and> StatusReconcile (exampleStatusReconciler (exampleStatus 1000)) [] =
       (None, [ClientGet ''node1'' ''openperouter-system''])"
  using status_patched_only_when_changed[of "exampleStatus 1000" "exampleStatus 2000"
      "exampleStatusReconciler (exampleStatus 1000)" "[]"
      "\<lparr>rn_Name = ''node1'', rn_Namespace = ''openperouter-system'', rn_OwnerReferences = [],
        rn_Status = exampleStatus 1000\<rparr>"]
  by (simp add: buildStatus_example)
     (simp add: exampleStatusReconciler_def exampleStatus_def withoutTimestamps_def)

section \<open>Properties of the admission webhook for L3VNIs\<close>

text \<open>
  C10. When the \<open>LocalCIDR\<close> of the old and of the new object differ (an object without a
  host session has the empty \<open>LocalCIDR\<close>), \<open>validateL3VNIUpdate\<close> returns an error, and
  \<open>Handle\<close> denies the update request from which the two objects were decoded; when the old
  raw object of the request has size 0, the old object is the zero value.
\<close>

theorem LocalCIDR_change_denied:
  assumes "localCIDR (l3_HostSession oldL3VNI) \<noteq> localCIDR (l3_HostSession l3vni)"
  shows "validateL3VNIUpdate v l3vni oldL3VNI = Some (ErrorsNew ''LocalCIDR cannot be changed'')
     \<and> (Operation req = Update \<and> Decode v req = Inr l3vni
          \<and> (if RawExtension_Size v (OldObject req) > 0
              then DecodeRaw v (OldObject req) = Inr oldL3VNI
              else oldL3VNI = zeroL3VNI)
        \<longrightarrow> Handle v req = Denied (ErrorsNew ''LocalCIDR cannot be changed''))"
proof
  show u: "validateL3VNIUpdate v l3vni oldL3VNI = Some (ErrorsNew ''LocalCIDR cannot be changed'')"
    using assms by (simp add: validateL3VNIUpdate_def)
  have ops: "Update \<noteq> Delete" "Update \<noteq> Create"
    by (simp_all add: Update_def Delete_def Create_def)
  have d: "handleDecoded v Update l3vni oldL3VNI = Denied (ErrorsNew ''LocalCIDR cannot be changed'')"
    using u ops by (simp add: handleDecoded_def)
  show "Operation req = Update \<and> Decode v req = Inr l3vni
          \<and> (if RawExtension_Size v (OldObject req) > 0
              then DecodeRaw v (OldObject req) = Inr oldL3VNI
              else oldL3VNI = zeroL3VNI)
        \<longrightarrow> Handle v req = Denied (ErrorsNew ''LocalCIDR cannot be changed'')"
    using d ops by (auto simp: Handle_def split: if_splits)
qed

text \<open>
  An update that moves the IPv4 \<open>LocalCIDR\<close> of an L3VNI from \<open>192.168.1.0/24\<close> to
  \<open>192.168.2.0/24\<close> is denied.
\<close>

theorem LocalCIDR_change_denied_witness:
  "localCIDR (l3_HostSession (exampleL3VNIWithSession ''vni1'' 1001 ''red'' ''192.168.1.0/24''))
     \<noteq> localCIDR (l3_HostSession (exampleL3VNIWithSession ''vni1'' 1001 ''red'' ''192.168.2.0/24''))
   \<and> Handle (exampleL3VNIValidator
               (exampleL3VNIWithSession ''vni1'' 1001 ''red'' ''192.168.2.0/24'')
               (exampleL3VNIWithSession ''vni1'' 1001 ''red'' ''192.168.1.0/24''))
        \<lparr>Operation = Update, Object = Some ''new'', OldObject = Some ''old''\<rparr> =
      Denied (ErrorsNew ''LocalCIDR cannot be changed'')"
  using LocalCIDR_change_denied[of
      "exampleL3VNIWithSession ''vni1'' 1001 ''red'' ''192.168.1.0/24''"
      "exampleL3VNIWithSession ''vni1'' 1001 ''red'' ''192.168.2.0/24''"
      "exampleL3VNIValidator
         (exampleL3VNIWithSession ''vni1'' 1001 ''red'' ''192.168.2.0/24'')
         (exampleL3VNIWithSession ''vni1'' 1001 ''red'' ''192.168.1.0/24'')"
      "\<lparr>Operation = Update, Object = Some ''new'', OldObject = Some ''old''\<rparr>"]
  by (simp add: localCIDR_def exampleL3VNIWithSession_def exampleL3VNIValidator_def)

end
